(* ===== verification/Prelude.thy ===== *)
theory Prelude
  imports Complex_Main "HOL-Library.AList" "HOL-Library.Multiset"
begin

text \<open>
  Shared vocabulary of the development: the Python exceptions that the modelled code
  raises or catches, the result type of a fallible operation, decimal digit strings
  (Python's \<open>str\<close> of a non-negative int, \<open>%0Nd\<close> zero padding, and the digit
  parsing inside \<open>int()\<close> and \<open>pd.to_datetime\<close>), floor-division facts used by
  the calendar, Python's rounding of floats, and association-list facts used for
  Python's insertion-ordered dicts.
\<close>

named_theorems calendar_simps "rules that evaluate the calendar functions on concrete dates"

section \<open>Python exceptions as values\<close>

datatype py_error =
    KeyError string      \<comment> \<open>\<open>d[k]\<close> on a missing key\<close>
  | ValueError           \<comment> \<open>\<open>int(s)\<close> or \<open>pd.to_datetime(s)\<close> on a malformed string\<close>
  | TypeError            \<comment> \<open>\<open>os.environ[k] = v\<close> with a non-string \<open>v\<close>\<close>
  | AttributeError       \<comment> \<open>a string method called on a non-string\<close>
  | RequestException     \<comment> \<open>a network or HTTP failure of an external call\<close>

type_synonym 'a result = "py_error + 'a"

section \<open>Decimal digit strings\<close>

definition digit_char :: "nat \<Rightarrow> char" where
  "digit_char n = ''0123456789'' ! n"

definition is_digit :: "char \<Rightarrow> bool" where
  "is_digit c \<longleftrightarrow> 48 \<le> (of_char c :: nat) \<and> (of_char c :: nat) \<le> 57"

definition digit_value :: "char \<Rightarrow> nat" where
  "digit_value c = of_char c - 48"

text \<open>\<open>str(n)\<close> for a non-negative Python int.\<close>

fun show_nat :: "nat \<Rightarrow> string" where
  "show_nat n = (if n < 10 then [digit_char n] else show_nat (n div 10) @ [digit_char (n mod 10)])"

declare show_nat.simps [simp del]

text \<open>Zero padding to a minimum width, as \<open>'%04d'\<close> and \<open>'%02d'\<close> do.\<close>

definition zfill :: "nat \<Rightarrow> string \<Rightarrow> string" where
  "zfill k s = replicate (k - length s) (CHR ''0'') @ s"

text \<open>\<open>str(n)\<close> for any Python int.\<close>

definition show_int :: "int \<Rightarrow> string" where
  "show_int n = (if n < 0 then CHR ''-'' # show_nat (nat (- n)) else show_nat (nat n))"

text \<open>The whitespace that \<open>int()\<close> strips from both ends: the characters of the
  8-bit range for which \<open>str.isspace\<close> holds (tab to carriage return, the separators
  0x1C to 0x1F, space, NEL 0x85 and no-break space 0xA0). HOL's \<open>char\<close> is a byte, so
  the wider Unicode spaces are outside the model's strings.\<close>

definition is_space :: "char \<Rightarrow> bool" where
  "is_space c \<longleftrightarrow> (9 \<le> (of_char c :: nat) \<and> (of_char c :: nat) \<le> 13) \<or>
     (28 \<le> (of_char c :: nat) \<and> (of_char c :: nat) \<le> 32) \<or> c = CHR 0x85 \<or> c = CHR 0xA0"

definition py_strip :: "string \<Rightarrow> string" where
  "py_strip s = rev (dropWhile is_space (rev (dropWhile is_space s)))"

text \<open>\<open>sep.join(xs)\<close>.\<close>

fun py_join :: "string \<Rightarrow> string list \<Rightarrow> string" where
  "py_join sep [] = []"
| "py_join sep [x] = x"
| "py_join sep (x # y # zs) = x @ sep @ py_join sep (y # zs)"

text \<open>The value of a non-empty string of decimal digits; \<open>None\<close> for any other string.\<close>

definition digits_value :: "string \<Rightarrow> nat option" where
  "digits_value s =
     (if s \<noteq> [] \<and> list_all is_digit s
      then Some (foldl (\<lambda>a c. 10 * a + digit_value c) 0 s) else None)"

section \<open>Rounding\<close>

text \<open>Python rounds half to even, on the exact value of its argument, in \<open>round(x, n)\<close>
  and in the \<open>'.2f'\<close> format. Floats are modelled as reals, so the value rounded is
  the exact real.\<close>

definition round_half_even :: "real \<Rightarrow> int" where
  "round_half_even x =
     (let f = \<lfloor>x\<rfloor>; r = x - of_int f
      in if r < 1/2 then f else if 1/2 < r then f + 1 else if even f then f else f + 1)"

text \<open>\<open>round(x, 2)\<close>.\<close>

definition py_round2 :: "real \<Rightarrow> real" where
  "py_round2 x = of_int (round_half_even (x * 100)) / 100"

text \<open>The digits of a Python integer literal: decimal digits with single
  underscores between them (\<open>int('1_000')\<close> is 1000; a leading, trailing or doubled
  underscore raises).\<close>

fun no_double_underscore :: "string \<Rightarrow> bool" where
  "no_double_underscore (a # b # cs) \<longleftrightarrow>
     \<not> (a = CHR ''_'' \<and> b = CHR ''_'') \<and> no_double_underscore (b # cs)"
| "no_double_underscore _ \<longleftrightarrow> True"

definition py_digits :: "string \<Rightarrow> nat option" where
  "py_digits s =
     (if s \<noteq> [] \<and> hd s \<noteq> CHR ''_'' \<and> last s \<noteq> CHR ''_'' \<and> no_double_underscore s \<and>
         list_all (\<lambda>c. is_digit c \<or> c = CHR ''_'') s
      then digits_value (filter (\<lambda>c. c \<noteq> CHR ''_'') s) else None)"

text \<open>\<open>int(s)\<close> on a string: surrounding whitespace, an optional sign, the digits;
  anything else raises \<open>ValueError\<close>.\<close>

definition py_int :: "string \<Rightarrow> int result" where
  "py_int s =
     (let t = py_strip s in
      case t of
        [] \<Rightarrow> Inl ValueError
      | c # ds \<Rightarrow>
          (if c = CHR ''-'' then (case py_digits ds of Some n \<Rightarrow> Inr (- int n) | None \<Rightarrow> Inl ValueError)
           else if c = CHR ''+'' then (case py_digits ds of Some n \<Rightarrow> Inr (int n) | None \<Rightarrow> Inl ValueError)
           else (case py_digits t of Some n \<Rightarrow> Inr (int n) | None \<Rightarrow> Inl ValueError)))"

lemma digit_char_props [simp]:
  "n < 10 \<Longrightarrow> digit_value (digit_char n) = n"
  "n < 10 \<Longrightarrow> is_digit (digit_char n)"
  by (auto simp: numeral_eq_Suc less_Suc_eq digit_value_def digit_char_def is_digit_def)

lemma digit_char_not_dash [simp]: "n < 10 \<Longrightarrow> digit_char n \<noteq> CHR ''-''"
  by (auto simp: numeral_eq_Suc less_Suc_eq digit_char_def)

lemma show_nat_nonempty [simp]: "show_nat n \<noteq> []"
  by (subst show_nat.simps) simp

lemma show_nat_digits: "list_all is_digit (show_nat n)"
proof (induction n rule: show_nat.induct)
  case (1 n)
  then show ?case by (subst show_nat.simps) simp
qed

lemma show_nat_no_dash: "CHR ''-'' \<notin> set (show_nat n)"
proof (induction n rule: show_nat.induct)
  case (1 n)
  then show ?case by (subst show_nat.simps) (auto dest: sym)
qed

lemma foldl_show_nat: "foldl (\<lambda>a c. 10 * a + digit_value c) 0 (show_nat n) = n"
proof (induction n rule: show_nat.induct)
  case (1 n)
  then show ?case by (subst show_nat.simps) simp
qed

lemma length_show_nat: "n < 10 ^ k \<Longrightarrow> 0 < k \<Longrightarrow> length (show_nat n) \<le> k"
proof (induction n arbitrary: k rule: show_nat.induct)
  case (1 n)
  show ?case
  proof (cases "n < 10")
    case True
    with "1.prems" show ?thesis by (subst show_nat.simps) simp
  next
    case False
    with "1.prems" have "k \<noteq> 0" "k \<noteq> 1" by auto
    then obtain j where k: "k = Suc j" and j: "0 < j" by (cases k) auto
    from "1.prems" k have "n div 10 < 10 ^ j" by (simp add: less_mult_imp_div_less mult.commute)
    with False j "1.IH" have "length (show_nat (n div 10)) \<le> j" by simp
    with False k show ?thesis by (subst show_nat.simps) simp
  qed
qed

lemma foldl_zeros:
  "foldl (\<lambda>a c. 10 * a + digit_value c) 0 (replicate j (CHR ''0'') @ s) =
   foldl (\<lambda>a c. 10 * a + digit_value c) 0 s"
  by (induction j) (simp_all add: digit_value_def)

lemma digits_value_zfill_show_nat [simp]:
  "digits_value (zfill k (show_nat n)) = Some n"
proof -
  have "list_all is_digit (replicate (k - length (show_nat n)) (CHR ''0''))"
    by (simp add: list_all_iff is_digit_def)
  then show ?thesis
    using show_nat_digits foldl_zeros foldl_show_nat
    by (simp add: digits_value_def zfill_def)
qed

lemma length_zfill: "length s \<le> k \<Longrightarrow> length (zfill k s) = k"
  by (simp add: zfill_def)

lemma zfill_no_dash: "CHR ''-'' \<notin> set (zfill k (show_nat n))"
  by (simp add: zfill_def show_nat_no_dash)

lemma round_half_even_of_int [simp]: "round_half_even (of_int n) = n"
  by (simp add: round_half_even_def)

lemma py_round2_cents [simp]: "py_round2 (of_int n / 100) = of_int n / 100"
  by (simp add: py_round2_def)

lemma digits_value_show_nat [simp]: "digits_value (show_nat n) = Some n"
  using digits_value_zfill_show_nat [of 0 n] by (simp add: zfill_def)

lemma digit_not_underscore: "is_digit c \<Longrightarrow> c \<noteq> CHR ''_''"
  by (auto simp: is_digit_def)

lemma no_double_underscore_digits: "list_all is_digit s \<Longrightarrow> no_double_underscore s"
  by (induction s rule: no_double_underscore.induct) (auto dest: digit_not_underscore)

lemma py_digits_digits: "s \<noteq> [] \<Longrightarrow> list_all is_digit s \<Longrightarrow> py_digits s = digits_value s"
proof -
  assume a: "s \<noteq> []" "list_all is_digit s"
  then have d: "\<forall>c\<in>set s. is_digit c" by (simp add: list_all_iff)
  then have f: "filter (\<lambda>c. c \<noteq> CHR ''_'') s = s"
    by (intro filter_True) (blast dest: digit_not_underscore)
  have "hd s \<noteq> CHR ''_''" "last s \<noteq> CHR ''_''"
    using d a(1) hd_in_set last_in_set digit_not_underscore by blast+
  moreover have "list_all (\<lambda>c. is_digit c \<or> c = CHR ''_'') s"
    using d by (simp add: list_all_iff)
  ultimately show ?thesis
    using a(1) f no_double_underscore_digits [OF a(2)] by (simp only: py_digits_def if_True simp_thms)
qed

lemma py_digits_show_nat [simp]: "py_digits (show_nat n) = Some n"
  using py_digits_digits [OF show_nat_nonempty show_nat_digits] by simp

lemma digit_value_inj:
  "is_digit a \<Longrightarrow> is_digit b \<Longrightarrow> digit_value a = digit_value b \<Longrightarrow> a = b"
proof -
  assume "is_digit a" "is_digit b" "digit_value a = digit_value b"
  then have "(of_char a :: nat) = of_char b" unfolding is_digit_def digit_value_def by linarith
  then show "a = b" by (metis char_of_char)
qed

lemma digit_value_lt: "is_digit c \<Longrightarrow> digit_value c < 10"
  by (auto simp: is_digit_def digit_value_def)

text \<open>A digit string is determined by its length and its value: this is what makes
  zero-padded fields read back as written.\<close>

lemma foldl_digits_inj:
  "length a = length b \<Longrightarrow> list_all is_digit a \<Longrightarrow> list_all is_digit b \<Longrightarrow>
   foldl (\<lambda>v c. 10 * v + digit_value c) 0 a = foldl (\<lambda>v c. 10 * v + digit_value c) 0 b \<Longrightarrow> a = b"
proof (induction a arbitrary: b rule: rev_induct)
  case Nil
  then show ?case by simp
next
  case (snoc x xs)
  obtain ys y where b: "b = ys @ [y]"
    using snoc.prems(1) by (cases b rule: rev_cases) auto
  have dx: "is_digit x" and dy: "is_digit y"
    using snoc.prems(2,3) b by simp_all
  let ?f = "\<lambda>v c. 10 * v + digit_value c"
  have eq: "10 * foldl ?f 0 xs + digit_value x = 10 * foldl ?f 0 ys + digit_value y"
    using snoc.prems(4) b by simp
  have "digit_value x = digit_value y"
    using arg_cong [OF eq, of "\<lambda>n. n mod 10"] digit_value_lt [OF dx] digit_value_lt [OF dy] by simp
  moreover have "foldl ?f 0 xs = foldl ?f 0 ys"
    using eq calculation by simp
  ultimately show ?case
    using snoc.IH [of ys] snoc.prems b digit_value_inj [OF dx dy] by simp
qed

lemma digits_value_inj:
  "length a = length b \<Longrightarrow> digits_value a = Some v \<Longrightarrow> digits_value b = Some v \<Longrightarrow> a = b"
  by (rule foldl_digits_inj) (auto simp: digits_value_def split: if_splits)

lemma foldl_digits_bound:
  "list_all is_digit t \<Longrightarrow> foldl (\<lambda>v c. 10 * v + digit_value c) 0 t < 10 ^ length t"
proof (induction t rule: rev_induct)
  case Nil
  then show ?case by simp
next
  case (snoc x xs)
  let ?v = "foldl (\<lambda>v c. 10 * v + digit_value c) 0 xs"
  have "?v + 1 \<le> 10 ^ length xs" "digit_value x < 10"
    using snoc digit_value_lt [of x] by simp_all
  then have "10 * ?v + digit_value x < 10 * 10 ^ length xs" by linarith
  then show ?case by simp
qed

lemma digits_value_bound: "digits_value t = Some v \<Longrightarrow> v < 10 ^ length t"
  using foldl_digits_bound [of t] by (auto simp: digits_value_def split: if_splits)

lemma digits_value_zfill:
  assumes "digits_value t = Some v"
  shows "zfill (length t) (show_nat v) = t"
proof -
  have "length (show_nat v) \<le> length t"
    using assms digits_value_bound [OF assms] length_show_nat [of v "length t"]
    by (cases t) (auto simp: digits_value_def)
  then have "length (zfill (length t) (show_nat v)) = length t" by (rule length_zfill)
  then show ?thesis
    using digits_value_inj [OF _ digits_value_zfill_show_nat assms(1)] by blast
qed

lemma show_nat_no_space: "list_all (\<lambda>c. \<not> is_space c) (show_nat n)"
proof -
  have "\<not> is_space c" if "is_digit c" for c
    using that by (auto simp: is_digit_def is_space_def)
  then show ?thesis using show_nat_digits [of n] by (auto simp: list_all_iff)
qed

lemma py_strip_id: "xs \<noteq> [] \<Longrightarrow> \<not> is_space (hd xs) \<Longrightarrow> \<not> is_space (last xs) \<Longrightarrow> py_strip xs = xs"
proof -
  assume a: "xs \<noteq> []" "\<not> is_space (hd xs)" "\<not> is_space (last xs)"
  then have "dropWhile is_space xs = xs" by (cases xs) auto
  moreover have "dropWhile is_space (rev xs) = rev xs" using a by (cases "rev xs") (auto simp: last_rev)
  ultimately show ?thesis by (simp add: py_strip_def)
qed

lemma py_int_show_int: "py_int (show_int n) = Inr n"
proof -
  have ns: "\<not> is_space (hd (show_nat k))" "\<not> is_space (last (show_nat k))" for k
    using show_nat_no_space [of k] show_nat_nonempty [of k]
    by (auto simp: list_all_iff)
  have nd: "hd (show_nat k) \<noteq> CHR ''-'' \<and> hd (show_nat k) \<noteq> CHR ''+''" for k
  proof -
    have "is_digit (hd (show_nat k))" using show_nat_digits [of k] show_nat_nonempty [of k]
      by (cases "show_nat k") auto
    then show ?thesis by (auto simp: is_digit_def)
  qed
  show ?thesis
  proof (cases "n < 0")
    case True
    have "py_strip (CHR ''-'' # show_nat (nat (- n))) = CHR ''-'' # show_nat (nat (- n))"
      using ns [of "nat (- n)"] by (intro py_strip_id) (simp_all add: is_space_def)
    with True show ?thesis by (simp add: show_int_def py_int_def)
  next
    case False
    obtain c cs where sc: "show_nat (nat n) = c # cs"
      using show_nat_nonempty [of "nat n"] by (cases "show_nat (nat n)") auto
    have st: "py_strip (c # cs) = c # cs"
      using ns [of "nat n"] unfolding sc by (intro py_strip_id) simp_all
    have pd: "py_digits (c # cs) = Some (nat n)"
      using py_digits_show_nat [of "nat n"] unfolding sc .
    have "c \<noteq> CHR ''-''" "c \<noteq> CHR ''+''"
      using nd [of "nat n"] unfolding sc by simp_all
    then have "py_int (c # cs) = Inr n"
      using st pd False by (simp add: py_int_def)
    then show ?thesis using False sc by (simp add: show_int_def)
  qed
qed

section \<open>Floor division\<close>

text \<open>Python's \<open>//\<close> is HOL's \<open>div\<close> on \<open>int\<close>; one more unit steps the quotient
  exactly at the multiples of the divisor.\<close>

lemma div_step: "0 < (k::int) \<Longrightarrow> y div k = (y - 1) div k + (if y mod k = 0 then 1 else 0)"
proof -
  assume k: "0 < k"
  define q r where "q = (y - 1) div k" and "r = (y - 1) mod k"
  have y: "y = (r + 1) + q * k" by (simp add: q_def r_def)
  have r: "0 \<le> r" "r < k" using k by (simp_all add: r_def)
  show ?thesis
  proof (cases "r + 1 = k")
    case True
    then have "y = (q + 1) * k" using y by (simp add: algebra_simps)
    then have "y div k = q + 1" "y mod k = 0" using k by simp_all
    then show ?thesis by (simp add: q_def)
  next
    case False
    then have b: "0 \<le> r + 1" "r + 1 < k" using r by auto
    have "y div k = q" unfolding y using b by simp
    moreover have "y mod k = r + 1" unfolding y using b by simp
    ultimately show ?thesis using r by (simp add: q_def)
  qed
qed

section \<open>Association lists\<close>

text \<open>\<open>AList.update\<close> replaces the value of a present key in place and appends a new
  key at the end, as assignment to a Python dict does.\<close>

lemma set_update_subset: "set (AList.update k v al) \<subseteq> insert (k, v) (set al)"
  by (induction al) auto

lemma list_all_update: "list_all P al \<Longrightarrow> P (k, v) \<Longrightarrow> list_all P (AList.update k v al)"
  using set_update_subset [of k v al] by (auto simp: list_all_iff)

lemma map_fst_update:
  "map fst (AList.update k v al) = (if k \<in> set (map fst al) then map fst al else map fst al @ [k])"
  by (induction al) auto

text \<open>\<open>rev (remdups (rev xs))\<close> is the list of the distinct elements of \<open>xs\<close> in the
  order of their first occurrence: the key order of a Python dict filled from \<open>xs\<close>.\<close>

lemma remdups_mid: "k \<in> set ys \<Longrightarrow> remdups (xs @ k # ys) = remdups (xs @ ys)"
  by (induction xs) auto

lemma first_seen_distinct: "distinct xs \<Longrightarrow> rev (remdups (rev xs)) = xs"
  by (simp add: distinct_remdups_id)

end
