(* ===== verification/Tokens.thy ===== *)
theory Tokens
  imports Prelude
begin

text \<open>
  The token store and the token lifecycle of src/app.py. The credential lives in
  \<open>os.environ\<close> under \<open>ACCESS_TOKEN\<close>, \<open>REFRESH_TOKEN\<close> and \<open>EXPIRES_AT\<close>
  (\<open>save_token\<close>, \<open>load_token\<close>); \<open>refresh_token_if_needed\<close> refreshes it through Strava
  when it has expired; \<open>get_access_token\<close> returns it or the authorisation URL;
  \<open>authorized\<close> exchanges the code of the OAuth callback. The process-wide variable
  \<open>access_token\<close> is a field of the state.

  Strava is the external collaborator: its token endpoint is a parameter \<open>api\<close> from
  the refresh token (or the authorisation code) to the response dict or the exception
  \<open>stravalib\<close> raises. Every call to it is recorded in the state, so that "no network
  call" and "exactly one refresh" are statements about the model.
\<close>

datatype jval = JStr string | JInt int

text \<open>A token response: the dict \<open>stravalib\<close> returns (\<open>access_token\<close>,
  \<open>refresh_token\<close>, \<open>expires_at\<close>, possibly more keys).\<close>

type_synonym token_response = "(string \<times> jval) list"

type_synonym token_api = "string \<Rightarrow> token_response result"

text \<open>What \<open>load_token\<close> returns.\<close>

record token_info =
  ti_access :: string
  ti_refresh :: string
  ti_expires :: int

text \<open>The configuration read from the environment at start-up.\<close>

record config =
  client_id :: string
  client_secret :: string
  redirect_uri :: string

record app_state =
  environ :: "string \<rightharpoonup> string"
  access_token :: "jval option"
  refresh_calls :: "string list"
  exchange_calls :: "string list"

text \<open>The Flask responses of the routes.\<close>

datatype response = Redirect string | Page string nat

section \<open>Python operations on dicts and the environment\<close>

definition py_getitem :: "(string \<times> jval) list \<Rightarrow> string \<Rightarrow> jval result" where
  "py_getitem d k = (case map_of d k of None \<Rightarrow> Inl (KeyError k) | Some v \<Rightarrow> Inr v)"

definition py_str :: "jval \<Rightarrow> string" where
  "py_str v = (case v of JStr s \<Rightarrow> s | JInt n \<Rightarrow> show_int n)"

text \<open>Truthiness of a Python value (\<open>None\<close> is \<open>None\<close> of the option).\<close>

definition py_truthy :: "jval option \<Rightarrow> bool" where
  "py_truthy v = (case v of None \<Rightarrow> False | Some (JStr s) \<Rightarrow> s \<noteq> [] | Some (JInt n) \<Rightarrow> n \<noteq> 0)"

text \<open>\<open>os.environ[k] = v\<close> accepts strings only.\<close>

definition environ_set :: "string \<Rightarrow> jval \<Rightarrow> (string \<rightharpoonup> string) \<Rightarrow> (string \<rightharpoonup> string) result" where
  "environ_set k v e = (case v of JStr s \<Rightarrow> Inr (e(k \<mapsto> s)) | JInt _ \<Rightarrow> Inl TypeError)"

section \<open>The token store (src/app.py)\<close>

text \<open>\<open>save_token\<close>: three assignments in sequence; an exception in the second or third
  leaves the earlier ones done. The result pairs the outcome with the environment.\<close>

definition save_token :: "token_response \<Rightarrow> (string \<rightharpoonup> string) \<Rightarrow> unit result \<times> (string \<rightharpoonup> string)" where
  "save_token r e =
     (case py_getitem r ''access_token'' of
        Inl err \<Rightarrow> (Inl err, e)
      | Inr a \<Rightarrow>
     (case environ_set ''ACCESS_TOKEN'' a e of
        Inl err \<Rightarrow> (Inl err, e)
      | Inr e1 \<Rightarrow>
     (case py_getitem r ''refresh_token'' of
        Inl err \<Rightarrow> (Inl err, e1)
      | Inr rt \<Rightarrow>
     (case environ_set ''REFRESH_TOKEN'' rt e1 of
        Inl err \<Rightarrow> (Inl err, e1)
      | Inr e2 \<Rightarrow>
     (case py_getitem r ''expires_at'' of
        Inl err \<Rightarrow> (Inl err, e2)
      | Inr x \<Rightarrow> (Inr (), e2(''EXPIRES_AT'' \<mapsto> py_str x)))))))"

text \<open>\<open>load_token\<close>: \<open>None\<close> unless all three variables are set; \<open>int()\<close> of
  \<open>EXPIRES_AT\<close> may raise.\<close>

definition load_token :: "(string \<rightharpoonup> string) \<Rightarrow> token_info option result" where
  "load_token e =
     (case (e ''ACCESS_TOKEN'', e ''REFRESH_TOKEN'', e ''EXPIRES_AT'') of
        (Some a, Some r, Some x) \<Rightarrow>
          (case py_int x of
             Inl err \<Rightarrow> Inl err
           | Inr n \<Rightarrow> Inr (Some \<lparr>ti_access = a, ti_refresh = r, ti_expires = n\<rparr>))
      | _ \<Rightarrow> Inr None)"

section \<open>The token lifecycle (src/app.py)\<close>

text \<open>\<open>refresh_token_if_needed\<close>: \<open>load_token\<close> runs outside the \<open>try\<close>, so its
  exception propagates; inside the \<open>try\<close> the refresh call, \<open>save_token\<close> and the final
  lookup may raise, and every exception there gives \<open>None\<close>. \<open>now\<close> is
  \<open>time.time()\<close>.\<close>

definition refresh_token_if_needed ::
  "token_api \<Rightarrow> real \<Rightarrow> app_state \<Rightarrow> jval option result \<times> app_state" where
  "refresh_token_if_needed api now s =
     (case load_token (environ s) of
        Inl err \<Rightarrow> (Inl err, s)
      | Inr None \<Rightarrow> (Inr None, s)
      | Inr (Some ti) \<Rightarrow>
          (if real_of_int (ti_expires ti) < now then
             (let s1 = s\<lparr>refresh_calls := refresh_calls s @ [ti_refresh ti]\<rparr> in
              case api (ti_refresh ti) of
                Inl _ \<Rightarrow> (Inr None, s1)
              | Inr resp \<Rightarrow>
                  (case save_token resp (environ s1) of
                     (Inl _, e') \<Rightarrow> (Inr None, s1\<lparr>environ := e'\<rparr>)
                   | (Inr _, e') \<Rightarrow>
                       (case py_getitem resp ''access_token'' of
                          Inl _ \<Rightarrow> (Inr None, s1\<lparr>environ := e'\<rparr>)
                        | Inr a \<Rightarrow> (Inr (Some a), s1\<lparr>environ := e'\<rparr>))))
           else (Inr (Some (JStr (ti_access ti))), s)))"

text \<open>\<open>urllib.parse.urlencode\<close> of a dict, as \<open>stravalib\<close> builds the query: each key and
  value through \<open>quote_plus\<close> (letters, digits and \<open>_.-~\<close> kept, space as \<open>+\<close>,
  every other byte as \<open>%XX\<close>), the pairs joined by \<open>&\<close>.\<close>

definition hex_digit :: "nat \<Rightarrow> char" where
  "hex_digit n = ''0123456789ABCDEF'' ! n"

definition url_safe :: "char \<Rightarrow> bool" where
  "url_safe c \<longleftrightarrow> c \<in> set (''ABCDEFGHIJKLMNOPQRSTUVWXYZabcdefghijklmnopqrstuvwxyz0123456789_.-~'')"

fun quote_plus :: "string \<Rightarrow> string" where
  "quote_plus [] = []"
| "quote_plus (c # cs) =
     (if url_safe c then [c]
      else if c = CHR '' '' then ''+''
      else [CHR ''%'', hex_digit (of_char c div 16), hex_digit (of_char c mod 16)]) @ quote_plus cs"

definition urlencode :: "(string \<times> string) list \<Rightarrow> string" where
  "urlencode ps = py_join ''&'' (map (\<lambda>(k, v). quote_plus k @ ''='' @ quote_plus v) ps)"

text \<open>\<open>client.authorization_url(client_id, redirect_uri, scope)\<close> of \<open>stravalib\<close>
  with the scope list of the code, joined by commas.\<close>

definition authorization_url :: "config \<Rightarrow> string" where
  "authorization_url cfg =
     ''https://www.strava.com/oauth/authorize?'' @
     urlencode [(''client_id'', client_id cfg), (''redirect_uri'', redirect_uri cfg),
                (''approval_prompt'', ''auto''), (''response_type'', ''code''),
                (''scope'', py_join '','' [''read_all'', ''profile:read_all'', ''activity:read_all''])]"

text \<open>\<open>get_access_token\<close>: the global \<open>access_token\<close> is assigned the refresh result;
  a falsy result gives the authorisation URL instead of a token.\<close>

definition get_access_token :: "config \<Rightarrow> token_api \<Rightarrow> real \<Rightarrow> app_state \<Rightarrow> jval result \<times> app_state" where
  "get_access_token cfg api now s =
     (case refresh_token_if_needed api now s of
        (Inl err, s') \<Rightarrow> (Inl err, s')
      | (Inr t, s') \<Rightarrow>
          (let s'' = s'\<lparr>access_token := t\<rparr> in
           if \<not> py_truthy t then (Inr (JStr (authorization_url cfg)), s'')
           else (Inr (the t), s'')))"

text \<open>The \<open>/authorized\<close> route: \<open>code\<close> is \<open>request.args.get('code')\<close>.\<close>

definition authorization_failed :: string where
  "authorization_failed = ''Authorization failed. Please check the logs for more details.''"

definition authorized :: "token_api \<Rightarrow> string option \<Rightarrow> app_state \<Rightarrow> response \<times> app_state" where
  "authorized api code s =
     (case code of
        None \<Rightarrow> (Page ''No authorization code was provided.'' 400, s)
      | Some c \<Rightarrow>
          (if c = [] then (Page ''No authorization code was provided.'' 400, s)
           else
             (let s1 = s\<lparr>exchange_calls := exchange_calls s @ [c]\<rparr> in
              case api c of
                Inl _ \<Rightarrow> (Page authorization_failed 200, s1)
              | Inr resp \<Rightarrow>
                  (case py_getitem resp ''access_token'' of
                     Inl _ \<Rightarrow> (Page authorization_failed 200, s1)
                   | Inr a \<Rightarrow>
                       (let s2 = s1\<lparr>access_token := Some a\<rparr> in
                        case save_token resp (environ s2) of
                          (Inl _, e') \<Rightarrow> (Page authorization_failed 200, s2\<lparr>environ := e'\<rparr>)
                        | (Inr _, e') \<Rightarrow> (Redirect ''/'', s2\<lparr>environ := e'\<rparr>))))))"

section \<open>Specification\<close>

text \<open>A well-formed token response: the three keys with the types Strava sends.\<close>

definition well_formed_response :: "token_response \<Rightarrow> string \<Rightarrow> string \<Rightarrow> int \<Rightarrow> bool" where
  "well_formed_response r a rt x \<longleftrightarrow>
     map_of r ''access_token'' = Some (JStr a) \<and> map_of r ''refresh_token'' = Some (JStr rt) \<and>
     map_of r ''expires_at'' = Some (JInt x)"

text \<open>The stored credential replaced as a whole.\<close>

definition stored :: "(string \<rightharpoonup> string) \<Rightarrow> string \<Rightarrow> string \<Rightarrow> int \<Rightarrow> (string \<rightharpoonup> string)" where
  "stored e a rt x = e(''ACCESS_TOKEN'' \<mapsto> a, ''REFRESH_TOKEN'' \<mapsto> rt, ''EXPIRES_AT'' \<mapsto> show_int x)"

section \<open>Example configuration and states\<close>

definition tok_cfg :: config where
  "tok_cfg = \<lparr>client_id = ''12345'', client_secret = ''s3cr3t'',
              redirect_uri = ''http://localhost:5000/authorized''\<rparr>"

definition tok_state :: "(string \<rightharpoonup> string) \<Rightarrow> app_state" where
  "tok_state e = \<lparr>environ = e, access_token = None, refresh_calls = [], exchange_calls = []\<rparr>"

definition tok_response :: token_response where
  "tok_response = [(''token_type'', JStr ''Bearer''), (''access_token'', JStr ''new789''),
                   (''refresh_token'', JStr ''ref012''), (''expires_at'', JInt 1700021600)]"

definition tok_api_ok :: token_api where
  "tok_api_ok c = Inr tok_response"

definition tok_api_down :: token_api where
  "tok_api_down c = Inl RequestException"

section \<open>Lemmas on the token store\<close>

lemmas token_simps = py_getitem_def environ_set_def py_str_def py_truthy_def

lemma save_token_wf:
  "well_formed_response r a rt x \<Longrightarrow> save_token r e = (Inr (), stored e a rt x)"
  by (simp add: well_formed_response_def save_token_def stored_def token_simps)

lemma load_token_stored:
  "load_token (stored e a rt x) = Inr (Some \<lparr>ti_access = a, ti_refresh = rt, ti_expires = x\<rparr>)"
  by (simp add: load_token_def stored_def py_int_show_int)

text \<open>Every outcome of \<open>save_token\<close>: on success the three variables are written; on an
  exception a prefix of the three assignments has been done.\<close>

lemma save_token_cases:
  assumes "save_token r e = (res, e')"
  obtains (ok) a rt x where "res = Inr ()" "map_of r ''access_token'' = Some (JStr a)"
      "map_of r ''refresh_token'' = Some (JStr rt)" "map_of r ''expires_at'' = Some x"
      "e' = e(''ACCESS_TOKEN'' \<mapsto> a, ''REFRESH_TOKEN'' \<mapsto> rt, ''EXPIRES_AT'' \<mapsto> py_str x)"
  | (none) err where "res = Inl err" "e' = e"
  | (one) err a where "res = Inl err" "e' = e(''ACCESS_TOKEN'' \<mapsto> a)"
  | (two) err a rt where "res = Inl err" "e' = e(''ACCESS_TOKEN'' \<mapsto> a, ''REFRESH_TOKEN'' \<mapsto> rt)"
  using assms
  by (auto simp: save_token_def token_simps split: option.splits jval.splits)

lemma save_token_Inr:
  "save_token r e = (Inr u, e') \<Longrightarrow> \<exists>a. py_getitem r ''access_token'' = Inr a"
  by (auto simp: save_token_def token_simps split: option.splits jval.splits)

section \<open>Lemmas on the lifecycle\<close>

lemma refresh_valid:
  "load_token (environ s) = Inr (Some ti) \<Longrightarrow> \<not> real_of_int (ti_expires ti) < now \<Longrightarrow>
   refresh_token_if_needed api now s = (Inr (Some (JStr (ti_access ti))), s)"
  by (simp add: refresh_token_if_needed_def)

lemma refresh_api_failed:
  "load_token (environ s) = Inr (Some ti) \<Longrightarrow> real_of_int (ti_expires ti) < now \<Longrightarrow>
   api (ti_refresh ti) = Inl err \<Longrightarrow>
   refresh_token_if_needed api now s = (Inr None, s\<lparr>refresh_calls := refresh_calls s @ [ti_refresh ti]\<rparr>)"
  by (simp add: refresh_token_if_needed_def)

lemma refresh_response:
  "load_token (environ s) = Inr (Some ti) \<Longrightarrow> real_of_int (ti_expires ti) < now \<Longrightarrow>
   api (ti_refresh ti) = Inr r \<Longrightarrow> save_token r (environ s) = (res, e') \<Longrightarrow>
   refresh_token_if_needed api now s =
     (case res of Inl _ \<Rightarrow> Inr None | Inr _ \<Rightarrow> Inr (Some (the (map_of r ''access_token''))),
      s\<lparr>refresh_calls := refresh_calls s @ [ti_refresh ti], environ := e'\<rparr>)"
  by (cases res) (auto simp: refresh_token_if_needed_def token_simps dest: save_token_Inr
      split: option.splits)

lemma refresh_wf_response:
  "load_token (environ s) = Inr (Some ti) \<Longrightarrow> real_of_int (ti_expires ti) < now \<Longrightarrow>
   api (ti_refresh ti) = Inr r \<Longrightarrow> well_formed_response r a rt x \<Longrightarrow>
   refresh_token_if_needed api now s =
     (Inr (Some (JStr a)), s\<lparr>refresh_calls := refresh_calls s @ [ti_refresh ti],
                              environ := stored (environ s) a rt x\<rparr>)"
  using refresh_response [where api = api and s = s, of ti now r] save_token_wf
  by (simp add: well_formed_response_def)

lemma refresh_load_error:
  "load_token (environ s) = Inl err \<Longrightarrow> refresh_token_if_needed api now s = (Inl err, s)"
  by (simp add: refresh_token_if_needed_def)

lemma refresh_absent:
  "load_token (environ s) = Inr None \<Longrightarrow> refresh_token_if_needed api now s = (Inr None, s)"
  by (simp add: refresh_token_if_needed_def)

lemma get_access_token_refresh_result:
  "refresh_token_if_needed api now s = (Inr t, s') \<Longrightarrow>
   get_access_token cfg api now s =
     (Inr (if py_truthy t then the t else JStr (authorization_url cfg)), s'\<lparr>access_token := t\<rparr>)"
  by (simp add: get_access_token_def)

lemma load_token_update_access:
  "load_token e = Inr (Some ti) \<Longrightarrow> load_token (e(''ACCESS_TOKEN'' \<mapsto> a)) = Inr (Some (ti\<lparr>ti_access := a\<rparr>))"
  by (auto simp: load_token_def split: option.splits sum.splits)

lemma load_token_absent:
  "e ''REFRESH_TOKEN'' = None \<Longrightarrow> load_token e = Inr None"
  by (simp add: load_token_def split: option.splits)

lemma refresh_calls_bound:
  "refresh_token_if_needed api now s = (res, s') \<Longrightarrow>
   (refresh_calls s' = refresh_calls s \<or> (\<exists>rt. refresh_calls s' = refresh_calls s @ [rt])) \<and>
   exchange_calls s' = exchange_calls s"
  by (auto simp: refresh_token_if_needed_def Let_def
      split: sum.splits option.splits if_splits prod.splits)

section \<open>Properties of the token lifecycle\<close>

text \<open>A stored token that has not expired is returned unchanged: no refresh call,
  the environment untouched; only the global \<open>access_token\<close> is set.\<close>

lemma get_access_token_valid:
  assumes "load_token (environ s) = Inr (Some ti)" "\<not> real_of_int (ti_expires ti) < now"
    "ti_access ti \<noteq> []"
  shows "get_access_token cfg api now s =
         (Inr (JStr (ti_access ti)), s\<lparr>access_token := Some (JStr (ti_access ti))\<rparr>)"
  using get_access_token_refresh_result [OF refresh_valid [OF assms(1,2)]] assms(3)
  by (simp add: py_truthy_def)

text \<open>C1: an expired token with a well-formed refresh response: exactly one refresh
  call, with the stored refresh token; the three variables replaced together; the new
  access token returned; and \<open>load_token\<close> reads back the new credential.\<close>

theorem get_access_token_refresh:
  assumes "load_token (environ s) = Inr (Some ti)" "real_of_int (ti_expires ti) < now"
    "api (ti_refresh ti) = Inr r" "well_formed_response r a rt x" "a \<noteq> []"
  shows "get_access_token cfg api now s =
           (Inr (JStr a), s\<lparr>refresh_calls := refresh_calls s @ [ti_refresh ti],
                            environ := stored (environ s) a rt x, access_token := Some (JStr a)\<rparr>) \<and>
         load_token (stored (environ s) a rt x) =
           Inr (Some \<lparr>ti_access = a, ti_refresh = rt, ti_expires = x\<rparr>)"
  using get_access_token_refresh_result [OF refresh_wf_response [where api = api and s = s, OF assms(1-4)]] assms(5)
    load_token_stored by (simp add: py_truthy_def)

text \<open>C2: an expired token whose refresh call fails: the environment is not changed,
  the call is made once, and the caller gets the authorisation URL, as when no
  credential is stored.\<close>

theorem get_access_token_refresh_failed:
  assumes "load_token (environ s) = Inr (Some ti)" "real_of_int (ti_expires ti) < now"
    "api (ti_refresh ti) = Inl err"
  shows "get_access_token cfg api now s =
         (Inr (JStr (authorization_url cfg)),
          s\<lparr>refresh_calls := refresh_calls s @ [ti_refresh ti], access_token := None\<rparr>)"
  using get_access_token_refresh_result [OF refresh_api_failed [where api = api and s = s, OF assms]]
  by (simp add: py_truthy_def)

text \<open>With no stored credential the caller gets the authorisation URL, which starts
  with \<open>http\<close> (the test \<open>index\<close> redirects on), and nothing is called or written.\<close>

lemma get_access_token_unauthenticated:
  assumes "load_token (environ s) = Inr None"
  shows "get_access_token cfg api now s = (Inr (JStr (authorization_url cfg)), s\<lparr>access_token := None\<rparr>) \<and>
         take 4 (authorization_url cfg) = ''http''"
  using get_access_token_refresh_result [OF refresh_absent [OF assms]]
  by (simp add: py_truthy_def authorization_url_def)

lemma save_token_missing_refresh:
  "map_of r ''access_token'' = Some (JStr a) \<Longrightarrow> map_of r ''refresh_token'' = None \<Longrightarrow>
   save_token r e = (Inl (KeyError ''refresh_token''), e(''ACCESS_TOKEN'' \<mapsto> a))"
  by (simp add: save_token_def token_simps)

lemma get_access_token_fields:
  "get_access_token cfg api now s = (res, s') \<Longrightarrow> refresh_token_if_needed api now s = (r0, s0) \<Longrightarrow>
   refresh_calls s' = refresh_calls s0 \<and> exchange_calls s' = exchange_calls s0 \<and> environ s' = environ s0"
  by (auto simp: get_access_token_def Let_def split: sum.splits if_splits)

text \<open>C3: a refresh response without \<open>refresh_token\<close> (a malformed response) is
  half-saved: \<open>ACCESS_TOKEN\<close> is overwritten before the \<open>KeyError\<close>, the caller is sent
  to authorisation, and the store now pairs the new access token with the old refresh
  token and the old expiry, which the next \<open>load_token\<close> returns.\<close>

theorem refresh_partial_write:
  assumes "load_token (environ s) = Inr (Some ti)" "real_of_int (ti_expires ti) < now"
    "api (ti_refresh ti) = Inr r" "map_of r ''access_token'' = Some (JStr a)"
    "map_of r ''refresh_token'' = None"
  shows "get_access_token cfg api now s =
           (Inr (JStr (authorization_url cfg)),
            s\<lparr>refresh_calls := refresh_calls s @ [ti_refresh ti],
              environ := (environ s)(''ACCESS_TOKEN'' \<mapsto> a), access_token := None\<rparr>) \<and>
         load_token ((environ s)(''ACCESS_TOKEN'' \<mapsto> a)) = Inr (Some (ti\<lparr>ti_access := a\<rparr>))"
proof -
  have "refresh_token_if_needed api now s =
          (Inr None, s\<lparr>refresh_calls := refresh_calls s @ [ti_refresh ti],
                       environ := (environ s)(''ACCESS_TOKEN'' \<mapsto> a)\<rparr>)"
    using refresh_response [where api = api and s = s, OF assms(1-3) save_token_missing_refresh [OF assms(4,5)]]
    by simp
  from get_access_token_refresh_result [OF this] show ?thesis
    using load_token_update_access [OF assms(1)] by (simp add: py_truthy_def)
qed

text \<open>C9: a token whose \<open>expires_at\<close> equals the current time is not refreshed: the
  code refreshes only when \<open>expires_at < time.time()\<close>.\<close>

theorem refresh_at_expiry:
  "load_token (environ s) = Inr (Some ti) \<Longrightarrow>
   refresh_token_if_needed api (real_of_int (ti_expires ti)) s = (Inr (Some (JStr (ti_access ti))), s)"
  by (simp add: refresh_valid)

text \<open>C8: a stored \<open>EXPIRES_AT\<close> that \<open>int()\<close> rejects raises out of
  \<open>get_access_token\<close> (it is read outside the \<open>try\<close>), with the state unchanged.\<close>

theorem get_access_token_bad_expiry:
  assumes "environ s ''ACCESS_TOKEN'' = Some a" "environ s ''REFRESH_TOKEN'' = Some rt"
    "environ s ''EXPIRES_AT'' = Some x" "py_int x = Inl err"
  shows "get_access_token cfg api now s = (Inl err, s)"
proof -
  have "load_token (environ s) = Inl err" using assms by (simp add: load_token_def)
  then show ?thesis by (simp add: get_access_token_def refresh_load_error)
qed

text \<open>C4: one call of \<open>get_access_token\<close> makes at most one refresh call and no code
  exchange.\<close>

theorem get_access_token_one_refresh:
  "get_access_token cfg api now s = (res, s') \<Longrightarrow>
   (refresh_calls s' = refresh_calls s \<or> (\<exists>rt. refresh_calls s' = refresh_calls s @ [rt])) \<and>
   exchange_calls s' = exchange_calls s"
proof -
  assume g: "get_access_token cfg api now s = (res, s')"
  obtain r0 s0 where r: "refresh_token_if_needed api now s = (r0, s0)" by fastforce
  show ?thesis using get_access_token_fields [OF g r] refresh_calls_bound [OF r] by simp
qed

section \<open>Properties of the authorisation callback\<close>

text \<open>A request without a code, or with an empty one, is answered 400 without any
  call or change of state.\<close>

lemma authorized_no_code:
  "code = None \<or> code = Some [] \<Longrightarrow>
   authorized api code s = (Page ''No authorization code was provided.'' 400, s)"
  by (auto simp: authorized_def)

text \<open>C5: a code exchanged for a well-formed response is stored (the three variables),
  set as the global token, and the user is redirected to \<open>/\<close>.\<close>

theorem authorized_success:
  assumes "c \<noteq> []" "api c = Inr r" "well_formed_response r a rt x"
  shows "authorized api (Some c) s =
         (Redirect ''/'', s\<lparr>exchange_calls := exchange_calls s @ [c], access_token := Some (JStr a),
                            environ := stored (environ s) a rt x\<rparr>)"
  using assms save_token_wf [OF assms(3)]
  by (simp add: authorized_def well_formed_response_def token_simps)

text \<open>C6: a failed exchange answers the failure page and leaves the stored credential
  and the global token as they were.\<close>

theorem authorized_failure:
  assumes "c \<noteq> []" "api c = Inl err"
  shows "authorized api (Some c) s =
         (Page authorization_failed 200, s\<lparr>exchange_calls := exchange_calls s @ [c]\<rparr>)"
  using assms by (simp add: authorized_def)

text \<open>C14: An exchange response without \<open>refresh_token\<close> answers the failure page, yet
  the global token is set and \<open>ACCESS_TOKEN\<close> is overwritten.\<close>

theorem authorized_partial_write:
  assumes "c \<noteq> []" "api c = Inr r" "map_of r ''access_token'' = Some (JStr a)"
    "map_of r ''refresh_token'' = None"
  shows "authorized api (Some c) s =
         (Page authorization_failed 200,
          s\<lparr>exchange_calls := exchange_calls s @ [c], access_token := Some (JStr a),
            environ := (environ s)(''ACCESS_TOKEN'' \<mapsto> a)\<rparr>)"
  using assms save_token_missing_refresh [OF assms(3,4)]
  by (simp add: authorized_def token_simps)

section \<open>Properties of the token store\<close>

text \<open>C7: saving a well-formed response and loading it back gives the credential it
  carries (\<open>int(str(n)) = n\<close> for the expiry).\<close>

theorem save_load_roundtrip:
  "well_formed_response r a rt x \<Longrightarrow>
   load_token (snd (save_token r e)) = Inr (Some \<lparr>ti_access = a, ti_refresh = rt, ti_expires = x\<rparr>)"
  by (simp add: save_token_wf load_token_stored)

section \<open>Witnesses\<close>

lemma tok_state_stored:
  "load_token (environ (tok_state (stored Map.empty ''abc123'' ''def456'' 1700000000))) =
   Inr (Some \<lparr>ti_access = ''abc123'', ti_refresh = ''def456'', ti_expires = 1700000000\<rparr>)"
  by (simp add: tok_state_def load_token_stored)

lemma tok_response_wf: "well_formed_response tok_response ''new789'' ''ref012'' 1700021600"
  by (simp add: well_formed_response_def tok_response_def)

theorem get_access_token_valid_witness:
  "load_token (environ (tok_state (stored Map.empty ''abc123'' ''def456'' 1700000000))) =
     Inr (Some \<lparr>ti_access = ''abc123'', ti_refresh = ''def456'', ti_expires = 1700000000\<rparr>) \<and>
   get_access_token tok_cfg tok_api_ok 1699999999 (tok_state (stored Map.empty ''abc123'' ''def456'' 1700000000)) =
     (Inr (JStr ''abc123''),
      (tok_state (stored Map.empty ''abc123'' ''def456'' 1700000000))\<lparr>access_token := Some (JStr ''abc123'')\<rparr>)"
  using tok_state_stored get_access_token_valid [OF tok_state_stored, of 1699999999 tok_cfg tok_api_ok]
  by simp

theorem get_access_token_refresh_witness:
  "get_access_token tok_cfg tok_api_ok 1700000001 (tok_state (stored Map.empty ''abc123'' ''def456'' 1700000000)) =
     (Inr (JStr ''new789''),
      \<lparr>environ = stored (stored Map.empty ''abc123'' ''def456'' 1700000000) ''new789'' ''ref012'' 1700021600,
       access_token = Some (JStr ''new789''), refresh_calls = [''def456''], exchange_calls = []\<rparr>)"
proof -
  have "tok_api_ok ''def456'' = Inr tok_response" by (simp add: tok_api_ok_def)
  from get_access_token_refresh [OF tok_state_stored _ _ tok_response_wf, of 1700000001 tok_api_ok tok_cfg,
      simplified, OF this]
  show ?thesis by (simp add: tok_state_def)
qed

theorem get_access_token_refresh_failed_witness:
  "get_access_token tok_cfg tok_api_down 1700000001 (tok_state (stored Map.empty ''abc123'' ''def456'' 1700000000)) =
     (Inr (JStr (authorization_url tok_cfg)),
      \<lparr>environ = stored Map.empty ''abc123'' ''def456'' 1700000000,
       access_token = None, refresh_calls = [''def456''], exchange_calls = []\<rparr>)"
  using get_access_token_refresh_failed [where api = tok_api_down and now = 1700000001 and cfg = tok_cfg
      and err = RequestException, OF tok_state_stored]
  by (simp add: tok_state_def tok_api_down_def)

theorem get_access_token_unauthenticated_witness:
  "get_access_token tok_cfg tok_api_ok 0 (tok_state Map.empty) =
     (Inr (JStr (authorization_url tok_cfg)), tok_state Map.empty) \<and>
   take 4 (authorization_url tok_cfg) = ''http''"
proof -
  have "load_token (environ (tok_state Map.empty)) = Inr None" by (simp add: tok_state_def load_token_def)
  from get_access_token_unauthenticated [OF this, of tok_cfg tok_api_ok 0]
  show ?thesis by (simp add: tok_state_def)
qed

theorem refresh_partial_write_witness:
  "get_access_token tok_cfg (\<lambda>c. Inr [(''access_token'', JStr ''new789'')]) 1700000001
       (tok_state (stored Map.empty ''abc123'' ''def456'' 1700000000)) =
     (Inr (JStr (authorization_url tok_cfg)),
      \<lparr>environ = (stored Map.empty ''abc123'' ''def456'' 1700000000)(''ACCESS_TOKEN'' \<mapsto> ''new789''),
       access_token = None, refresh_calls = [''def456''], exchange_calls = []\<rparr>) \<and>
   load_token ((stored Map.empty ''abc123'' ''def456'' 1700000000)(''ACCESS_TOKEN'' \<mapsto> ''new789'')) =
     Inr (Some \<lparr>ti_access = ''new789'', ti_refresh = ''def456'', ti_expires = 1700000000\<rparr>)"
  using refresh_partial_write [OF tok_state_stored, of 1700000001 "\<lambda>c. Inr [(''access_token'', JStr ''new789'')]"
      "[(''access_token'', JStr ''new789'')]" "''new789''" tok_cfg]
  by (simp add: tok_state_def)

theorem refresh_at_expiry_witness:
  "refresh_token_if_needed tok_api_ok 1700000000 (tok_state (stored Map.empty ''abc123'' ''def456'' 1700000000)) =
     (Inr (Some (JStr ''abc123'')), tok_state (stored Map.empty ''abc123'' ''def456'' 1700000000))"
  using refresh_at_expiry [OF tok_state_stored, of tok_api_ok] by simp

theorem get_access_token_bad_expiry_witness:
  "get_access_token tok_cfg tok_api_ok 0
     (tok_state [''ACCESS_TOKEN'' \<mapsto> ''abc'', ''REFRESH_TOKEN'' \<mapsto> ''def'', ''EXPIRES_AT'' \<mapsto> ''1700000000.5'']) =
   (Inl ValueError, tok_state [''ACCESS_TOKEN'' \<mapsto> ''abc'', ''REFRESH_TOKEN'' \<mapsto> ''def'', ''EXPIRES_AT'' \<mapsto> ''1700000000.5''])"
proof -
  have "py_int ''1700000000.5'' = Inl ValueError"
    by (simp add: py_int_def py_strip_def is_space_def py_digits_def digits_value_def is_digit_def)
  from get_access_token_bad_expiry [of "tok_state [''ACCESS_TOKEN'' \<mapsto> ''abc'', ''REFRESH_TOKEN'' \<mapsto> ''def'', ''EXPIRES_AT'' \<mapsto> ''1700000000.5'']",
      OF _ _ _ this]
  show ?thesis by (simp add: tok_state_def)
qed

theorem get_access_token_one_refresh_witness:
  "(refresh_calls (snd (get_access_token tok_cfg tok_api_ok 1700000001 (tok_state (stored Map.empty ''abc123'' ''def456'' 1700000000)))) = [] \<or>
    (\<exists>rt. refresh_calls (snd (get_access_token tok_cfg tok_api_ok 1700000001 (tok_state (stored Map.empty ''abc123'' ''def456'' 1700000000)))) = [rt])) \<and>
   exchange_calls (snd (get_access_token tok_cfg tok_api_ok 1700000001 (tok_state (stored Map.empty ''abc123'' ''def456'' 1700000000)))) = []"
proof -
  let ?g = "get_access_token tok_cfg tok_api_ok 1700000001 (tok_state (stored Map.empty ''abc123'' ''def456'' 1700000000))"
  have "?g = (fst ?g, snd ?g)" by simp
  from get_access_token_one_refresh [OF this] show ?thesis by (simp add: tok_state_def)
qed

theorem authorized_no_code_witness:
  "authorized tok_api_ok (Some []) (tok_state Map.empty) =
   (Page ''No authorization code was provided.'' 400, tok_state Map.empty)"
  using authorized_no_code [of "Some []" tok_api_ok "tok_state Map.empty"] by simp

theorem authorized_success_witness:
  "authorized tok_api_ok (Some ''c0de'') (tok_state Map.empty) =
   (Redirect ''/'', \<lparr>environ = stored Map.empty ''new789'' ''ref012'' 1700021600,
                    access_token = Some (JStr ''new789''), refresh_calls = [], exchange_calls = [''c0de'']\<rparr>)"
  using authorized_success [OF _ _ tok_response_wf, of "''c0de''" tok_api_ok "tok_state Map.empty"]
  by (simp add: tok_state_def tok_api_ok_def)

theorem authorized_failure_witness:
  "authorized tok_api_down (Some ''c0de'') (tok_state Map.empty) =
   (Page authorization_failed 200, (tok_state Map.empty)\<lparr>exchange_calls := [''c0de'']\<rparr>)"
  using authorized_failure [where api = tok_api_down and c = "''c0de''" and err = RequestException
      and s = "tok_state Map.empty"]
  by (simp add: tok_state_def tok_api_down_def)

theorem authorized_partial_write_witness:
  "authorized (\<lambda>c. Inr [(''access_token'', JStr ''new789'')]) (Some ''c0de'') (tok_state Map.empty) =
   (Page authorization_failed 200,
    \<lparr>environ = [''ACCESS_TOKEN'' \<mapsto> ''new789''], access_token = Some (JStr ''new789''),
     refresh_calls = [], exchange_calls = [''c0de'']\<rparr>)"
  using authorized_partial_write [where api = "\<lambda>c. Inr [(''access_token'', JStr ''new789'')]"
      and c = "''c0de''" and r = "[(''access_token'', JStr ''new789'')]" and a = "''new789''"
      and s = "tok_state Map.empty"]
  by (simp add: tok_state_def)

theorem save_load_roundtrip_witness:
  "load_token (snd (save_token tok_response Map.empty)) =
   Inr (Some \<lparr>ti_access = ''new789'', ti_refresh = ''ref012'', ti_expires = 1700021600\<rparr>)"
  by (rule save_load_roundtrip [OF tok_response_wf])

end
