(* ===== verification/Dates.thy ===== *)
theory Dates
  imports Prelude
begin

text \<open>
  The proleptic Gregorian calendar as the code reaches it through pandas and
  \<open>datetime\<close>: the ordinal day count (\<open>date.toordinal\<close>), the weekday with Monday 0
  (\<open>Series.dt.dayofweek\<close>), the ISO week number (\<open>Series.dt.isocalendar().week\<close>,
  computed as CPython's \<open>date.isocalendar\<close> does), the day range of
  \<open>pd.date_range(start, end)\<close>, the string \<open>str(date.date())\<close> /
  \<open>strftime('%Y-%m-%d')\<close>, and \<open>pd.to_datetime\<close> on ISO 8601 dates and timestamps,
  with the fragment \<open>pandas_modelled\<close> on which that model is exact. These are library
  functions called from \<open>prepare_heatmap_data\<close>, \<open>fetch_running_data\<close> and
  \<open>calculate_summary_statistics\<close> (src/app.py); they are modelled because the
  properties of those functions depend on them.
\<close>

record pdate =
  year :: int
  month :: int
  day :: int

section \<open>Calendar arithmetic (CPython datetime)\<close>

definition is_leap :: "int \<Rightarrow> bool" where
  "is_leap y \<longleftrightarrow> y mod 4 = 0 \<and> (y mod 100 \<noteq> 0 \<or> y mod 400 = 0)"

definition month_days :: "int list" where
  "month_days = [31, 28, 31, 30, 31, 30, 31, 31, 30, 31, 30, 31]"

definition month_days_before :: "int list" where
  "month_days_before = [0, 31, 59, 90, 120, 151, 181, 212, 243, 273, 304, 334]"

definition days_in_month :: "int \<Rightarrow> int \<Rightarrow> int" where
  "days_in_month y m = (if m = 2 \<and> is_leap y then 29 else month_days ! nat (m - 1))"

definition days_before_year :: "int \<Rightarrow> int" where
  "days_before_year y = (let y1 = y - 1 in y1 * 365 + y1 div 4 - y1 div 100 + y1 div 400)"

definition days_before_month :: "int \<Rightarrow> int \<Rightarrow> int" where
  "days_before_month y m =
     month_days_before ! nat (m - 1) + (if m > 2 \<and> is_leap y then 1 else 0)"

definition toordinal :: "pdate \<Rightarrow> int" where
  "toordinal d = days_before_year (year d) + days_before_month (year d) (month d) + day d"

definition valid_date :: "pdate \<Rightarrow> bool" where
  "valid_date d \<longleftrightarrow>
     1 \<le> month d \<and> month d \<le> 12 \<and> 1 \<le> day d \<and> day d \<le> days_in_month (year d) (month d)"

text \<open>\<open>dt.dayofweek\<close>: Monday is 0, Sunday is 6 (ordinal 1, 0001-01-01, is a Monday).\<close>

definition dayofweek :: "pdate \<Rightarrow> int" where
  "dayofweek d = (toordinal d + 6) mod 7"

text \<open>CPython's \<open>_isoweek1monday\<close>: the Monday of ISO week 1, the week holding the
  year's first Thursday.\<close>

definition isoweek1monday :: "int \<Rightarrow> int" where
  "isoweek1monday y =
     (let firstday = toordinal \<lparr>year = y, month = 1, day = 1\<rparr>;
          firstweekday = (firstday + 6) mod 7;
          week1monday = firstday - firstweekday
      in if firstweekday > 3 then week1monday + 7 else week1monday)"

text \<open>The week field of \<open>date.isocalendar()\<close>: the early-January days before week 1
  belong to the last week of the previous ISO year, and the late-December days from the
  next year's week-1 Monday on belong to week 1.\<close>

definition iso_week :: "pdate \<Rightarrow> int" where
  "iso_week d =
     (let today = toordinal d;
          week = (today - isoweek1monday (year d)) div 7
      in if week < 0 then (today - isoweek1monday (year d - 1)) div 7 + 1
         else if week \<ge> 52 \<and> today \<ge> isoweek1monday (year d + 1) then 1
         else week + 1)"

section \<open>Date ranges (pd.date_range)\<close>

definition next_day :: "pdate \<Rightarrow> pdate" where
  "next_day d =
     (if day d < days_in_month (year d) (month d) then d\<lparr>day := day d + 1\<rparr>
      else if month d < 12 then d\<lparr>month := month d + 1, day := 1\<rparr>
      else \<lparr>year = year d + 1, month = 1, day = 1\<rparr>)"

text \<open>\<open>pd.date_range(start, end)\<close> with the default daily frequency computes the number
  of periods from the two endpoints and emits \<open>start + i days\<close> for each of them.\<close>

fun days_from :: "nat \<Rightarrow> pdate \<Rightarrow> pdate list" where
  "days_from 0 s = []"
| "days_from (Suc n) s = s # days_from n (next_day s)"

definition date_range :: "pdate \<Rightarrow> pdate \<Rightarrow> pdate list" where
  "date_range s e = days_from (nat (toordinal e - toordinal s + 1)) s"

definition year_dates :: "int \<Rightarrow> pdate list" where
  "year_dates y = date_range \<lparr>year = y, month = 1, day = 1\<rparr> \<lparr>year = y, month = 12, day = 31\<rparr>"

section \<open>Date strings\<close>

text \<open>\<open>str(date)\<close> and \<open>strftime('%Y-%m-%d')\<close>: \<open>'%04d-%02d-%02d'\<close>.\<close>

definition date_str :: "pdate \<Rightarrow> string" where
  "date_str d =
     zfill 4 (show_nat (nat (year d))) @ ''-'' @ zfill 2 (show_nat (nat (month d))) @ ''-''
     @ zfill 2 (show_nat (nat (day d)))"

text \<open>pandas timestamps have nanosecond resolution in 64 bits: the representable dates
  run from 1677-09-22 to 2262-04-11 (midnight); \<open>pd.to_datetime\<close> raises
  \<open>OutOfBoundsDatetime\<close>, a \<open>ValueError\<close>, outside it.\<close>

definition in_timestamp_range :: "pdate \<Rightarrow> bool" where
  "in_timestamp_range d \<longleftrightarrow>
     toordinal \<lparr>year = 1677, month = 9, day = 22\<rparr> \<le> toordinal d \<and>
     toordinal d \<le> toordinal \<lparr>year = 2262, month = 4, day = 11\<rparr>"

text \<open>\<open>pd.to_datetime(s)\<close> on an ISO 8601 string: the date \<open>YYYY-MM-DD\<close>, and
  optionally a time \<open>THH:MM:SS\<close> (or with a space for \<open>T\<close>), a fraction of one to
  nine digits, and a zone \<open>Z\<close> or \<open>+HH:MM\<close>/\<open>-HH:MM\<close>: the forms of Strava's
  \<open>start_date\<close> (\<open>'2024-03-01T07:00:00Z'\<close>) and of \<open>strftime('%Y-%m-%d')\<close> in
  src/fetch_strava_data.py. The result is the calendar date as written, which is what
  \<open>.strftime('%Y-%m-%d')\<close> and \<open>.year\<close> read back (a zone is kept, not converted).
  The date fields first:\<close>

definition iso_date_fields :: "string \<Rightarrow> (nat \<times> nat \<times> nat) option" where
  "iso_date_fields s =
     (if 10 \<le> length s \<and> s ! 4 = CHR ''-'' \<and> s ! 7 = CHR ''-'' then
        (case (digits_value (take 4 s), digits_value (take 2 (drop 5 s)), digits_value (take 2 (drop 8 s))) of
           (Some y, Some m, Some dd) \<Rightarrow> Some (y, m, dd)
         | _ \<Rightarrow> None)
      else None)"

text \<open>A two-digit field no larger than \<open>n\<close>.\<close>

definition two_digits_le :: "nat \<Rightarrow> string \<Rightarrow> bool" where
  "two_digits_le n t \<longleftrightarrow> length t = 2 \<and> (case digits_value t of Some v \<Rightarrow> v \<le> n | None \<Rightarrow> False)"

definition iso_offset :: "string \<Rightarrow> bool" where
  "iso_offset z \<longleftrightarrow>
     z = ''Z'' \<or>
     (length z = 6 \<and> (hd z = CHR ''+'' \<or> hd z = CHR ''-'') \<and> two_digits_le 23 (take 2 (drop 1 z)) \<and>
      z ! 3 = CHR '':'' \<and> two_digits_le 59 (drop 4 z))"

text \<open>The text after the date: separator, \<open>HH:MM:SS\<close>, then nothing, a zone, or a
  fraction followed by nothing or a zone.\<close>

definition iso_time :: "string \<Rightarrow> bool" where
  "iso_time t \<longleftrightarrow>
     9 \<le> length t \<and> (hd t = CHR ''T'' \<or> hd t = CHR '' '') \<and>
     two_digits_le 23 (take 2 (drop 1 t)) \<and> t ! 3 = CHR '':'' \<and>
     two_digits_le 59 (take 2 (drop 4 t)) \<and> t ! 6 = CHR '':'' \<and> two_digits_le 59 (take 2 (drop 7 t)) \<and>
     (case drop 9 t of
        [] \<Rightarrow> True
      | c # r \<Rightarrow>
          (if c = CHR ''.'' then
             1 \<le> length (takeWhile is_digit r) \<and> length (takeWhile is_digit r) \<le> 9 \<and>
             (dropWhile is_digit r = [] \<or> iso_offset (dropWhile is_digit r))
           else iso_offset (c # r)))"

text \<open>A string of those forms whose date is not a calendar date, or lies outside the
  range of a timestamp, raises \<open>ValueError\<close>. pandas also reads other spellings
  (\<open>'2024/03/01'\<close>, \<open>'2024-3-1'\<close>, \<open>'March 1, 2024'\<close>, through dateutil);
  the model raises \<open>ValueError\<close> on them, a stand-in that \<open>pandas_modelled\<close> below
  excludes from every property that depends on it.\<close>

definition to_datetime :: "string \<Rightarrow> pdate result" where
  "to_datetime s =
     (case iso_date_fields s of
        None \<Rightarrow> Inl ValueError
      | Some (y, m, dd) \<Rightarrow>
          (if drop 10 s = [] \<or> iso_time (drop 10 s) then
             (let dt = \<lparr>year = int y, month = int m, day = int dd\<rparr>
              in if valid_date dt \<and> in_timestamp_range dt then Inr dt else Inl ValueError)
           else Inl ValueError))"

text \<open>The strings on which the model of \<open>pd.to_datetime\<close> is exact: an ISO date with
  month 1 to 12 and a non-zero day, alone or with a time of the forms above; with a time,
  either the date is not a calendar date (pandas raises) or it lies a day inside the
  range of a timestamp, so that no zone offset or time of day moves the instant
  across the bound of 1677-09-21 00:12:43 or 2262-04-11 23:47:16.\<close>

definition safe_timestamp_range :: "pdate \<Rightarrow> bool" where
  "safe_timestamp_range d \<longleftrightarrow>
     toordinal \<lparr>year = 1677, month = 9, day = 23\<rparr> \<le> toordinal d \<and>
     toordinal d \<le> toordinal \<lparr>year = 2262, month = 4, day = 10\<rparr>"

definition pandas_modelled :: "string \<Rightarrow> bool" where
  "pandas_modelled s \<longleftrightarrow>
     (case iso_date_fields s of
        None \<Rightarrow> False
      | Some (y, m, dd) \<Rightarrow>
          1 \<le> m \<and> m \<le> 12 \<and> 1 \<le> dd \<and>
          (drop 10 s = [] \<or>
           (iso_time (drop 10 s) \<and>
            (\<not> valid_date \<lparr>year = int y, month = int m, day = int dd\<rparr> \<or>
             safe_timestamp_range \<lparr>year = int y, month = int m, day = int dd\<rparr>))))"

lemmas [calendar_simps] = toordinal_def days_before_year_def days_before_month_def
  days_in_month_def is_leap_def month_days_def month_days_before_def Let_def
  valid_date_def in_timestamp_range_def to_datetime_def date_str_def iso_date_fields_def
  two_digits_le_def iso_offset_def iso_time_def safe_timestamp_range_def pandas_modelled_def
  digits_value_def is_digit_def digit_value_def zfill_def show_nat.simps digit_char_def

section \<open>Year and month lengths\<close>

lemma days_before_year_succ:
  "days_before_year (y + 1) = days_before_year y + (if is_leap y then 366 else 365)"
proof -
  define a b c where "a = y div 4 - (y - 1) div 4" and "b = y div 100 - (y - 1) div 100"
    and "c = y div 400 - (y - 1) div 400"
  have d: "a = (if y mod 4 = 0 then 1 else 0)" "b = (if y mod 100 = 0 then 1 else 0)"
    "c = (if y mod 400 = 0 then 1 else 0)"
    unfolding a_def b_def c_def by (subst div_step; simp)+
  have m: "y mod 400 = 0 \<Longrightarrow> y mod 100 = 0" "y mod 100 = 0 \<Longrightarrow> y mod 4 = 0"
    unfolding mod_eq_0_iff_dvd by (rule dvd_trans [of 100 400] dvd_trans [of 4 100]; simp)+
  have "days_before_year (y + 1) - days_before_year y = 365 + a - b + c"
    by (simp add: days_before_year_def Let_def algebra_simps a_def b_def c_def)
  moreover have "365 + a - b + c = (if is_leap y then 366 else 365)"
    unfolding d is_leap_def using m
    by (cases "y mod 4 = 0"; cases "y mod 100 = 0"; cases "y mod 400 = 0") simp_all
  ultimately show ?thesis by simp
qed

lemma month_cases:
  assumes "1 \<le> m" "m \<le> (12::int)"
  shows "m = 1 \<or> m = 2 \<or> m = 3 \<or> m = 4 \<or> m = 5 \<or> m = 6 \<or> m = 7 \<or> m = 8 \<or> m = 9 \<or>
         m = 10 \<or> m = 11 \<or> m = 12"
proof -
  have "m \<in> set [1..12]" using assms by simp
  then show ?thesis by (simp add: upto.simps)
qed

lemma days_in_month_bounds:
  "1 \<le> m \<Longrightarrow> m \<le> 12 \<Longrightarrow> 28 \<le> days_in_month y m \<and> days_in_month y m \<le> 31"
  by (drule (1) month_cases) (auto simp: days_in_month_def month_days_def)

lemma days_before_month_succ:
  "1 \<le> m \<Longrightarrow> m < 12 \<Longrightarrow>
   days_before_month y (m + 1) = days_before_month y m + days_in_month y m"
  by (drule month_cases, simp)
     (auto simp: days_before_month_def days_in_month_def month_days_def month_days_before_def)

lemma days_before_month_le:
  "1 \<le> m \<Longrightarrow> m \<le> 12 \<Longrightarrow>
   days_before_month y m + days_in_month y m \<le> (if is_leap y then 366 else 365)"
  by (drule (1) month_cases)
     (auto simp: days_before_month_def days_in_month_def month_days_def month_days_before_def)

lemma days_before_month_Dec:
  "days_before_month y 12 + days_in_month y 12 = (if is_leap y then 366 else 365)"
  by (simp add: days_before_month_def days_in_month_def month_days_def month_days_before_def)

lemma days_before_month_Jan [simp]: "days_before_month y 1 = 0"
  by (simp add: days_before_month_def month_days_before_def)


lemma days_before_month_nonneg:
  "1 \<le> m \<Longrightarrow> m \<le> 12 \<Longrightarrow> 0 \<le> days_before_month y m"
  by (drule (1) month_cases)
     (auto simp: days_before_month_def month_days_before_def)

section \<open>The successor day\<close>

lemma next_day_cases:
  assumes "valid_date d"
  obtains (same_month) "day d < days_in_month (year d) (month d)"
      "next_day d = d\<lparr>day := day d + 1\<rparr>"
  | (next_month) "day d = days_in_month (year d) (month d)" "month d < 12"
      "next_day d = d\<lparr>month := month d + 1, day := 1\<rparr>"
  | (next_year) "day d = days_in_month (year d) (month d)" "month d = 12"
      "next_day d = \<lparr>year = year d + 1, month = 1, day = 1\<rparr>"
  using assms unfolding valid_date_def next_day_def
  by (cases "day d < days_in_month (year d) (month d)"; cases "month d < 12") auto

lemma valid_next_day:
  assumes v: "valid_date d"
  shows "valid_date (next_day d)"
  using v
proof (cases rule: next_day_cases)
  case same_month
  then show ?thesis using v by (simp add: valid_date_def)
next
  case next_month
  then show ?thesis using v days_in_month_bounds [of "month d + 1" "year d"]
    by (simp add: valid_date_def)
next
  case next_year
  then show ?thesis by (simp add: valid_date_def days_in_month_def month_days_def)
qed

lemma toordinal_next_day:
  assumes v: "valid_date d"
  shows "toordinal (next_day d) = toordinal d + 1"
  using v
proof (cases rule: next_day_cases)
  case same_month
  then show ?thesis by (simp add: toordinal_def)
next
  case next_month
  then show ?thesis using v days_before_month_succ [of "month d" "year d"]
    by (simp add: toordinal_def valid_date_def)
next
  case next_year
  then show ?thesis using days_before_month_Dec [of "year d"] days_before_year_succ [of "year d"]
    by (simp add: toordinal_def)
qed

section \<open>Day ranges\<close>

lemma length_days_from [simp]: "length (days_from n s) = n"
  by (induction n arbitrary: s) auto

lemma days_from_nth:
  "valid_date s \<Longrightarrow> i < n \<Longrightarrow>
   valid_date (days_from n s ! i) \<and> toordinal (days_from n s ! i) = toordinal s + int i"
proof (induction n arbitrary: s i)
  case 0
  then show ?case by simp
next
  case (Suc n)
  show ?case
  proof (cases i)
    case 0
    with Suc.prems show ?thesis by simp
  next
    case (Suc j)
    with Suc.prems have "j < n" by simp
    with Suc.IH [OF valid_next_day [OF Suc.prems(1)]] Suc.prems(1) Suc show ?thesis
      by (simp add: toordinal_next_day)
  qed
qed


section \<open>Ordinals and years\<close>

lemma days_before_year_mono_nat: "days_before_year a \<le> days_before_year (a + int n)"
proof (induction n)
  case 0
  then show ?case by simp
next
  case (Suc n)
  have a: "a + int (Suc n) = a + int n + 1" by simp
  show ?case unfolding a using Suc.IH days_before_year_succ [of "a + int n"] by simp
qed

lemma days_before_year_mono: "a \<le> b \<Longrightarrow> days_before_year a \<le> days_before_year b"
  using days_before_year_mono_nat [of a "nat (b - a)"] by simp

lemma toordinal_year_bounds:
  assumes "valid_date d"
  shows "days_before_year (year d) < toordinal d \<and> toordinal d \<le> days_before_year (year d + 1)"
proof -
  from assms have m: "1 \<le> month d" "month d \<le> 12" and dd: "1 \<le> day d"
    "day d \<le> days_in_month (year d) (month d)"
    by (simp_all add: valid_date_def)
  from m have "0 \<le> days_before_month (year d) (month d)"
    by (rule days_before_month_nonneg)
  moreover from m have "days_before_month (year d) (month d) + days_in_month (year d) (month d)
      \<le> (if is_leap (year d) then 366 else 365)"
    by (rule days_before_month_le)
  ultimately show ?thesis using dd days_before_year_succ [of "year d"]
    by (simp add: toordinal_def)
qed

lemma year_of_toordinal:
  assumes "valid_date d" "days_before_year y < toordinal d" "toordinal d \<le> days_before_year (y + 1)"
  shows "year d = y"
proof (rule ccontr)
  assume ne: "year d \<noteq> y"
  from assms(1) have b: "days_before_year (year d) < toordinal d"
    "toordinal d \<le> days_before_year (year d + 1)"
    by (simp_all add: toordinal_year_bounds)
  show False
  proof (cases "year d < y")
    case True
    then have "days_before_year (year d + 1) \<le> days_before_year y"
      by (simp add: days_before_year_mono)
    with b assms(2) show False by simp
  next
    case False
    with ne have "days_before_year (y + 1) \<le> days_before_year (year d)"
      by (simp add: days_before_year_mono)
    with b assms(3) show False by simp
  qed
qed

lemma days_before_month_mono:
  "1 \<le> m \<Longrightarrow> m + int k < 12 \<Longrightarrow>
   days_before_month y m + days_in_month y m \<le> days_before_month y (m + int k + 1)"
proof (induction k)
  case 0
  then show ?case by (simp add: days_before_month_succ)
next
  case (Suc k)
  then have "days_before_month y m + days_in_month y m \<le> days_before_month y (m + int k + 1)"
    by simp
  moreover have "days_before_month y (m + int k + 1 + 1) =
      days_before_month y (m + int k + 1) + days_in_month y (m + int k + 1)"
    using Suc.prems by (intro days_before_month_succ) simp_all
  moreover have "0 \<le> days_in_month y (m + int k + 1)"
    using Suc.prems days_in_month_bounds [of "m + int k + 1" y] by simp
  moreover have a: "m + int (Suc k) + 1 = m + int k + 1 + 1" by simp
  ultimately show ?case unfolding a by linarith
qed

lemma month_before:
  assumes "1 \<le> m1" "m1 < m2" "m2 \<le> 12"
  shows "days_before_month y m1 + days_in_month y m1 \<le> days_before_month y m2"
  using days_before_month_mono [of m1 "nat (m2 - m1 - 1)" y] assms by simp

lemma toordinal_inj:
  assumes "valid_date d1" "valid_date d2" "toordinal d1 = toordinal d2"
  shows "d1 = d2"
proof -
  have y: "year d1 = year d2"
    using year_of_toordinal [OF assms(1)] toordinal_year_bounds [OF assms(2)] assms(3) by simp
  have eq: "days_before_month (year d1) (month d1) + day d1 =
            days_before_month (year d1) (month d2) + day d2"
    using assms(3) y by (simp add: toordinal_def)
  have m: "month d1 = month d2"
  proof (rule ccontr)
    assume "month d1 \<noteq> month d2"
    then consider "month d1 < month d2" | "month d2 < month d1" by linarith
    then show False
    proof cases
      case 1
      then show False using month_before [of "month d1" "month d2" "year d1"] assms(1,2) eq y
        by (simp add: valid_date_def)
    next
      case 2
      then show False using month_before [of "month d2" "month d1" "year d1"] assms(1,2) eq y
        by (simp add: valid_date_def)
    qed
  qed
  with eq have "day d1 = day d2" by simp
  with y m show ?thesis by simp
qed


section \<open>The dates of a year\<close>

lemma toordinal_Jan1: "toordinal \<lparr>year = y, month = 1, day = 1\<rparr> = days_before_year y + 1"
  by (simp add: toordinal_def)

lemma toordinal_Dec31: "toordinal \<lparr>year = y, month = 12, day = 31\<rparr> = days_before_year (y + 1)"
  using days_before_month_Dec [of y] days_before_year_succ [of y]
  by (simp add: toordinal_def days_in_month_def month_days_def)

lemma valid_Jan1: "valid_date \<lparr>year = y, month = 1, day = 1\<rparr>"
  by (simp add: valid_date_def days_in_month_def month_days_def)

lemma length_year_dates_raw:
  "length (year_dates y) = nat (days_before_year (y + 1) - days_before_year y)"
  by (simp add: year_dates_def date_range_def toordinal_Jan1 toordinal_Dec31)

lemma year_dates_nth:
  "i < length (year_dates y) \<Longrightarrow>
   valid_date (year_dates y ! i) \<and> toordinal (year_dates y ! i) = days_before_year y + 1 + int i"
  using days_from_nth [OF valid_Jan1, of i _ y]
  by (simp add: year_dates_def date_range_def toordinal_Jan1)

lemma year_dates_distinct: "distinct (year_dates y)"
proof (rule distinct_conv_nth [THEN iffD2], intro allI impI)
  fix i j
  assume "i < length (year_dates y)" "j < length (year_dates y)" "i \<noteq> j"
  then show "year_dates y ! i \<noteq> year_dates y ! j"
    using year_dates_nth [of i y] year_dates_nth [of j y] by auto
qed

lemma year_dates_sorted: "sorted (map toordinal (year_dates y))"
  by (rule sorted_iff_nth_mono [THEN iffD2]) (simp add: year_dates_nth)

lemma year_dates_subset: "d \<in> set (year_dates y) \<Longrightarrow> valid_date d \<and> year d = y"
proof -
  assume "d \<in> set (year_dates y)"
  then obtain i where i: "i < length (year_dates y)" and d: "d = year_dates y ! i"
    by (auto simp: in_set_conv_nth)
  from i have "int i < days_before_year (y + 1) - days_before_year y"
    by (simp add: length_year_dates_raw)
  with year_dates_nth [OF i] d show ?thesis
    by (auto intro: year_of_toordinal)
qed

lemma year_dates_complete:
  assumes "valid_date d" "year d = y"
  shows "d \<in> set (year_dates y)"
proof -
  from toordinal_year_bounds [OF assms(1)] assms(2)
  have b: "days_before_year y < toordinal d" "toordinal d \<le> days_before_year (y + 1)" by auto
  define i where "i = nat (toordinal d - days_before_year y - 1)"
  from b have i: "i < length (year_dates y)" by (simp add: i_def length_year_dates_raw)
  with b have "toordinal (year_dates y ! i) = toordinal d" and "valid_date (year_dates y ! i)"
    using year_dates_nth [OF i] by (simp_all add: i_def)
  then have "year_dates y ! i = d" using assms(1) toordinal_inj [of "year_dates y ! i" d] by simp
  with i show ?thesis by (metis nth_mem)
qed

section \<open>ISO weeks\<close>

lemma isoweek1monday_bounds:
  "days_before_year y - 2 \<le> isoweek1monday y \<and> isoweek1monday y \<le> days_before_year y + 4 \<and>
   isoweek1monday y mod 7 = 1"
proof -
  define f where "f = days_before_year y + 1"
  define w where "w = (f + 6) mod 7"
  have w: "0 \<le> w" "w < 7" by (simp_all add: w_def)
  have f: "toordinal \<lparr>year = y, month = 1, day = 1\<rparr> = f" by (simp add: f_def toordinal_Jan1)
  define k where "k = (f + 6) div 7 - 1"
  have "f - w = 1 + 7 * k"
    using div_mult_mod_eq [of "f + 6" 7] by (simp add: w_def k_def algebra_simps)
  then have m: "(f - w) mod 7 = 1" by simp
  then have m7: "(f - w + 7) mod 7 = 1" by simp
  have "isoweek1monday y = (if w > 3 then f - w + 7 else f - w)"
    by (simp add: isoweek1monday_def f w_def Let_def)
  with w m m7 have "f - 3 \<le> isoweek1monday y \<and> isoweek1monday y \<le> f + 3 \<and>
      isoweek1monday y mod 7 = 1"
    by auto
  then show ?thesis by (simp add: f_def)
qed

lemma div7_bounds: "0 \<le> x \<Longrightarrow> x \<le> (370::int) \<Longrightarrow> 0 \<le> x div 7 \<and> x div 7 \<le> 52"
  using zdiv_mono1 [of x 370 7] by (simp add: pos_imp_zdiv_nonneg_iff)

lemma iso_week_range:
  assumes v: "valid_date d"
  shows "1 \<le> iso_week d \<and> iso_week d \<le> 53"
proof -
  define y t where "y = year d" and "t = toordinal d"
  have b: "days_before_year y < t" "t \<le> days_before_year (y + 1)"
    using toordinal_year_bounds [OF v] by (simp_all add: y_def t_def)
  have len: "days_before_year (y + 1) \<le> days_before_year y + 366"
    "days_before_year (y - 1) + 365 \<le> days_before_year y"
    "days_before_year y \<le> days_before_year (y - 1) + 366"
    using days_before_year_succ [of y] days_before_year_succ [of "y - 1"] by auto
  have w0: "days_before_year y - 2 \<le> isoweek1monday y" "isoweek1monday y \<le> days_before_year y + 4"
    "isoweek1monday y mod 7 = 1"
    using isoweek1monday_bounds [of y] by auto
  have w1: "days_before_year (y - 1) - 2 \<le> isoweek1monday (y - 1)"
    "isoweek1monday (y - 1) \<le> days_before_year (y - 1) + 4" "isoweek1monday (y - 1) mod 7 = 1"
    using isoweek1monday_bounds [of "y - 1"] by auto
  have iso: "iso_week d =
     (if (t - isoweek1monday y) div 7 < 0 then (t - isoweek1monday (y - 1)) div 7 + 1
      else if (t - isoweek1monday y) div 7 \<ge> 52 \<and> t \<ge> isoweek1monday (y + 1) then 1
      else (t - isoweek1monday y) div 7 + 1)"
    by (simp add: iso_week_def y_def t_def Let_def)
  show ?thesis
  proof (cases "(t - isoweek1monday y) div 7 < 0")
    case True
    then have lt: "t < isoweek1monday y" by (simp add: div_neg_pos_less0 pos_imp_zdiv_neg_iff)
    define g where "g = isoweek1monday y - isoweek1monday (y - 1)"
    have "g mod 7 = 0" using w0(3) w1(3) by (simp add: g_def mod_diff_eq [symmetric])
    then have "g = 7 * (g div 7)" using div_mult_mod_eq [of g 7] by simp
    moreover have "g \<le> 372" using w0 w1 len by (simp add: g_def)
    moreover have "g div 7 \<le> 53" using zdiv_mono1 [of g 372 7] \<open>g \<le> 372\<close> by simp
    ultimately have "g \<le> 371" by linarith
    then have "0 \<le> t - isoweek1monday (y - 1) \<and> t - isoweek1monday (y - 1) \<le> 370"
      using lt b w1 len by (simp add: g_def)
    with True iso div7_bounds show ?thesis by auto
  next
    case False
    then have "0 \<le> t - isoweek1monday y \<and> t - isoweek1monday y \<le> 370"
      using b w0 len by (simp add: pos_imp_zdiv_nonneg_iff)
    with False iso div7_bounds show ?thesis by auto
  qed
qed


lemma length_year_dates: "length (year_dates y) = (if is_leap y then 366 else 365)"
  using length_year_dates_raw [of y] days_before_year_succ [of y] by simp

section \<open>Date strings\<close>

lemma timestamp_range_year:
  assumes v: "valid_date d" and r: "in_timestamp_range d"
  shows "1677 \<le> year d \<and> year d \<le> 2262"
proof -
  have lo: "days_before_year 1677 < toordinal \<lparr>year = 1677, month = 9, day = 22\<rparr>"
    and hi: "toordinal \<lparr>year = 2262, month = 4, day = 11\<rparr> \<le> days_before_year 2263"
    by (simp_all add: calendar_simps)
  from toordinal_year_bounds [OF v] have b: "days_before_year (year d) < toordinal d"
    "toordinal d \<le> days_before_year (year d + 1)" by simp_all
  have "\<not> year d < 1677"
  proof
    assume "year d < 1677"
    then have "days_before_year (year d + 1) \<le> days_before_year 1677"
      by (simp add: days_before_year_mono)
    with lo b r show False by (simp add: in_timestamp_range_def)
  qed
  moreover have "\<not> year d > 2262"
  proof
    assume "year d > 2262"
    then have "days_before_year 2263 \<le> days_before_year (year d)"
      by (simp add: days_before_year_mono)
    with hi b r show False by (simp add: in_timestamp_range_def)
  qed
  ultimately show ?thesis by simp
qed

lemma length_zfill_show_nat: "n < 10 ^ k \<Longrightarrow> 0 < k \<Longrightarrow> length (zfill k (show_nat n)) = k"
  by (simp add: length_zfill length_show_nat)

lemma to_datetime_date_str:
  assumes v: "valid_date d" and r: "in_timestamp_range d"
  shows "to_datetime (date_str d) = Inr d"
proof -
  define Y M D where "Y = zfill 4 (show_nat (nat (year d)))"
    and "M = zfill 2 (show_nat (nat (month d)))" and "D = zfill 2 (show_nat (nat (day d)))"
  have yb: "1677 \<le> year d" "year d \<le> 2262" using timestamp_range_year [OF v r] by simp_all
  have mb: "1 \<le> month d" "month d \<le> 12" "1 \<le> day d" "day d \<le> 31"
    using v days_in_month_bounds [of "month d" "year d"] by (simp_all add: valid_date_def)
  have lY: "length Y = 4" unfolding Y_def using yb by (intro length_zfill_show_nat) simp_all
  have lM: "length M = 2" unfolding M_def using mb by (intro length_zfill_show_nat) simp_all
  have lD: "length D = 2" unfolding D_def using mb by (intro length_zfill_show_nat) simp_all
  have s: "date_str d = Y @ ''-'' @ M @ ''-'' @ D" by (simp add: date_str_def Y_def M_def D_def)
  have parts: "10 \<le> length (date_str d)" "date_str d ! 4 = CHR ''-''" "date_str d ! 7 = CHR ''-''"
    "take 4 (date_str d) = Y" "take 2 (drop 5 (date_str d)) = M" "take 2 (drop 8 (date_str d)) = D"
    "drop 10 (date_str d) = []"
    unfolding s using lY lM lD by (simp_all add: nth_append)
  have vals: "digits_value Y = Some (nat (year d))" "digits_value M = Some (nat (month d))"
    "digits_value D = Some (nat (day d))"
    by (simp_all add: Y_def M_def D_def)
  have "\<lparr>year = int (nat (year d)), month = int (nat (month d)), day = int (nat (day d))\<rparr> = d"
    using yb mb by (cases d) simp
  with parts vals v r lD show ?thesis by (simp add: to_datetime_def iso_date_fields_def)
qed

lemma to_datetime_Inr_fields:
  assumes "to_datetime s = Inr d"
  obtains y m dd where "iso_date_fields s = Some (y, m, dd)" "d = \<lparr>year = int y, month = int m, day = int dd\<rparr>"
    "valid_date d" "in_timestamp_range d"
  using assms by (auto simp: to_datetime_def Let_def split: option.splits if_splits)

lemma iso_date_fields_Some:
  assumes "iso_date_fields s = Some (y, m, dd)"
  shows "10 \<le> length s" "s ! 4 = CHR ''-''" "s ! 7 = CHR ''-''" "digits_value (take 4 s) = Some y"
    "digits_value (take 2 (drop 5 s)) = Some m" "digits_value (take 2 (drop 8 s)) = Some dd"
  using assms by (auto simp: iso_date_fields_def split: if_splits option.splits)

lemma take_10_split:
  assumes "10 \<le> length s"
  shows "take 10 s = take 4 s @ [s ! 4] @ take 2 (drop 5 s) @ [s ! 7] @ take 2 (drop 8 s)"
  using assms by (auto simp: numeral_eq_Suc Suc_le_length_iff)

text \<open>What \<open>pd.to_datetime(s).strftime('%Y-%m-%d')\<close> gives is the first ten
  characters of the string: the date as written, whatever time and zone follow.\<close>

lemma to_datetime_date_key:
  assumes "to_datetime s = Inr d"
  shows "date_str d = take 10 s"
proof -
  obtain y m dd where f: "iso_date_fields s = Some (y, m, dd)"
    and d: "d = \<lparr>year = int y, month = int m, day = int dd\<rparr>"
    using assms by (rule to_datetime_Inr_fields)
  note p = iso_date_fields_Some [OF f]
  have l: "length (take 4 s) = 4" "length (take 2 (drop 5 s)) = 2" "length (take 2 (drop 8 s)) = 2"
    using p(1) by simp_all
  have "zfill 4 (show_nat y) = take 4 s" "zfill 2 (show_nat m) = take 2 (drop 5 s)"
    "zfill 2 (show_nat dd) = take 2 (drop 8 s)"
    using digits_value_zfill [OF p(4)] digits_value_zfill [OF p(5)] digits_value_zfill [OF p(6)]
    unfolding l by simp_all
  then show ?thesis
    using take_10_split [OF p(1)] p(2,3) by (simp add: d date_str_def)
qed

section \<open>Properties of the calendar\<close>

text \<open>\<open>pd.date_range\<close> from January 1 to December 31 of a year has 366 dates in a
  leap year and 365 otherwise.\<close>

lemma year_dates_length: "length (year_dates y) = (if is_leap y then 366 else 365)"
  by (rule length_year_dates)

theorem year_dates_length_witness:
  "length (year_dates 2024) = 366 \<and> length (year_dates 2023) = 365 \<and> length (year_dates 1900) = 365"
  using year_dates_length [of 2024] year_dates_length [of 2023] year_dates_length [of 1900]
  by (simp add: is_leap_def)

text \<open>C37: the dates of a year are enumerated exactly once each: the list has no
  duplicate, holds every valid date of that year and nothing else, and runs in
  calendar order.\<close>

theorem year_dates_exactly:
  "distinct (year_dates y) \<and> set (year_dates y) = {d. valid_date d \<and> year d = y} \<and>
   sorted (map toordinal (year_dates y))"
  using year_dates_distinct year_dates_sorted year_dates_subset year_dates_complete by blast

end
