(* ===== verification/Aggregator.thy ===== *)
theory Aggregator
  imports Dates
begin

text \<open>
  The activity aggregator. \<open>fetch_running_data\<close> (src/app.py) reads the run list of
  the \<open>/run-details\<close> endpoint and folds it into \<open>daily_mileage\<close>, a
  \<open>defaultdict\<close> from the date string \<open>'%Y-%m-%d'\<close> to a bucket
  \<open>{'distance', 'duration'}\<close>; any exception on the way (HTTP error, bad JSON, a
  start date \<open>pd.to_datetime\<close> rejects) is caught and an empty dict is returned.
  The run list itself is what \<open>fetch_data\<close> (src/fetch_strava_data.py) produces from
  the Strava activities: runs only, distance in miles and duration in minutes, each
  rounded to two decimals.

  A Python dict keeps insertion order and \<open>d[k] op= v\<close> on a \<open>defaultdict\<close> inserts
  the default at the end when \<open>k\<close> is new; \<open>AList.update\<close> does the same, so the
  dict is an association list.
\<close>

record bucket =
  distance :: real
  duration :: real

type_synonym daily_mileage = "(string \<times> bucket) list"

text \<open>One element of the \<open>/run-details\<close> JSON list: the keys read by
  \<open>fetch_running_data\<close> (\<open>'start_date'\<close>, \<open>'distance'\<close>, \<open>'duration'\<close>).\<close>

record run =
  start_date :: string
  run_distance :: real
  run_duration :: real

text \<open>The outcome of \<open>requests.get(...)\<close>, \<open>raise_for_status()\<close> and
  \<open>response.json()\<close>: a network or HTTP failure, a payload that is not a list of run
  objects (the loop then raises \<open>TypeError\<close> or \<open>KeyError\<close>), or the runs.\<close>

datatype 'a upstream = Fetch_failed | Malformed | Fetched 'a

text \<open>A Strava activity as \<open>fetch_data\<close> reads it from \<open>client.get_activities\<close>.\<close>

record activity =
  activity_id :: int
  activity_name :: string
  activity_type :: string
  distance_m :: real
  moving_time_s :: real
  activity_start :: pdate

section \<open>fetch_running_data (src/app.py)\<close>

definition zero_bucket :: bucket where
  "zero_bucket = \<lparr>distance = 0, duration = 0\<rparr>"

text \<open>\<open>daily_mileage[local_date]['distance'] += ...\<close> and the same for
  \<open>'duration'\<close>.\<close>

definition add_run :: "daily_mileage \<Rightarrow> string \<Rightarrow> real \<Rightarrow> real \<Rightarrow> daily_mileage" where
  "add_run dm k dst dur =
     (let b = (case map_of dm k of None \<Rightarrow> zero_bucket | Some b \<Rightarrow> b)
      in AList.update k (b\<lparr>distance := distance b + dst, duration := duration b + dur\<rparr>) dm)"

text \<open>The loop \<open>for run in data\<close>; \<open>pd.to_datetime\<close> may raise.\<close>

fun accumulate_runs :: "daily_mileage \<Rightarrow> run list \<Rightarrow> daily_mileage result" where
  "accumulate_runs dm [] = Inr dm"
| "accumulate_runs dm (r # rs) =
     (case to_datetime (start_date r) of
        Inl e \<Rightarrow> Inl e
      | Inr d \<Rightarrow> accumulate_runs (add_run dm (date_str d) (run_distance r) (run_duration r)) rs)"

definition fetch_running_data :: "run list upstream \<Rightarrow> daily_mileage" where
  "fetch_running_data resp =
     (case resp of
        Fetched rs \<Rightarrow> (case accumulate_runs [] rs of Inr dm \<Rightarrow> dm | Inl _ \<Rightarrow> [])
      | _ \<Rightarrow> [])"

section \<open>fetch_data (src/fetch_strava_data.py)\<close>

text \<open>One entry of \<open>run_details\<close>; the \<open>'id'\<close> and \<open>'name'\<close> keys are carried
  along by the code but never read downstream, so the run record omits them.\<close>

definition run_detail :: "activity \<Rightarrow> run" where
  "run_detail a =
     \<lparr>start_date = date_str (activity_start a),
      run_distance = py_round2 (distance_m a / 1609.34),
      run_duration = py_round2 (moving_time_s a / 60)\<rparr>"

definition fetch_data_runs :: "activity list \<Rightarrow> run list" where
  "fetch_data_runs acts = map run_detail (filter (\<lambda>a. activity_type a = ''Run'') acts)"

section \<open>Specification\<close>

text \<open>What the aggregation promises: the bucket of a date is the sum over the runs of
  that date, and a date has a bucket exactly when it has a run. \<open>run_key\<close> is the
  dict key a run lands on, \<open>None\<close> when its date does not parse.\<close>

definition run_key :: "run \<Rightarrow> string option" where
  "run_key r = (case to_datetime (start_date r) of Inr d \<Rightarrow> Some (date_str d) | Inl _ \<Rightarrow> None)"

definition runs_parse :: "run list \<Rightarrow> bool" where
  "runs_parse rs \<longleftrightarrow> list_all (\<lambda>r. run_key r \<noteq> None) rs"

definition totals_from :: "bucket option \<Rightarrow> run list \<Rightarrow> bucket option" where
  "totals_from bo rk =
     (if rk = [] then bo
      else let b = (case bo of None \<Rightarrow> zero_bucket | Some b \<Rightarrow> b)
           in Some (b\<lparr>distance := distance b + sum_list (map run_distance rk),
                        duration := duration b + sum_list (map run_duration rk)\<rparr>))"

definition daily_totals :: "run list \<Rightarrow> string \<Rightarrow> bucket option" where
  "daily_totals rs k = totals_from None (filter (\<lambda>r. run_key r = Some k) rs)"

text \<open>The well-formedness of a \<open>daily_mileage\<close> dict: one entry per key and every key
  a canonical date string that \<open>pd.to_datetime\<close> reads back to the same date
  (\<open>date_keyed\<close>), and no negative totals (\<open>nonneg_buckets\<close>).\<close>

definition is_date_key :: "string \<Rightarrow> bool" where
  "is_date_key k \<longleftrightarrow> (case to_datetime k of Inr d \<Rightarrow> date_str d = k | Inl _ \<Rightarrow> False)"

definition date_keyed :: "daily_mileage \<Rightarrow> bool" where
  "date_keyed dm \<longleftrightarrow> distinct (map fst dm) \<and> list_all (\<lambda>(k, b). is_date_key k) dm"

definition nonneg_buckets :: "daily_mileage \<Rightarrow> bool" where
  "nonneg_buckets dm \<longleftrightarrow> list_all (\<lambda>(k, b). 0 \<le> distance b \<and> 0 \<le> duration b) dm"

definition wf_daily_mileage :: "daily_mileage \<Rightarrow> bool" where
  "wf_daily_mileage dm \<longleftrightarrow> date_keyed dm \<and> nonneg_buckets dm"

definition nonneg_runs :: "run list \<Rightarrow> bool" where
  "nonneg_runs rs \<longleftrightarrow> list_all (\<lambda>r. 0 \<le> run_distance r \<and> 0 \<le> run_duration r) rs"

definition run_example :: "string \<Rightarrow> real \<Rightarrow> real \<Rightarrow> run" where
  "run_example s x t = \<lparr>start_date = s, run_distance = x, run_duration = t\<rparr>"

section \<open>Aggregation lemmas\<close>

lemma to_datetime_Inr: "to_datetime s = Inr d \<Longrightarrow> valid_date d \<and> in_timestamp_range d"
  by (auto simp: to_datetime_def Let_def split: if_splits option.splits)

lemma to_datetime_Inl: "to_datetime s = Inl e \<Longrightarrow> e = ValueError"
  by (auto simp: to_datetime_def Let_def split: if_splits option.splits)

lemma is_date_key_date_str:
  "to_datetime s = Inr d \<Longrightarrow> is_date_key (date_str d)"
  using to_datetime_Inr [of s d] by (simp add: is_date_key_def to_datetime_date_str)

lemma map_of_add_run:
  "map_of (add_run dm k x y) =
   (map_of dm)(k \<mapsto> (let b = (case map_of dm k of None \<Rightarrow> zero_bucket | Some b \<Rightarrow> b)
                     in b\<lparr>distance := distance b + x, duration := duration b + y\<rparr>))"
  by (simp add: add_run_def Let_def update_conv')

lemma totals_from_Cons:
  "totals_from bo (r # rk) =
   totals_from (Some (let b = (case bo of None \<Rightarrow> zero_bucket | Some b \<Rightarrow> b)
                      in b\<lparr>distance := distance b + run_distance r,
                           duration := duration b + run_duration r\<rparr>)) rk"
  by (simp add: totals_from_def Let_def add.assoc)

lemma accumulate_runs_map_of:
  "accumulate_runs dm rs = Inr dm' \<Longrightarrow>
   map_of dm' k = totals_from (map_of dm k) (filter (\<lambda>r. run_key r = Some k) rs)"
proof (induction rs arbitrary: dm)
  case Nil
  then show ?case by (simp add: totals_from_def)
next
  case (Cons r rs)
  then obtain d where d: "to_datetime (start_date r) = Inr d"
    by (cases "to_datetime (start_date r)") auto
  let ?dm1 = "add_run dm (date_str d) (run_distance r) (run_duration r)"
  from Cons.prems d have "accumulate_runs ?dm1 rs = Inr dm'" by simp
  then have IH: "map_of dm' k = totals_from (map_of ?dm1 k) (filter (\<lambda>r. run_key r = Some k) rs)"
    by (rule Cons.IH)
  from d have key: "run_key r = Some (date_str d)" by (simp add: run_key_def)
  show ?case
  proof (cases "date_str d = k")
    case True
    with IH key show ?thesis by (simp add: map_of_add_run totals_from_Cons)
  next
    case False
    with IH key show ?thesis by (simp add: map_of_add_run)
  qed
qed

lemma accumulate_runs_error:
  "accumulate_runs dm rs = Inl e \<longleftrightarrow> \<not> runs_parse rs \<and> e = ValueError"
proof (induction rs arbitrary: dm)
  case Nil
  then show ?case by (simp add: runs_parse_def)
next
  case (Cons r rs)
  show ?case
  proof (cases "to_datetime (start_date r)")
    case (Inl e')
    then show ?thesis using to_datetime_Inl [OF Inl]
      by (auto simp: runs_parse_def run_key_def)
  next
    case (Inr d)
    then show ?thesis using Cons.IH by (simp add: runs_parse_def run_key_def)
  qed
qed

lemma add_run_date_keyed:
  "date_keyed dm \<Longrightarrow> is_date_key k \<Longrightarrow> date_keyed (add_run dm k x y)"
  by (simp add: date_keyed_def add_run_def Let_def distinct_update list_all_update)

lemma add_run_nonneg:
  assumes "nonneg_buckets dm" "0 \<le> x" "0 \<le> y"
  shows "nonneg_buckets (add_run dm k x y)"
proof -
  have "0 \<le> distance b \<and> 0 \<le> duration b" if "map_of dm k = Some b" for b
    using assms(1) map_of_SomeD [OF that] by (auto simp: nonneg_buckets_def list_all_iff)
  with assms show ?thesis
    by (auto simp: nonneg_buckets_def add_run_def Let_def zero_bucket_def
        intro!: list_all_update split: option.splits)
qed

lemma accumulate_runs_date_keyed:
  "accumulate_runs dm rs = Inr dm' \<Longrightarrow> date_keyed dm \<Longrightarrow> date_keyed dm'"
proof (induction rs arbitrary: dm)
  case (Cons r rs)
  then show ?case
    by (auto split: sum.splits intro: add_run_date_keyed is_date_key_date_str)
qed simp

lemma accumulate_runs_nonneg:
  "accumulate_runs dm rs = Inr dm' \<Longrightarrow> nonneg_buckets dm \<Longrightarrow> nonneg_runs rs \<Longrightarrow>
   nonneg_buckets dm'"
proof (induction rs arbitrary: dm)
  case (Cons r rs)
  then show ?case
    by (auto simp: nonneg_runs_def split: sum.splits intro: add_run_nonneg)
qed simp

lemma map_fst_add_run:
  "map fst (add_run dm k x y) = (if k \<in> set (map fst dm) then map fst dm else map fst dm @ [k])"
  by (simp add: add_run_def Let_def map_fst_update)

lemma accumulate_runs_keys:
  "accumulate_runs dm rs = Inr dm' \<Longrightarrow> distinct (map fst dm) \<Longrightarrow>
   map fst dm' = rev (remdups (rev (map fst dm @ map (\<lambda>r. take 10 (start_date r)) rs)))"
proof (induction rs arbitrary: dm)
  case Nil
  then show ?case by (simp add: first_seen_distinct)
next
  case (Cons r rs)
  then obtain d where d: "to_datetime (start_date r) = Inr d"
    by (cases "to_datetime (start_date r)") auto
  define k where "k = take 10 (start_date r)"
  have k: "date_str d = k" unfolding k_def by (rule to_datetime_date_key [OF d])
  let ?dm1 = "add_run dm k (run_distance r) (run_duration r)"
  have "accumulate_runs ?dm1 rs = Inr dm'" using Cons.prems(1) d k by simp
  moreover have "distinct (map fst ?dm1)"
    using Cons.prems(2) by (simp add: add_run_def Let_def distinct_update)
  ultimately have IH: "map fst dm' = rev (remdups (rev (map fst ?dm1 @ map (\<lambda>r. take 10 (start_date r)) rs)))"
    by (rule Cons.IH)
  show ?case
  proof (cases "k \<in> set (map fst dm)")
    case True
    with IH show ?thesis by (simp add: map_fst_add_run remdups_mid k_def)
  next
    case False
    with IH show ?thesis by (simp add: map_fst_add_run k_def)
  qed
qed

lemma accumulate_runs_Inr: "runs_parse rs \<Longrightarrow> \<exists>dm'. accumulate_runs dm rs = Inr dm'"
  using accumulate_runs_error [of dm rs] by (cases "accumulate_runs dm rs") auto

lemma daily_totals_mset:
  assumes "mset rs = mset rs'"
  shows "daily_totals rs = daily_totals rs'"
proof
  fix k
  let ?P = "\<lambda>r. run_key r = Some k"
  have m: "mset (filter ?P rs) = mset (filter ?P rs')" using assms by simp
  then have "sum_list (map f (filter ?P rs)) = sum_list (map f (filter ?P rs'))" for f :: "run \<Rightarrow> real"
    by (simp flip: sum_mset_sum_list)
  moreover from m have "filter ?P rs = [] \<longleftrightarrow> filter ?P rs' = []"
    by (simp flip: mset_zero_iff)
  ultimately show "daily_totals rs k = daily_totals rs' k"
    by (simp add: daily_totals_def totals_from_def)
qed

lemma fetch_running_data_keys: "date_keyed (fetch_running_data resp)"
proof (cases resp)
  case (Fetched rs)
  then show ?thesis
    using accumulate_runs_date_keyed [of "[]" rs]
    by (auto simp: fetch_running_data_def date_keyed_def split: sum.splits)
qed (simp_all add: fetch_running_data_def date_keyed_def)

section \<open>Properties of fetch_running_data\<close>

lemma map_of_fetch_running_data:
  "map_of (fetch_running_data (Fetched rs)) =
   (if runs_parse rs then daily_totals rs else Map.empty)"
proof (cases "runs_parse rs")
  case True
  then obtain dm' where acc: "accumulate_runs [] rs = Inr dm'"
    using accumulate_runs_Inr by blast
  have "map_of dm' = daily_totals rs"
    using accumulate_runs_map_of [OF acc] by (simp add: fun_eq_iff daily_totals_def)
  with acc True show ?thesis by (simp add: fetch_running_data_def)
next
  case False
  then show ?thesis using accumulate_runs_error [of "[]" rs ValueError]
    by (simp add: fetch_running_data_def)
qed

text \<open>C25: for start dates of the ISO forms on which the model of \<open>pd.to_datetime\<close>
  is exact (\<open>pandas_modelled\<close>: dates alone or Strava's timestamps such as
  \<open>'2024-03-01T07:00:00Z'\<close>), the dict built from a run list maps each date to the sum
  of the distances and durations of that date's runs, and has no entry for a date
  without runs; a run list with a start date pandas rejects gives the empty dict.\<close>

theorem fetch_running_data_totals:
  "list_all (\<lambda>r. pandas_modelled (start_date r)) rs \<Longrightarrow>
   map_of (fetch_running_data (Fetched rs)) =
   (if runs_parse rs then daily_totals rs else Map.empty)"
  by (simp add: map_of_fetch_running_data)

text \<open>C26: order independence: permuting the run list does not change the mapping.\<close>

theorem fetch_running_data_perm:
  "mset rs = mset rs' \<Longrightarrow>
   map_of (fetch_running_data (Fetched rs)) = map_of (fetch_running_data (Fetched rs'))"
proof -
  assume m: "mset rs = mset rs'"
  then have "set rs = set rs'" by (metis set_mset_mset)
  then have "runs_parse rs = runs_parse rs'" by (simp add: runs_parse_def list_all_iff)
  with daily_totals_mset [OF m] show ?thesis by (simp add: map_of_fetch_running_data)
qed

text \<open>C27: the dict built from runs of non-negative distance and duration is well
  formed: one entry per date, every key a date string that \<open>pd.to_datetime\<close> reads
  back, no negative total.\<close>

theorem fetch_running_data_wf:
  "nonneg_runs rs \<Longrightarrow> wf_daily_mileage (fetch_running_data (Fetched rs))"
proof (cases "accumulate_runs [] rs")
  case (Inr dm)
  assume nn: "nonneg_runs rs"
  have "date_keyed dm" using accumulate_runs_date_keyed [OF Inr] by (simp add: date_keyed_def)
  moreover have "nonneg_buckets dm"
    using accumulate_runs_nonneg [OF Inr] nn by (simp add: nonneg_buckets_def)
  ultimately show ?thesis using Inr by (simp add: fetch_running_data_def wf_daily_mileage_def)
next
  case Inl
  then show ?thesis
    by (simp add: fetch_running_data_def wf_daily_mileage_def date_keyed_def nonneg_buckets_def)
qed

text \<open>Every key of the dict, whatever the upstream returned, is a date string that
  \<open>pd.to_datetime\<close> reads back, with one entry per date.\<close>

lemma fetch_running_data_date_keyed: "date_keyed (fetch_running_data resp)"
  by (rule fetch_running_data_keys)


text \<open>C29: the keys of the dict are the start dates as written, in the order in which
  they first occur: \<open>pd.to_datetime(s).strftime('%Y-%m-%d')\<close> is the first ten
  characters of \<open>s\<close>, so the time and the zone of a Strava timestamp are dropped, not
  converted to UTC or to local time.\<close>

theorem fetch_running_data_written_dates:
  "list_all (\<lambda>r. pandas_modelled (start_date r)) rs \<Longrightarrow> runs_parse rs \<Longrightarrow>
   map fst (fetch_running_data (Fetched rs)) = rev (remdups (rev (map (\<lambda>r. take 10 (start_date r)) rs)))"
proof -
  assume "runs_parse rs"
  then obtain dm' where acc: "accumulate_runs [] rs = Inr dm'"
    using accumulate_runs_Inr by blast
  then show ?thesis using accumulate_runs_keys [OF acc] by (simp add: fetch_running_data_def)
qed

section \<open>Witnesses\<close>

theorem fetch_running_data_perm_witness:
  "mset [run_example ''2024-03-01'' 3.1 28, run_example ''2024-03-02'' 5 45] =
   mset [run_example ''2024-03-02'' 5 45, run_example ''2024-03-01'' 3.1 28] \<and>
   map_of (fetch_running_data (Fetched [run_example ''2024-03-01'' 3.1 28, run_example ''2024-03-02'' 5 45])) =
   map_of (fetch_running_data (Fetched [run_example ''2024-03-02'' 5 45, run_example ''2024-03-01'' 3.1 28]))"
proof -
  have m: "mset [run_example ''2024-03-01'' 3.1 28, run_example ''2024-03-02'' 5 45] =
    mset [run_example ''2024-03-02'' 5 45, run_example ''2024-03-01'' 3.1 28]"
    by (simp add: add_mset_commute)
  show ?thesis using m fetch_running_data_perm [OF m] by simp
qed

theorem fetch_running_data_wf_witness:
  "nonneg_runs [run_example ''2024-03-01'' 3.1 28] \<and>
   wf_daily_mileage (fetch_running_data (Fetched [run_example ''2024-03-01'' 3.1 28]))"
proof -
  have n: "nonneg_runs [run_example ''2024-03-01'' 3.1 28]"
    by (simp add: nonneg_runs_def run_example_def)
  show ?thesis using n fetch_running_data_wf [OF n] by simp
qed

lemma modelled_example_dates:
  "pandas_modelled ''2024-03-01T07:00:00Z''" "pandas_modelled ''2024-03-01T18:30:00.5+02:00''"
  "pandas_modelled ''2024-03-02 06:15:00''" "pandas_modelled ''2024-02-30T07:00:00Z''"
  by (simp_all add: calendar_simps)

lemma parse_example_dates:
  "to_datetime ''2024-03-01T07:00:00Z'' = Inr \<lparr>year = 2024, month = 3, day = 1\<rparr>"
  "to_datetime ''2024-03-01T18:30:00.5+02:00'' = Inr \<lparr>year = 2024, month = 3, day = 1\<rparr>"
  "to_datetime ''2024-03-02 06:15:00'' = Inr \<lparr>year = 2024, month = 3, day = 2\<rparr>"
  "to_datetime ''2024-02-30T07:00:00Z'' = Inl ValueError"
  by (simp_all add: calendar_simps)

theorem fetch_running_data_totals_witness:
  "list_all (\<lambda>r. pandas_modelled (start_date r))
     [run_example ''2024-03-01T07:00:00Z'' 3.1 28, run_example ''2024-03-01T18:30:00.5+02:00'' 2 19] \<and>
   map_of (fetch_running_data (Fetched [run_example ''2024-03-01T07:00:00Z'' 3.1 28,
                                        run_example ''2024-03-01T18:30:00.5+02:00'' 2 19])) =
   daily_totals [run_example ''2024-03-01T07:00:00Z'' 3.1 28, run_example ''2024-03-01T18:30:00.5+02:00'' 2 19]"
proof -
  let ?rs = "[run_example ''2024-03-01T07:00:00Z'' 3.1 28, run_example ''2024-03-01T18:30:00.5+02:00'' 2 19]"
  have m: "list_all (\<lambda>r. pandas_modelled (start_date r)) ?rs"
    using modelled_example_dates by (simp add: run_example_def)
  have p: "runs_parse ?rs"
    using parse_example_dates by (simp add: runs_parse_def run_key_def run_example_def)
  show ?thesis using m p fetch_running_data_totals [OF m] by simp
qed


theorem fetch_running_data_written_dates_witness:
  "list_all (\<lambda>r. pandas_modelled (start_date r))
     [run_example ''2024-03-01T07:00:00Z'' 3.1 28, run_example ''2024-03-02 06:15:00'' 5 45,
      run_example ''2024-03-01T18:30:00.5+02:00'' 2 19] \<and>
   runs_parse [run_example ''2024-03-01T07:00:00Z'' 3.1 28, run_example ''2024-03-02 06:15:00'' 5 45,
      run_example ''2024-03-01T18:30:00.5+02:00'' 2 19] \<and>
   map fst (fetch_running_data (Fetched [run_example ''2024-03-01T07:00:00Z'' 3.1 28,
      run_example ''2024-03-02 06:15:00'' 5 45, run_example ''2024-03-01T18:30:00.5+02:00'' 2 19])) =
   [''2024-03-01'', ''2024-03-02'']"
proof -
  let ?rs = "[run_example ''2024-03-01T07:00:00Z'' 3.1 28, run_example ''2024-03-02 06:15:00'' 5 45,
      run_example ''2024-03-01T18:30:00.5+02:00'' 2 19]"
  have m: "list_all (\<lambda>r. pandas_modelled (start_date r)) ?rs"
    using modelled_example_dates by (simp add: run_example_def)
  have p: "runs_parse ?rs"
    using parse_example_dates by (simp add: runs_parse_def run_key_def run_example_def)
  show ?thesis using m p fetch_running_data_written_dates [OF m p] by (simp add: run_example_def)
qed

end
