(* ===== verification/Summary.thy ===== *)
theory Summary
  imports Aggregator
begin

text \<open>
  The summary statistics: \<open>calculate_summary_statistics(daily_mileage, year)\<close>
  (src/app.py 228-241) walks the dict in insertion order, parses each key with
  \<open>pd.to_datetime\<close> (an exception here is not caught: it propagates to the route), and
  counts the keys of the given year and sums their distances; the sum is rounded to two
  decimals once, at the end.
\<close>

section \<open>calculate_summary_statistics (src/app.py)\<close>

fun summary_loop :: "int \<Rightarrow> nat \<times> real \<Rightarrow> daily_mileage \<Rightarrow> (nat \<times> real) result" where
  "summary_loop y acc [] = Inr acc"
| "summary_loop y (n, t) ((k, b) # dm) =
     (case to_datetime k of
        Inl e \<Rightarrow> Inl e
      | Inr d \<Rightarrow>
          if year d = y then summary_loop y (n + 1, t + distance b) dm
          else summary_loop y (n, t) dm)"

definition calculate_summary_statistics :: "daily_mileage \<Rightarrow> int \<Rightarrow> (nat \<times> real) result" where
  "calculate_summary_statistics dm y =
     (case summary_loop y (0, 0) dm of
        Inl e \<Rightarrow> Inl e
      | Inr (n, t) \<Rightarrow> Inr (n, py_round2 t))"

section \<open>Specification\<close>

text \<open>The year of a dict key, \<open>None\<close> when \<open>pd.to_datetime\<close> rejects it, and the keys of
  a year as a set: the spec's "dates with at least one activity in that year".\<close>

definition key_year :: "string \<Rightarrow> int option" where
  "key_year k = (case to_datetime k of Inr d \<Rightarrow> Some (year d) | Inl _ \<Rightarrow> None)"

definition year_keys :: "daily_mileage \<Rightarrow> int \<Rightarrow> string set" where
  "year_keys dm y = {k \<in> fst ` set dm. key_year k = Some y}"

definition two_years :: daily_mileage where
  "two_years = [(''2023-12-31'', \<lparr>distance = 2, duration = 20\<rparr>),
                (''2024-01-01'', \<lparr>distance = 4, duration = 40\<rparr>)]"

section \<open>Lemmas\<close>

lemma summary_loop_eq:
  "list_all (\<lambda>(k, b). key_year k \<noteq> None) dm \<Longrightarrow>
   summary_loop y (n, t) dm =
   Inr (n + length (filter (\<lambda>(k, b). key_year k = Some y) dm),
        t + sum_list (map (distance \<circ> snd) (filter (\<lambda>(k, b). key_year k = Some y) dm)))"
proof (induction dm arbitrary: n t)
  case Nil
  then show ?case by simp
next
  case (Cons p dm)
  obtain k b where p: "p = (k, b)" by (cases p)
  with Cons.prems obtain d where d: "to_datetime k = Inr d"
    by (cases "to_datetime k") (auto simp: key_year_def)
  with Cons.prems Cons.IH p show ?case by (simp add: key_year_def add.assoc)
qed

lemma summary_loop_error:
  "\<not> list_all (\<lambda>(k, b). key_year k \<noteq> None) dm \<Longrightarrow> summary_loop y (n, t) dm = Inl ValueError"
proof (induction dm arbitrary: n t)
  case Nil
  then show ?case by simp
next
  case (Cons p dm)
  obtain k b where p: "p = (k, b)" by (cases p)
  show ?case
  proof (cases "to_datetime k")
    case (Inl e)
    then show ?thesis using p to_datetime_Inl [OF Inl] by simp
  next
    case (Inr d)
    with Cons p show ?thesis by (simp add: key_year_def)
  qed
qed

lemma date_keyed_parses: "date_keyed dm \<Longrightarrow> list_all (\<lambda>(k, b). key_year k \<noteq> None) dm"
  by (auto simp: date_keyed_def is_date_key_def key_year_def list_all_iff split: sum.splits)

lemma length_filter_distinct_keys:
  assumes "distinct (map fst dm)"
  shows "length (filter (\<lambda>(k, b). P k) dm) = card {k \<in> fst ` set dm. P k}"
proof -
  have "length (filter (\<lambda>(k, b). P k) dm) = length (filter P (map fst dm))"
    by (induction dm) auto
  also have "\<dots> = card (set (filter P (map fst dm)))"
    by (rule distinct_card [OF distinct_filter [OF assms], symmetric])
  also have "set (filter P (map fst dm)) = {k \<in> fst ` set dm. P k}" by auto
  finally show ?thesis .
qed

lemma sum_filter_distinct_keys:
  assumes "distinct (map fst dm)"
  shows "sum_list (map (distance \<circ> snd) (filter (\<lambda>(k, b). P k) dm)) =
         (\<Sum>k \<in> {k \<in> fst ` set dm. P k}. distance (the (map_of dm k)))"
  using assms
proof (induction dm)
  case Nil
  then show ?case by simp
next
  case (Cons p dm)
  obtain k b where p: "p = (k, b)" by (cases p)
  from Cons.prems p have nk: "k \<notin> fst ` set dm" and dd: "distinct (map fst dm)" by auto
  have eq: "(\<Sum>k' \<in> {k' \<in> fst ` set dm. P k'}. distance (the (map_of ((k, b) # dm) k'))) =
            (\<Sum>k' \<in> {k' \<in> fst ` set dm. P k'}. distance (the (map_of dm k')))"
    using nk by (intro sum.cong) auto
  show ?case
  proof (cases "P k")
    case True
    then have "{k' \<in> fst ` set ((k, b) # dm). P k'} = insert k {k' \<in> fst ` set dm. P k'}" by auto
    with True nk eq Cons.IH [OF dd] p show ?thesis by simp
  next
    case False
    then have "{k' \<in> fst ` set ((k, b) # dm). P k'} = {k' \<in> fst ` set dm. P k'}" by auto
    with False eq Cons.IH [OF dd] p show ?thesis by simp
  qed
qed

lemma calculate_summary_statistics_eq:
  assumes "date_keyed dm"
  shows "calculate_summary_statistics dm y =
         Inr (card (year_keys dm y), py_round2 (\<Sum>k \<in> year_keys dm y. distance (the (map_of dm k))))"
proof -
  have d: "distinct (map fst dm)" using assms by (simp add: date_keyed_def)
  show ?thesis
    using summary_loop_eq [OF date_keyed_parses [OF assms], of y 0 0]
      length_filter_distinct_keys [OF d, of "\<lambda>k. key_year k = Some y"]
      sum_filter_distinct_keys [OF d, of "\<lambda>k. key_year k = Some y"]
    by (simp add: calculate_summary_statistics_def year_keys_def)
qed

section \<open>Properties of calculate_summary_statistics\<close>

text \<open>C30: on a date-keyed dict the statistics are the number of distinct dates of the
  year that have a bucket (a day with several runs counts once) and the sum of their
  distances, rounded once to two decimals.\<close>

theorem summary_refines:
  "date_keyed dm \<Longrightarrow>
   calculate_summary_statistics dm y =
   Inr (card (year_keys dm y), py_round2 (\<Sum>k \<in> year_keys dm y. distance (the (map_of dm k))))"
  by (rule calculate_summary_statistics_eq)

text \<open>Only the buckets dated in the requested year count: dropping every bucket of
  another year leaves the statistics unchanged.\<close>

lemma summary_year_filter:
  "date_keyed dm \<Longrightarrow>
   calculate_summary_statistics dm y =
   calculate_summary_statistics (filter (\<lambda>(k, b). key_year k = Some y) dm) y"
proof -
  assume a: "date_keyed dm"
  let ?dm = "filter (\<lambda>(k, b). key_year k = Some y) dm"
  have "date_keyed ?dm" using a by (auto simp: date_keyed_def list_all_iff distinct_map_filter)
  moreover have "year_keys ?dm y = year_keys dm y" by (auto simp: year_keys_def)
  moreover have "map_of ?dm k = map_of dm k" if "k \<in> year_keys dm y" for k
    using that a by (auto simp: year_keys_def date_keyed_def map_of_filter_in split: prod.splits)
  ultimately show ?thesis using a
    by (simp add: calculate_summary_statistics_eq cong: sum.cong)
qed

text \<open>The spec's example: buckets of 3.1 and 5.0 miles on 2024-03-01 and
  2024-03-02 give two active days and 8.10 miles for 2024.\<close>

lemma summary_example:
  "calculate_summary_statistics
     [(''2024-03-01'', \<lparr>distance = 3.1, duration = 28\<rparr>),
      (''2024-03-02'', \<lparr>distance = 5.0, duration = 45\<rparr>)] 2024 = Inr (2, 8.1)"
  by (simp add: calculate_summary_statistics_def calendar_simps py_round2_def round_half_even_def)

text \<open>C31: among keys of the forms on which the model of \<open>pd.to_datetime\<close> is exact,
  one that pandas rejects (a date that is not in the calendar, such as
  \<open>'2024-02-30'\<close>) makes the statistics raise \<open>ValueError\<close>, which the code does not
  catch; a key with a time, such as \<open>'2024-03-01T00:00:00'\<close>, is read as its date.\<close>

theorem summary_bad_key:
  "list_all (\<lambda>(k, b). pandas_modelled k) dm \<Longrightarrow>
   \<not> list_all (\<lambda>(k, b). key_year k \<noteq> None) dm \<Longrightarrow>
   calculate_summary_statistics dm y = Inl ValueError"
  by (simp add: calculate_summary_statistics_def summary_loop_error)

section \<open>Witnesses\<close>

lemma two_years_date_keyed: "date_keyed two_years"
  by (simp add: two_years_def date_keyed_def is_date_key_def calendar_simps)

theorem summary_refines_witness:
  "date_keyed two_years \<and>
   calculate_summary_statistics two_years 2024 =
   Inr (card (year_keys two_years 2024),
        py_round2 (\<Sum>k \<in> year_keys two_years 2024. distance (the (map_of two_years k))))"
  using two_years_date_keyed summary_refines [OF two_years_date_keyed, of 2024] by simp

theorem summary_year_filter_witness:
  "date_keyed two_years \<and>
   calculate_summary_statistics two_years 2024 =
   calculate_summary_statistics (filter (\<lambda>(k, b). key_year k = Some 2024) two_years) 2024"
  using two_years_date_keyed summary_year_filter [OF two_years_date_keyed, of 2024] by simp

theorem summary_bad_key_witness:
  "list_all (\<lambda>(k, b). pandas_modelled k)
     [(''2024-03-01T00:00:00'', \<lparr>distance = 3, duration = 30\<rparr>), (''2024-02-30'', \<lparr>distance = 1, duration = 9\<rparr>)] \<and>
   \<not> list_all (\<lambda>(k, b). key_year k \<noteq> None)
     [(''2024-03-01T00:00:00'', \<lparr>distance = 3, duration = 30\<rparr>), (''2024-02-30'', \<lparr>distance = 1, duration = 9\<rparr>)] \<and>
   calculate_summary_statistics
     [(''2024-03-01T00:00:00'', \<lparr>distance = 3, duration = 30\<rparr>), (''2024-02-30'', \<lparr>distance = 1, duration = 9\<rparr>)] 2024 =
   Inl ValueError"
proof -
  let ?dm = "[(''2024-03-01T00:00:00'', \<lparr>distance = 3, duration = 30\<rparr>), (''2024-02-30'', \<lparr>distance = 1, duration = 9\<rparr>)]"
  have m: "list_all (\<lambda>(k, b). pandas_modelled k) ?dm"
    by (simp add: calendar_simps)
  have n: "\<not> list_all (\<lambda>(k, b). key_year k \<noteq> None) ?dm"
    by (simp add: key_year_def calendar_simps)
  show ?thesis using m n summary_bad_key [OF m n] by simp
qed

end
