(* ===== verification/Heatmap.thy ===== *)
theory Heatmap
  imports Aggregator
begin

text \<open>
  The calendar layout: \<open>prepare_heatmap_data(daily_mileage)\<close> (src/app.py 185-226).
  It builds one DataFrame row per date of the current year (\<open>pd.date_range\<close>) with the
  weekday, the ISO week minus one, the date's mileage (0 without a bucket) and its
  tooltip; groups the rows by (weekday, week), summing the mileage and joining the
  tooltips with \<open>'; '\<close> in row order; and pivots the groups into a matrix whose rows
  are the weekdays present and whose columns are the weeks present, in ascending order,
  filling a missing cell with 0 (mileage) or \<open>''\<close> (tooltip). The current year,
  \<open>pd.Timestamp.now().year\<close>, is a parameter.
\<close>

record heat_row =
  row_dow :: int
  row_week :: int
  row_mileage :: real
  row_text :: string

type_synonym cell_key = "int \<times> int"

text \<open>The result of \<open>groupby(...).agg(...)\<close>: per (weekday, week), the mileage sum and
  the tooltips to be joined, in row order.\<close>

type_synonym groups = "(cell_key \<times> real \<times> string list) list"

text \<open>The dict the function returns: \<open>'z'\<close>, \<open>'x'\<close>, \<open>'y'\<close>, \<open>'text'\<close>.\<close>

record heatmap =
  hm_z :: "real list list"
  hm_x :: "int list"
  hm_y :: "string list"
  hm_text :: "string list list"

section \<open>prepare_heatmap_data (src/app.py)\<close>

text \<open>\<open>f"{x:.2f}"\<close>: half-even rounding to cents, a leading minus for a negative
  value.\<close>

definition format_2f :: "real \<Rightarrow> string" where
  "format_2f x =
     (let n = round_half_even (\<bar>x\<bar> * 100)
      in (if x < 0 then ''-'' else []) @ show_nat (nat (n div 100)) @ ''.'' @
         zfill 2 (show_nat (nat (n mod 100))))"

text \<open>\<open>daily_mileage.get(str(date.date()), {}).get('distance', 0)\<close>.\<close>

definition mileage_of :: "daily_mileage \<Rightarrow> pdate \<Rightarrow> real" where
  "mileage_of dm d = (case map_of dm (date_str d) of None \<Rightarrow> 0 | Some b \<Rightarrow> distance b)"

text \<open>The tooltip lambda of \<open>df['text']\<close>.\<close>

definition tooltip :: "daily_mileage \<Rightarrow> pdate \<Rightarrow> string" where
  "tooltip dm d =
     (case map_of dm (date_str d) of
        None \<Rightarrow> ''No activity''
      | Some b \<Rightarrow> format_2f (distance b) @ '' miles in '' @ format_2f (duration b) @
                  '' minutes on '' @ date_str d)"

text \<open>One DataFrame row, after \<open>df['week_of_year'] - 1\<close>.\<close>

definition date_row :: "daily_mileage \<Rightarrow> pdate \<Rightarrow> heat_row" where
  "date_row dm d =
     \<lparr>row_dow = dayofweek d, row_week = iso_week d - 1,
      row_mileage = mileage_of dm d, row_text = tooltip dm d\<rparr>"

definition heat_rows :: "daily_mileage \<Rightarrow> int \<Rightarrow> heat_row list" where
  "heat_rows dm y = map (date_row dm) (year_dates y)"

definition row_key :: "heat_row \<Rightarrow> cell_key" where
  "row_key r = (row_dow r, row_week r)"

text \<open>\<open>df.groupby(['day_of_week', 'week_of_year']).agg({'mileage': 'sum', 'text': ...})\<close>,
  one row at a time.\<close>

fun group_rows :: "groups \<Rightarrow> heat_row list \<Rightarrow> groups" where
  "group_rows g [] = g"
| "group_rows g (r # rs) =
     group_rows
       (AList.update (row_key r)
          (case map_of g (row_key r) of
             None \<Rightarrow> (row_mileage r, [row_text r])
           | Some (m, ts) \<Rightarrow> (m + row_mileage r, ts @ [row_text r])) g)
       rs"

text \<open>The index and the columns of the pivot: the values present, ascending.\<close>

definition pivot_index :: "heat_row list \<Rightarrow> int list" where
  "pivot_index rows = sort (remdups (map row_dow rows))"

definition pivot_columns :: "heat_row list \<Rightarrow> int list" where
  "pivot_columns rows = sort (remdups (map row_week rows))"

text \<open>\<open>df.pivot(...).fillna(0)\<close> on the mileage and \<open>.fillna("")\<close> on the joined
  tooltips.\<close>

definition pivot_z :: "groups \<Rightarrow> int list \<Rightarrow> int list \<Rightarrow> real list list" where
  "pivot_z g days weeks =
     map (\<lambda>dw. map (\<lambda>wk. case map_of g (dw, wk) of None \<Rightarrow> 0 | Some (m, ts) \<Rightarrow> m) weeks) days"

definition pivot_text :: "groups \<Rightarrow> int list \<Rightarrow> int list \<Rightarrow> string list list" where
  "pivot_text g days weeks =
     map (\<lambda>dw. map (\<lambda>wk. case map_of g (dw, wk) of None \<Rightarrow> [] | Some (m, ts) \<Rightarrow> py_join ''; '' ts)
                 weeks) days"

definition day_labels :: "string list" where
  "day_labels = [''Mon'', ''Tue'', ''Wed'', ''Thu'', ''Fri'', ''Sat'', ''Sun'']"

definition prepare_heatmap_data :: "daily_mileage \<Rightarrow> int \<Rightarrow> heatmap" where
  "prepare_heatmap_data dm current_year =
     (let rows = heat_rows dm current_year;
          g = group_rows [] rows;
          days = pivot_index rows;
          weeks = pivot_columns rows
      in \<lparr>hm_z = pivot_z g days weeks, hm_x = weeks, hm_y = day_labels,
          hm_text = pivot_text g days weeks\<rparr>)"

section \<open>Specification\<close>

text \<open>The cell of a date, and what a cell should hold: the dates of the year in that
  cell, in date order, their mileage summed and their tooltips joined.\<close>

definition cell_of :: "pdate \<Rightarrow> cell_key" where
  "cell_of d = (dayofweek d, iso_week d - 1)"

definition cell_dates :: "int \<Rightarrow> cell_key \<Rightarrow> pdate list" where
  "cell_dates y c = filter (\<lambda>d. cell_of d = c) (year_dates y)"

definition cell_mileage :: "daily_mileage \<Rightarrow> int \<Rightarrow> cell_key \<Rightarrow> real" where
  "cell_mileage dm y c = sum_list (map (mileage_of dm) (cell_dates y c))"

definition cell_text :: "daily_mileage \<Rightarrow> int \<Rightarrow> cell_key \<Rightarrow> string" where
  "cell_text dm y c = py_join ''; '' (map (tooltip dm) (cell_dates y c))"

text \<open>The columns a year should have: the adjusted ISO weeks of its dates.\<close>

definition year_columns :: "int \<Rightarrow> int set" where
  "year_columns y = (\<lambda>d. iso_week d - 1) ` {d. valid_date d \<and> year d = y}"

text \<open>What one group holds after the rows \<open>rk\<close> of its key are folded into \<open>go\<close>.\<close>

definition group_merge :: "(real \<times> string list) option \<Rightarrow> heat_row list \<Rightarrow> (real \<times> string list) option" where
  "group_merge go rk =
     (if rk = [] then go
      else case (case go of None \<Rightarrow> (0, []) | Some p \<Rightarrow> p) of
             (m, ts) \<Rightarrow> Some (m + sum_list (map row_mileage rk), ts @ map row_text rk))"

section \<open>Grouping\<close>

lemma group_merge_Cons:
  "group_merge go (r # rk) =
   group_merge (Some (case go of None \<Rightarrow> (row_mileage r, [row_text r])
                       | Some (m, ts) \<Rightarrow> (m + row_mileage r, ts @ [row_text r]))) rk"
  by (cases go) (auto simp: group_merge_def add.assoc)

lemma group_rows_map_of:
  "map_of (group_rows g rs) k = group_merge (map_of g k) (filter (\<lambda>r. row_key r = k) rs)"
proof (induction rs arbitrary: g)
  case Nil
  then show ?case by (simp add: group_merge_def)
next
  case (Cons r rs)
  then show ?case
    by (cases "row_key r = k") (simp_all add: update_conv' group_merge_Cons)
qed

lemma group_rows_keys:
  "distinct (map fst g) \<Longrightarrow>
   distinct (map fst (group_rows g rs)) \<and> fst ` set (group_rows g rs) = fst ` set g \<union> row_key ` set rs"
proof (induction rs arbitrary: g)
  case Nil
  then show ?case by simp
next
  case (Cons r rs)
  let ?g = "AList.update (row_key r)
     (case map_of g (row_key r) of None \<Rightarrow> (row_mileage r, [row_text r])
      | Some (m, ts) \<Rightarrow> (m + row_mileage r, ts @ [row_text r])) g"
  from Cons.prems have "distinct (map fst ?g)" by (simp add: distinct_update)
  with Cons.IH [of ?g] show ?case by (auto simp: dom_update)
qed

lemma filter_heat_rows:
  "filter (\<lambda>r. row_key r = c) (heat_rows dm y) = map (date_row dm) (cell_dates y c)"
  by (simp add: heat_rows_def cell_dates_def filter_map o_def row_key_def date_row_def cell_of_def)

lemma groups_of_year:
  "map_of (group_rows [] (heat_rows dm y)) c =
   (if cell_dates y c = [] then None
    else Some (cell_mileage dm y c, map (tooltip dm) (cell_dates y c)))"
  by (simp add: group_rows_map_of filter_heat_rows group_merge_def cell_mileage_def o_def
      date_row_def)

section \<open>The pivot's index and columns\<close>

lemma dayofweek_year: "dayofweek ` set (year_dates y) = {0..6}"
proof
  show "dayofweek ` set (year_dates y) \<subseteq> {0..6}"
    by (auto simp: dayofweek_def)
next
  show "{0..6} \<subseteq> dayofweek ` set (year_dates y)"
  proof
    fix r :: int
    assume r: "r \<in> {0..6}"
    define i where "i = nat ((r - days_before_year y - 7) mod 7)"
    have i7: "i < 7" by (simp add: i_def nat_less_iff)
    then have il: "i < length (year_dates y)" by (simp add: length_year_dates)
    have ii: "int i = (r - days_before_year y - 7) mod 7" by (simp add: i_def)
    have "(days_before_year y + 1 + int i + 6) mod 7 =
          ((days_before_year y + 7) + (r - days_before_year y - 7) mod 7) mod 7"
      by (simp add: ii add.assoc)
    also have "\<dots> = ((days_before_year y + 7) + (r - days_before_year y - 7)) mod 7"
      by (simp only: mod_add_right_eq)
    also have "\<dots> = r" using r by simp
    finally have "(days_before_year y + 1 + int i + 6) mod 7 = r" .
    then have "dayofweek (year_dates y ! i) = r"
      using year_dates_nth [OF il] by (simp add: dayofweek_def)
    with il show "r \<in> dayofweek ` set (year_dates y)" by (metis image_eqI nth_mem)
  qed
qed

lemma sorted_list_of_set_upto: "sorted_list_of_set (set [a..b]) = [a..(b::int)]"
  by (simp add: sorted_list_of_set_sort_remdups distinct_remdups_id sorted_sort_id sorted_upto)

lemma pivot_index_year: "pivot_index (heat_rows dm y) = [0..6]"
proof -
  have "set (map row_dow (heat_rows dm y)) = set [0..6]"
    using dayofweek_year [of y] by (simp add: heat_rows_def date_row_def image_image)
  then show ?thesis
    by (simp add: pivot_index_def sorted_list_of_set_sort_remdups [symmetric] sorted_list_of_set_upto
        del: set_upto)
qed

lemma set_year_dates: "set (year_dates y) = {d. valid_date d \<and> year d = y}"
  using year_dates_subset year_dates_complete by blast

lemma pivot_columns_year:
  "pivot_columns (heat_rows dm y) = sorted_list_of_set (year_columns y)"
proof -
  have s: "set (map row_week (heat_rows dm y)) = year_columns y"
    by (simp add: heat_rows_def date_row_def image_image year_columns_def set_year_dates)
  have "pivot_columns (heat_rows dm y) = sorted_list_of_set (set (map row_week (heat_rows dm y)))"
    by (simp only: pivot_columns_def sorted_list_of_set_sort_remdups)
  then show ?thesis by (simp only: s)
qed

lemma year_columns_bounds: "year_columns y \<subseteq> {0..52}"
  using iso_week_range by (fastforce simp: year_columns_def)

lemma finite_year_columns: "finite (year_columns y)"
  using finite_subset [OF year_columns_bounds] by simp

lemma iso_week_Jan4: "iso_week \<lparr>year = y, month = 1, day = 4\<rparr> = 1"
proof -
  let ?d = "\<lparr>year = y, month = 1, day = 4\<rparr>"
  have o: "toordinal ?d = days_before_year y + 4" by (simp add: toordinal_def)
  have w: "days_before_year y - 2 \<le> isoweek1monday y" "isoweek1monday y \<le> days_before_year y + 4"
    using isoweek1monday_bounds [of y] by auto
  then have "(toordinal ?d - isoweek1monday y) div 7 = 0" using o by (simp add: div_pos_pos_trivial)
  then show ?thesis by (simp add: iso_week_def Let_def)
qed

lemma zero_in_year_columns: "0 \<in> year_columns y"
proof -
  have "valid_date \<lparr>year = y, month = 1, day = 4\<rparr>"
    by (simp add: valid_date_def days_in_month_def month_days_def)
  then show ?thesis using iso_week_Jan4 [of y] unfolding year_columns_def by force
qed

lemma sorted_list_of_set_first:
  assumes "finite S" "0 \<in> S" "S \<subseteq> {0..}"
  shows "sorted_list_of_set S \<noteq> [] \<and> sorted_list_of_set S ! 0 = (0::int)"
proof -
  let ?xs = "sorted_list_of_set S"
  have set: "set ?xs = S" and srt: "sorted ?xs" using assms(1) by simp_all
  then have ne: "?xs \<noteq> []" using assms(2) by auto
  then have "?xs ! 0 \<in> S" using set by (metis length_greater_0_conv nth_mem)
  then have ge: "0 \<le> ?xs ! 0" using assms(3) by auto
  obtain k where "k < length ?xs" "?xs ! k = 0" using assms(2) set by (metis in_set_conv_nth)
  then have "?xs ! 0 \<le> 0" using srt by (metis le0 sorted_nth_mono)
  with ge ne show ?thesis by simp
qed

lemma heatmap_fields:
  "hm_z (prepare_heatmap_data dm y) =
     pivot_z (group_rows [] (heat_rows dm y)) [0..6] (sorted_list_of_set (year_columns y))"
  "hm_text (prepare_heatmap_data dm y) =
     pivot_text (group_rows [] (heat_rows dm y)) [0..6] (sorted_list_of_set (year_columns y))"
  "hm_x (prepare_heatmap_data dm y) = sorted_list_of_set (year_columns y)"
  "hm_y (prepare_heatmap_data dm y) = day_labels"
  by (simp_all add: prepare_heatmap_data_def Let_def pivot_index_year pivot_columns_year)

lemma heatmap_nth:
  assumes "i < 7" "j < length (hm_x (prepare_heatmap_data dm y))"
  shows "hm_z (prepare_heatmap_data dm y) ! i ! j =
           cell_mileage dm y (int i, hm_x (prepare_heatmap_data dm y) ! j) \<and>
         hm_text (prepare_heatmap_data dm y) ! i ! j =
           cell_text dm y (int i, hm_x (prepare_heatmap_data dm y) ! j)"
proof -
  have i: "[0..6] ! i = int i" "i < length [0..(6::int)]" using assms(1) by (simp_all add: nth_upto)
  show ?thesis using assms(2) i
    by (auto simp: heatmap_fields pivot_z_def pivot_text_def groups_of_year cell_mileage_def
        cell_text_def)
qed

lemma heatmap_first_column:
  "hm_x (prepare_heatmap_data dm y) \<noteq> [] \<and> hm_x (prepare_heatmap_data dm y) ! 0 = 0"
proof -
  have "year_columns y \<subseteq> {0..}" using year_columns_bounds [of y] by auto
  then show ?thesis
    using sorted_list_of_set_first [OF finite_year_columns zero_in_year_columns] by (simp add: heatmap_fields)
qed

lemma cell_dates_2026_corner: "cell_dates 2026 (0, 0) = []"
  by code_simp

lemma cell_dates_2024_corner:
  "cell_dates 2024 (0, 0) = [\<lparr>year = 2024, month = 1, day = 1\<rparr>, \<lparr>year = 2024, month = 12, day = 30\<rparr>]"
  by code_simp

section \<open>Properties of prepare_heatmap_data\<close>

text \<open>C32: every cell of the grid holds what the spec asks of it: at weekday row \<open>i\<close>
  and column \<open>j\<close>, the mileage summed over the dates of the year in that cell (0 when
  none) and their tooltips joined with \<open>'; '\<close> in date order (\<open>''\<close> when none).\<close>

theorem heatmap_cells:
  "i < 7 \<Longrightarrow> j < length (hm_x (prepare_heatmap_data dm y)) \<Longrightarrow>
   hm_z (prepare_heatmap_data dm y) ! i ! j =
     cell_mileage dm y (int i, hm_x (prepare_heatmap_data dm y) ! j) \<and>
   hm_text (prepare_heatmap_data dm y) ! i ! j =
     cell_text dm y (int i, hm_x (prepare_heatmap_data dm y) ! j)"
  by (rule heatmap_nth)

text \<open>C33: the grid is rectangular: seven rows, Monday to Sunday, matching the fixed day
  labels, each as long as the column list, which is the ascending list of the week
  indices that occur in the year.\<close>

theorem heatmap_shape:
  "let h = prepare_heatmap_data dm y in
   length (hm_z h) = 7 \<and> list_all (\<lambda>r. length r = length (hm_x h)) (hm_z h) \<and>
   length (hm_text h) = 7 \<and> list_all (\<lambda>r. length r = length (hm_x h)) (hm_text h) \<and>
   hm_y h = day_labels \<and> length (hm_y h) = 7 \<and>
   sorted (hm_x h) \<and> distinct (hm_x h) \<and> set (hm_x h) = year_columns y"
  using finite_year_columns [of y]
  by (simp add: Let_def heatmap_fields pivot_z_def pivot_text_def list_all_iff day_labels_def)

text \<open>C34: every column index lies in 0..52: ISO weeks run from 1 to 53, so the
  boundary dates land in column 0 or in column 51 or 52, never at -1.\<close>

theorem heatmap_columns_bounds: "set (hm_x (prepare_heatmap_data dm y)) \<subseteq> {0..52}"
  using finite_year_columns [of y] year_columns_bounds [of y] by (simp add: heatmap_fields)

text \<open>The groupby yields one group per distinct (weekday, week) pair of the year's
  dates: no date is dropped and no pair is duplicated.\<close>

lemma heatmap_cell_count:
  "distinct (map fst (group_rows [] (heat_rows dm y))) \<and>
   length (group_rows [] (heat_rows dm y)) = card (cell_of ` {d. valid_date d \<and> year d = y})"
proof -
  let ?g = "group_rows [] (heat_rows dm y)"
  have k: "distinct (map fst ?g)" "fst ` set ?g = row_key ` set (heat_rows dm y)"
    using group_rows_keys [of "[]" "heat_rows dm y"] by simp_all
  have "row_key ` set (heat_rows dm y) = cell_of ` {d. valid_date d \<and> year d = y}"
    by (simp add: heat_rows_def image_image row_key_def date_row_def cell_of_def set_year_dates)
  moreover have "length ?g = card (fst ` set ?g)"
    using k(1) by (metis distinct_card length_map list.set_map)
  ultimately show ?thesis using k by simp
qed

text \<open>On the empty dict every mileage is 0 and every tooltip is a \<open>'; '\<close>-join of
  \<open>'No activity'\<close> strings: the empty string for a cell without a date of the
  year, and a repeated \<open>'No activity'\<close> for a cell that merges two dates.\<close>

lemma heatmap_empty:
  "list_all (list_all (\<lambda>x. x = 0)) (hm_z (prepare_heatmap_data [] y)) \<and>
   list_all (list_all (\<lambda>t. \<exists>n. t = py_join ''; '' (replicate n ''No activity'')))
     (hm_text (prepare_heatmap_data [] y))"
proof -
  have e: "mileage_of [] = (\<lambda>d. 0)" "tooltip [] = (\<lambda>d. ''No activity'')"
    by (simp_all add: fun_eq_iff mileage_of_def tooltip_def)
  have c: "cell_mileage [] y c = 0" "cell_text [] y c = py_join ''; '' (replicate (length (cell_dates y c)) ''No activity'')"
    for c
    by (simp_all add: cell_mileage_def cell_text_def e map_replicate_const sum_list_replicate)
  have l: "length (hm_z (prepare_heatmap_data [] y)) = 7" "length (hm_text (prepare_heatmap_data [] y)) = 7"
    "\<forall>r \<in> set (hm_z (prepare_heatmap_data [] y)). length r = length (hm_x (prepare_heatmap_data [] y))"
    "\<forall>r \<in> set (hm_text (prepare_heatmap_data [] y)). length r = length (hm_x (prepare_heatmap_data [] y))"
    by (simp_all add: heatmap_fields pivot_z_def pivot_text_def)
  show ?thesis
    using heatmap_nth [of _ _ "[]" y] c l by (auto simp: list_all_length)
qed

text \<open>C35: The ISO-week boundary leaves cells with no date in the grid: in 2026 the
  Monday of week 1 is 2025-12-29, so the first cell shows mileage 0 and the empty
  tooltip \<open>''\<close>, not \<open>'No activity'\<close>.\<close>

theorem heatmap_2026_blank_corner:
  "hm_z (prepare_heatmap_data dm 2026) ! 0 ! 0 = 0 \<and> hm_text (prepare_heatmap_data dm 2026) ! 0 ! 0 = []"
  using heatmap_nth [of 0 0 dm 2026] heatmap_first_column [of dm 2026] cell_dates_2026_corner
  by (simp add: cell_mileage_def cell_text_def)

text \<open>C36: the ISO-week boundary merges dates of the two ends of a year into one cell:
  in 2024, 2024-12-30 is a Monday of ISO week 1 (of 2025), so the first cell sums the
  mileage of 2024-01-01 and 2024-12-30 and joins their tooltips.\<close>

theorem heatmap_2024_merged_corner:
  "hm_z (prepare_heatmap_data dm 2024) ! 0 ! 0 =
     mileage_of dm \<lparr>year = 2024, month = 1, day = 1\<rparr> + mileage_of dm \<lparr>year = 2024, month = 12, day = 30\<rparr> \<and>
   hm_text (prepare_heatmap_data dm 2024) ! 0 ! 0 =
     tooltip dm \<lparr>year = 2024, month = 1, day = 1\<rparr> @ ''; '' @ tooltip dm \<lparr>year = 2024, month = 12, day = 30\<rparr>"
  using heatmap_nth [of 0 0 dm 2024] heatmap_first_column [of dm 2024] cell_dates_2024_corner
  by (simp add: cell_mileage_def cell_text_def)

section \<open>Witnesses\<close>

theorem heatmap_cells_witness:
  "0 < (7::nat) \<and> 0 < length (hm_x (prepare_heatmap_data [] 2024)) \<and>
   hm_z (prepare_heatmap_data [] 2024) ! 0 ! 0 =
     cell_mileage [] 2024 (int 0, hm_x (prepare_heatmap_data [] 2024) ! 0) \<and>
   hm_text (prepare_heatmap_data [] 2024) ! 0 ! 0 =
     cell_text [] 2024 (int 0, hm_x (prepare_heatmap_data [] 2024) ! 0)"
proof -
  have j: "0 < length (hm_x (prepare_heatmap_data [] 2024))"
    using heatmap_first_column [of "[]" 2024] by simp
  show ?thesis using j heatmap_cells [of 0 0 "[]" 2024] by simp
qed

end
