(* ===== verification/Dashboard.thy ===== *)
theory Dashboard
  imports Tokens Summary Heatmap
begin

text \<open>
  The dashboard of src/app.py: \<open>fetch_user_profile\<close>, which reads the athlete profile
  from the Netlify function and falls back to defaults on any failure, and the route
  \<open>index\<close>, which runs the components in the order of the code: the token check
  (a URL means redirect), the profile, \<open>fetch_running_data\<close>,
  \<open>prepare_heatmap_data\<close> and \<open>calculate_summary_statistics\<close> of the current year.
  The two HTTP responses are inputs of the model, as \<open>upstream\<close> values; the template
  is the record of the arguments passed to \<open>render_template\<close>.
\<close>

text \<open>A value \<open>response.json()\<close> can produce.\<close>

datatype pyval =
    PNone
  | PBool bool
  | PInt int
  | PFloat real
  | PStr string
  | PList "pyval list"
  | PDict "(string \<times> pyval) list"

record profile =
  prof_name :: pyval
  prof_avatar :: pyval
  prof_total_runs :: pyval
  prof_total_mileage :: pyval

text \<open>The arguments of \<open>render_template('index.html', ...)\<close>.\<close>

record page =
  pg_heatmap :: heatmap
  pg_athlete_name :: pyval
  pg_current_year :: int
  pg_avatar :: pyval
  pg_total_runs :: pyval
  pg_total_mileage :: pyval
  pg_runs_current_year :: nat
  pg_mileage_current_year :: real

datatype index_response = Redirect_to string | Render page

section \<open>fetch_user_profile (src/app.py)\<close>

text \<open>\<open>dict.get(k, default)\<close> on a dict decoded from JSON (\<open>json.loads\<close> keeps the last of
  duplicate keys).\<close>

definition py_get :: "(string \<times> pyval) list \<Rightarrow> string \<Rightarrow> pyval \<Rightarrow> pyval" where
  "py_get d k dflt = (case map_of (rev d) k of None \<Rightarrow> dflt | Some v \<Rightarrow> v)"

definition default_profile :: profile where
  "default_profile = \<lparr>prof_name = PStr ''Unknown'', prof_avatar = PStr [],
                      prof_total_runs = PInt 0, prof_total_mileage = PInt 0\<rparr>"

text \<open>A failed request, an HTTP error, a body that is not JSON, and a JSON value that is
  not an object (\<open>.get\<close> raises \<open>AttributeError\<close>) all reach the \<open>except\<close>.\<close>

definition fetch_user_profile :: "pyval upstream \<Rightarrow> profile" where
  "fetch_user_profile resp =
     (case resp of
        Fetched (PDict d) \<Rightarrow>
          \<lparr>prof_name = py_get d ''name'' (PStr ''Unknown''), prof_avatar = py_get d ''avatar'' (PStr []),
           prof_total_runs = py_get d ''total_runs'' (PInt 0),
           prof_total_mileage = py_get d ''total_mileage'' (PInt 0)\<rparr>
      | _ \<Rightarrow> default_profile)"

section \<open>index (src/app.py)\<close>

text \<open>\<open>str.startswith('http')\<close>.\<close>

definition starts_http :: "string \<Rightarrow> bool" where
  "starts_http t \<longleftrightarrow> take 4 t = ''http''"

text \<open>The route \<open>/\<close>. \<open>cur_year\<close> is \<open>pd.Timestamp.now().year\<close>, which
  \<open>prepare_heatmap_data\<close> also reads. An exception of \<open>get_access_token\<close>, a token that is
  not a string (\<open>startswith\<close> raises \<open>AttributeError\<close>) and an exception of
  \<open>calculate_summary_statistics\<close> propagate out of the route.\<close>

definition index :: "config \<Rightarrow> token_api \<Rightarrow> real \<Rightarrow> int \<Rightarrow> pyval upstream \<Rightarrow> run list upstream \<Rightarrow>
                     app_state \<Rightarrow> index_response result \<times> app_state" where
  "index cfg api now cur_year prof acts s =
     (case get_access_token cfg api now s of
        (Inl err, s') \<Rightarrow> (Inl err, s')
      | (Inr (JInt _), s') \<Rightarrow> (Inl AttributeError, s')
      | (Inr (JStr t), s') \<Rightarrow>
          (if starts_http t then (Inr (Redirect_to t), s')
           else
             (let p = fetch_user_profile prof;
                  dm = fetch_running_data acts;
                  hm = prepare_heatmap_data dm cur_year
              in case calculate_summary_statistics dm cur_year of
                   Inl err \<Rightarrow> (Inl err, s')
                 | Inr (n, m) \<Rightarrow>
                     (Inr (Render \<lparr>pg_heatmap = hm, pg_athlete_name = prof_name p, pg_current_year = cur_year,
                                   pg_avatar = prof_avatar p, pg_total_runs = prof_total_runs p,
                                   pg_total_mileage = prof_total_mileage p,
                                   pg_runs_current_year = n, pg_mileage_current_year = m\<rparr>), s'))))"

section \<open>health_check (src/app.py)\<close>

definition health_check :: pyval where
  "health_check = PDict [(''status'', PStr ''healthy'')]"

section \<open>Specification\<close>

text \<open>The page the spec describes for a valid token: the heatmap and the statistics of
  the aggregated activities, with the profile's fields.\<close>

definition dashboard_page :: "int \<Rightarrow> profile \<Rightarrow> daily_mileage \<Rightarrow> page" where
  "dashboard_page cur_year p dm =
     \<lparr>pg_heatmap = prepare_heatmap_data dm cur_year, pg_athlete_name = prof_name p, pg_current_year = cur_year,
      pg_avatar = prof_avatar p, pg_total_runs = prof_total_runs p, pg_total_mileage = prof_total_mileage p,
      pg_runs_current_year = card (year_keys dm cur_year),
      pg_mileage_current_year = py_round2 (\<Sum>k \<in> year_keys dm cur_year. distance (the (map_of dm k)))\<rparr>"

section \<open>Lemmas\<close>

lemma index_valid_token:
  "get_access_token cfg api now s = (Inr (JStr t), s') \<Longrightarrow> \<not> starts_http t \<Longrightarrow>
   index cfg api now cur_year prof acts s =
     (Inr (Render (dashboard_page cur_year (fetch_user_profile prof) (fetch_running_data acts))), s')"
  using calculate_summary_statistics_eq [OF fetch_running_data_keys, of acts cur_year]
  by (simp add: index_def dashboard_page_def Let_def)

lemma py_round2_zero [simp]: "py_round2 0 = 0"
  by (simp add: py_round2_def round_half_even_def)

lemma year_keys_Nil [simp]: "year_keys [] y = {}"
  by (simp add: year_keys_def)

lemma starts_http_authorization_url: "starts_http (authorization_url cfg)"
  by (simp add: starts_http_def authorization_url_def)

section \<open>Properties of the dashboard\<close>

text \<open>C15: with a valid token the route renders, whatever the two upstream calls return:
  no failure of the profile or activity fetch reaches the rendering as an exception,
  and the page holds the heatmap and the statistics of the aggregated activities.\<close>

theorem index_renders:
  assumes "get_access_token cfg api now s = (Inr (JStr t), s')" "\<not> starts_http t"
  shows "index cfg api now cur_year prof acts s =
         (Inr (Render (dashboard_page cur_year (fetch_user_profile prof) (fetch_running_data acts))), s')"
  using assms by (rule index_valid_token)

text \<open>C16: when both upstream calls fail, the page shows the default profile, an
  all-zero grid and zeroed statistics.\<close>

theorem index_upstream_failure:
  assumes "get_access_token cfg api now s = (Inr (JStr t), s')" "\<not> starts_http t"
  shows "index cfg api now cur_year Fetch_failed Fetch_failed s =
           (Inr (Render (dashboard_page cur_year default_profile [])), s') \<and>
         pg_runs_current_year (dashboard_page cur_year default_profile []) = 0 \<and>
         pg_mileage_current_year (dashboard_page cur_year default_profile []) = 0 \<and>
         list_all (list_all (\<lambda>m. m = 0)) (hm_z (pg_heatmap (dashboard_page cur_year default_profile [])))"
proof -
  have "fetch_running_data Fetch_failed = []" "fetch_user_profile Fetch_failed = default_profile"
    by (simp_all add: fetch_running_data_def fetch_user_profile_def)
  moreover have "list_all (list_all (\<lambda>m. m = 0)) (hm_z (prepare_heatmap_data [] cur_year))"
    using heatmap_empty [of cur_year] by simp
  ultimately show ?thesis using index_valid_token [OF assms, of cur_year Fetch_failed Fetch_failed]
    by (simp add: dashboard_page_def)
qed

text \<open>With no stored credential the route redirects to the authorisation URL and
  fetches nothing.\<close>

lemma index_redirect_unauthenticated:
  assumes "load_token (environ s) = Inr None"
  shows "index cfg api now cur_year prof acts s =
         (Inr (Redirect_to (authorization_url cfg)), s\<lparr>access_token := None\<rparr>)"
  using get_access_token_refresh_result [OF refresh_absent [OF assms], of cfg]
    starts_http_authorization_url [of cfg]
  by (simp add: index_def py_truthy_def)

section \<open>Witnesses\<close>

lemma valid_token_state:
  "get_access_token tok_cfg tok_api_ok 1699999999 (tok_state (stored Map.empty ''abc123'' ''def456'' 1700000000)) =
   (Inr (JStr ''abc123''),
    (tok_state (stored Map.empty ''abc123'' ''def456'' 1700000000))\<lparr>access_token := Some (JStr ''abc123'')\<rparr>)"
  by (simp add: get_access_token_def refresh_token_if_needed_def tok_state_def load_token_stored py_truthy_def)

lemma abc123_not_http: "\<not> starts_http ''abc123''"
  by (simp add: starts_http_def)

theorem index_renders_witness:
  "index tok_cfg tok_api_ok 1699999999 2024 (Fetched (PDict [(''name'', PStr ''Ana'')]))
     (Fetched [\<lparr>start_date = ''2024-03-01'', run_distance = 3.1, run_duration = 28\<rparr>])
     (tok_state (stored Map.empty ''abc123'' ''def456'' 1700000000)) =
   (Inr (Render (dashboard_page 2024 (fetch_user_profile (Fetched (PDict [(''name'', PStr ''Ana'')])))
                   (fetch_running_data (Fetched [\<lparr>start_date = ''2024-03-01'', run_distance = 3.1, run_duration = 28\<rparr>])))),
    (tok_state (stored Map.empty ''abc123'' ''def456'' 1700000000))\<lparr>access_token := Some (JStr ''abc123'')\<rparr>)"
  by (rule index_renders [OF valid_token_state abc123_not_http])

theorem index_upstream_failure_witness:
  "index tok_cfg tok_api_ok 1699999999 2024 Fetch_failed Fetch_failed
     (tok_state (stored Map.empty ''abc123'' ''def456'' 1700000000)) =
     (Inr (Render (dashboard_page 2024 default_profile [])),
      (tok_state (stored Map.empty ''abc123'' ''def456'' 1700000000))\<lparr>access_token := Some (JStr ''abc123'')\<rparr>) \<and>
   pg_runs_current_year (dashboard_page 2024 default_profile []) = 0 \<and>
   pg_mileage_current_year (dashboard_page 2024 default_profile []) = 0 \<and>
   list_all (list_all (\<lambda>m. m = 0)) (hm_z (pg_heatmap (dashboard_page 2024 default_profile [])))"
  by (rule index_upstream_failure [OF valid_token_state abc123_not_http])

theorem index_redirect_unauthenticated_witness:
  "index tok_cfg tok_api_ok 0 2024 Fetch_failed Fetch_failed (tok_state Map.empty) =
   (Inr (Redirect_to (authorization_url tok_cfg)), tok_state Map.empty)"
proof -
  have "load_token (environ (tok_state Map.empty)) = Inr None" by (simp add: tok_state_def load_token_def)
  from index_redirect_unauthenticated [OF this, of tok_cfg tok_api_ok 0 2024 Fetch_failed Fetch_failed]
  show ?thesis by (simp add: tok_state_def)
qed

end
