(* ===== verification/AuthFile.thy ===== *)
theory AuthFile
  imports Tokens
begin

text \<open>
  The older command-line token flow of src/auth.py, imported by src/flask-app/app.py.
  The credential is the whole token response, written to \<open>token.json\<close> by
  \<open>json.dump\<close> and read back by \<open>json.load\<close>. The file is modelled by what
  \<open>json.load\<close> returns for it: no file, a dict (the response \<open>save_token\<close> wrote; the
  JSON round trip of a dict of strings and ints is the identity), or a file it cannot
  decode. When no token is available the flow starts a Flask server for the callback
  (\<open>app.run(port=8282)\<close>), which does not return; that outcome is a value of its own.
\<close>

datatype token_file = Absent | Stored token_response | Unreadable

record cli_state =
  token_file :: token_file
  cli_access_token :: "jval option"
  cli_refresh_calls :: "string list"
  cli_exchange_calls :: "string option list"

text \<open>\<open>client.exchange_code_for_token(..., code=code)\<close> with \<open>code\<close> possibly \<open>None\<close>.\<close>

type_synonym exchange_api = "string option \<Rightarrow> token_response result"

text \<open>What \<open>get_access_token\<close> of src/auth.py does: return a token, or serve the callback
  app on a port after printing the authorisation URL.\<close>

datatype cli_outcome = Token jval | Serves nat string

section \<open>The file store (src/auth.py)\<close>

definition save_token_file :: "token_response \<Rightarrow> token_file" where
  "save_token_file r = Stored r"

definition load_token_file :: "token_file \<Rightarrow> token_response option result" where
  "load_token_file f = (case f of Absent \<Rightarrow> Inr None | Stored d \<Rightarrow> Inr (Some d) | Unreadable \<Rightarrow> Inl ValueError)"

section \<open>The lifecycle (src/auth.py)\<close>

text \<open>\<open>token_info.get('expires_at', 0) < time.time()\<close>: an int compares, a string raises
  \<open>TypeError\<close>.\<close>

definition expired_at :: "token_response \<Rightarrow> real \<Rightarrow> bool result" where
  "expired_at d now =
     (case map_of d ''expires_at'' of
        None \<Rightarrow> Inr (0 < now)
      | Some (JInt n) \<Rightarrow> Inr (real_of_int n < now)
      | Some (JStr _) \<Rightarrow> Inl TypeError)"

text \<open>\<open>refresh_token_if_needed\<close>: \<open>json.load\<close>, the expiry test and the final
  \<open>token_info['access_token']\<close> are outside the \<open>try\<close>; an empty dict is falsy. Inside the
  \<open>try\<close>, the refresh response is saved before its \<open>access_token\<close> is read.\<close>

definition refresh_token_if_needed_cli ::
  "token_api \<Rightarrow> real \<Rightarrow> cli_state \<Rightarrow> jval option result \<times> cli_state" where
  "refresh_token_if_needed_cli api now s =
     (case load_token_file (token_file s) of
        Inl err \<Rightarrow> (Inl err, s)
      | Inr None \<Rightarrow> (Inr None, s)
      | Inr (Some d) \<Rightarrow>
          (if d = [] then (Inr None, s)
           else case expired_at d now of
             Inl err \<Rightarrow> (Inl err, s)
           | Inr True \<Rightarrow>
               (case py_getitem d ''refresh_token'' of
                  Inl _ \<Rightarrow> (Inr None, s)
                | Inr rt \<Rightarrow>
                    (let s1 = s\<lparr>cli_refresh_calls := cli_refresh_calls s @ [py_str rt]\<rparr> in
                     case api (py_str rt) of
                       Inl _ \<Rightarrow> (Inr None, s1)
                     | Inr resp \<Rightarrow>
                         (let s2 = s1\<lparr>token_file := save_token_file resp\<rparr> in
                          case py_getitem resp ''access_token'' of
                            Inl _ \<Rightarrow> (Inr None, s2)
                          | Inr a \<Rightarrow> (Inr (Some a), s2))))
           | Inr False \<Rightarrow>
               (case py_getitem d ''access_token'' of
                  Inl err \<Rightarrow> (Inl err, s)
                | Inr a \<Rightarrow> (Inr (Some a), s))))"

text \<open>The redirect URI and the port of the callback server, as written in the code.\<close>

definition cli_redirect_uri :: string where
  "cli_redirect_uri = ''http://localhost:5000/api/authorized''"

definition cli_port :: nat where
  "cli_port = 8282"

definition get_access_token_cli ::
  "config \<Rightarrow> token_api \<Rightarrow> real \<Rightarrow> cli_state \<Rightarrow> cli_outcome result \<times> cli_state" where
  "get_access_token_cli cfg api now s =
     (case refresh_token_if_needed_cli api now s of
        (Inl err, s') \<Rightarrow> (Inl err, s')
      | (Inr t, s') \<Rightarrow>
          (let s'' = s'\<lparr>cli_access_token := t\<rparr> in
           if \<not> py_truthy t
           then (Inr (Serves cli_port (authorization_url (cfg\<lparr>redirect_uri := cli_redirect_uri\<rparr>))), s'')
           else (Inr (Token (the t)), s'')))"

text \<open>The route \<open>/api/authorized\<close> of the callback server: no check of the code.\<close>

definition cli_success :: string where
  "cli_success = ''Authorization successful! You can close this window.''"

definition authorized_cli :: "exchange_api \<Rightarrow> string option \<Rightarrow> cli_state \<Rightarrow> string \<times> cli_state" where
  "authorized_cli api code s =
     (let s1 = s\<lparr>cli_exchange_calls := cli_exchange_calls s @ [code]\<rparr> in
      case api code of
        Inl _ \<Rightarrow> (authorization_failed, s1)
      | Inr resp \<Rightarrow>
          (case py_getitem resp ''access_token'' of
             Inl _ \<Rightarrow> (authorization_failed, s1)
           | Inr a \<Rightarrow> (cli_success, s1\<lparr>cli_access_token := Some a, token_file := save_token_file resp\<rparr>)))"

section \<open>Example states\<close>

definition cli_file :: token_response where
  "cli_file = [(''access_token'', JStr ''abc123''), (''refresh_token'', JStr ''def456''),
               (''expires_at'', JInt 1700000000)]"

definition cli_start :: "token_file \<Rightarrow> cli_state" where
  "cli_start f = \<lparr>token_file = f, cli_access_token = None, cli_refresh_calls = [], cli_exchange_calls = []\<rparr>"

section \<open>Lemmas\<close>

lemma refresh_cli_expired:
  assumes "token_file s = Stored d" "d \<noteq> []" "expired_at d now = Inr True"
    "py_getitem d ''refresh_token'' = Inr rt"
  shows "refresh_token_if_needed_cli api now s =
    (case api (py_str rt) of
       Inl _ \<Rightarrow> (Inr None, s\<lparr>cli_refresh_calls := cli_refresh_calls s @ [py_str rt]\<rparr>)
     | Inr resp \<Rightarrow>
         (case map_of resp ''access_token'' of None \<Rightarrow> Inr None | Some a \<Rightarrow> Inr (Some a),
          s\<lparr>cli_refresh_calls := cli_refresh_calls s @ [py_str rt], token_file := Stored resp\<rparr>))"
  using assms
  by (simp add: refresh_token_if_needed_cli_def load_token_file_def save_token_file_def py_getitem_def
      split: sum.splits option.splits)

section \<open>Properties of the file store\<close>

text \<open>C19: with the file store a refresh replaces the credential as a whole or not at
  all: a failed refresh call leaves \<open>token.json\<close> as it was, a response is written
  whole, and exactly one refresh call is made with the stored refresh token.\<close>

theorem cli_refresh_atomic:
  assumes "token_file s = Stored d" "d \<noteq> []" "expired_at d now = Inr True"
    "py_getitem d ''refresh_token'' = Inr rt"
  shows "token_file (snd (refresh_token_if_needed_cli api now s)) =
           (case api (py_str rt) of Inl _ \<Rightarrow> Stored d | Inr resp \<Rightarrow> Stored resp) \<and>
         cli_refresh_calls (snd (refresh_token_if_needed_cli api now s)) = cli_refresh_calls s @ [py_str rt]"
  using refresh_cli_expired [OF assms, of api] assms(1)
  by (simp split: sum.splits)

text \<open>C20: a refresh response without \<open>access_token\<close> is still written to
  \<open>token.json\<close>: the last good credential is lost, and the flow falls back to serving
  the authorisation callback.\<close>

theorem cli_refresh_malformed_saved:
  assumes "token_file s = Stored d" "d \<noteq> []" "expired_at d now = Inr True"
    "py_getitem d ''refresh_token'' = Inr rt" "api (py_str rt) = Inr resp"
    "map_of resp ''access_token'' = None"
  shows "get_access_token_cli cfg api now s =
           (Inr (Serves cli_port (authorization_url (cfg\<lparr>redirect_uri := cli_redirect_uri\<rparr>))),
            s\<lparr>cli_refresh_calls := cli_refresh_calls s @ [py_str rt], token_file := Stored resp,
              cli_access_token := None\<rparr>) \<and>
         load_token_file (Stored resp) = Inr (Some resp)"
  using refresh_cli_expired [OF assms(1-4), of api] assms(5,6)
  by (simp add: get_access_token_cli_def py_truthy_def load_token_file_def)

text \<open>C21: without a token file the flow serves the callback on port 8282, while the
  redirect URI it sends to Strava points at port 5000: the callback never reaches the
  server that waits for it.\<close>

theorem cli_callback_port_mismatch:
  assumes "token_file s = Absent"
  shows "fst (get_access_token_cli cfg api now s) =
           Inr (Serves cli_port (authorization_url (cfg\<lparr>redirect_uri := cli_redirect_uri\<rparr>))) \<and>
         take 22 cli_redirect_uri = ''http://localhost:5000/'' \<and> cli_port = 8282"
  using assms
  by (simp add: get_access_token_cli_def refresh_token_if_needed_cli_def load_token_file_def
      py_truthy_def cli_redirect_uri_def cli_port_def)

section \<open>Witnesses\<close>

lemma cli_file_expired:
  "token_file (cli_start (Stored cli_file)) = Stored cli_file" "cli_file \<noteq> []"
  "expired_at cli_file 1700000001 = Inr True" "py_getitem cli_file ''refresh_token'' = Inr (JStr ''def456'')"
  by (simp_all add: cli_start_def cli_file_def expired_at_def py_getitem_def)

theorem cli_refresh_atomic_witness:
  "token_file (snd (refresh_token_if_needed_cli tok_api_down 1700000001 (cli_start (Stored cli_file)))) = Stored cli_file \<and>
   cli_refresh_calls (snd (refresh_token_if_needed_cli tok_api_down 1700000001 (cli_start (Stored cli_file)))) = [''def456'']"
  using cli_refresh_atomic [OF cli_file_expired, of tok_api_down]
  by (simp add: tok_api_down_def py_str_def cli_start_def)

theorem cli_refresh_malformed_saved_witness:
  "get_access_token_cli tok_cfg (\<lambda>r. Inr [(''token_type'', JStr ''Bearer'')]) 1700000001 (cli_start (Stored cli_file)) =
     (Inr (Serves cli_port (authorization_url (tok_cfg\<lparr>redirect_uri := cli_redirect_uri\<rparr>))),
      \<lparr>token_file = Stored [(''token_type'', JStr ''Bearer'')], cli_access_token = None,
       cli_refresh_calls = [''def456''], cli_exchange_calls = []\<rparr>) \<and>
   load_token_file (Stored [(''token_type'', JStr ''Bearer'')]) = Inr (Some [(''token_type'', JStr ''Bearer'')])"
  using cli_refresh_malformed_saved [OF cli_file_expired, where api = "\<lambda>r. Inr [(''token_type'', JStr ''Bearer'')]"
      and resp = "[(''token_type'', JStr ''Bearer'')]" and cfg = tok_cfg]
  by (simp add: py_str_def cli_start_def)

theorem cli_callback_port_mismatch_witness:
  "fst (get_access_token_cli tok_cfg tok_api_ok 0 (cli_start Absent)) =
     Inr (Serves cli_port (authorization_url (tok_cfg\<lparr>redirect_uri := cli_redirect_uri\<rparr>))) \<and>
   take 22 cli_redirect_uri = ''http://localhost:5000/'' \<and> cli_port = 8282"
  by (rule cli_callback_port_mismatch) (simp add: cli_start_def)

end
