(* ===== verification/FlaskApp.thy ===== *)
theory FlaskApp
  imports Dashboard AuthFile
begin

text \<open>
  The older variant src/flask-app/app.py. It obtains its token at import time through
  src/auth.py (\<open>get_access_token_cli\<close>), queries Strava directly for the athlete and the
  activities, keys each run by its start converted to the local time zone with
  \<open>arrow\<close>, and shows the statistics of the fixed year 2024. Its
  \<open>prepare_heatmap_data\<close> and \<open>calculate_summary_statistics\<close> are copies of those of
  src/app.py (they differ only in comments and a debug \<open>print\<close>) and are modelled by the
  same definitions.

  A start time is a UTC date with the seconds since midnight. The local zone is the
  parameter \<open>tz\<close>: the offset in seconds that \<open>tzlocal()\<close> gives at that instant, so a
  zone with daylight saving time is covered.
\<close>

text \<open>The fields of \<open>client.get_athlete()\<close> the code reads; \<open>lastname\<close> and
  \<open>firstname\<close> may be \<open>None\<close>.\<close>

record athlete =
  firstname :: "string option"
  lastname :: "string option"
  athlete_picture :: string
  all_run_count :: int
  all_run_distance :: real

record strava_run =
  sr_type :: string
  sr_distance :: real
  sr_moving_time :: real
  sr_start_date :: pdate
  sr_start_secs :: int

type_synonym local_zone = "pdate \<Rightarrow> int \<Rightarrow> int"

section \<open>Local dates (arrow)\<close>

definition prev_day :: "pdate \<Rightarrow> pdate" where
  "prev_day d =
     (if 1 < day d then d\<lparr>day := day d - 1\<rparr>
      else if 1 < month d then d\<lparr>month := month d - 1, day := days_in_month (year d) (month d - 1)\<rparr>
      else \<lparr>year = year d - 1, month = 12, day = 31\<rparr>)"

text \<open>\<open>arrow.get(start_date).to('local').date()\<close>.\<close>

definition local_date :: "local_zone \<Rightarrow> pdate \<Rightarrow> int \<Rightarrow> pdate" where
  "local_date tz d secs =
     (let t = secs + tz d secs in
      if t < 0 then prev_day d else if 86400 \<le> t then next_day d else d)"

section \<open>fetch_user_profile (src/flask-app/app.py)\<close>

text \<open>\<open>firstname + ' ' + lastname\<close> raises \<open>TypeError\<close> on \<open>None\<close>; every exception
  gives the default profile.\<close>

definition fetch_user_profile_flask :: "athlete upstream \<Rightarrow> profile" where
  "fetch_user_profile_flask resp =
     (case resp of
        Fetched a \<Rightarrow>
          (case (firstname a, lastname a) of
             (Some f, Some l) \<Rightarrow>
               \<lparr>prof_name = PStr (f @ '' '' @ l), prof_avatar = PStr (athlete_picture a),
                prof_total_runs = PInt (all_run_count a),
                prof_total_mileage = PFloat (py_round2 (all_run_distance a * 0.000621371))\<rparr>
           | _ \<Rightarrow> default_profile)
      | _ \<Rightarrow> default_profile)"

section \<open>fetch_running_data (src/flask-app/app.py)\<close>

definition add_strava_run :: "local_zone \<Rightarrow> daily_mileage \<Rightarrow> strava_run \<Rightarrow> daily_mileage" where
  "add_strava_run tz dm a =
     (if sr_type a = ''Run''
      then add_run dm (date_str (local_date tz (sr_start_date a) (sr_start_secs a)))
             (sr_distance a * 0.000621371) (sr_moving_time a / 60)
      else dm)"

text \<open>A failure of the request or of the lazy iteration gives the empty dict, dropping
  the runs already folded in.\<close>

definition fetch_running_data_flask :: "local_zone \<Rightarrow> strava_run list upstream \<Rightarrow> daily_mileage" where
  "fetch_running_data_flask tz resp =
     (case resp of Fetched acts \<Rightarrow> foldl (add_strava_run tz) [] acts | _ \<Rightarrow> [])"

section \<open>prepare_heatmap_data and calculate_summary_statistics (src/flask-app/app.py)\<close>

text \<open>The copies in src/flask-app/app.py of the two functions of src/app.py, over the
  same helpers; the debug \<open>print(daily_mileage)\<close> is not modelled.\<close>

definition flask_prepare_heatmap_data :: "daily_mileage \<Rightarrow> int \<Rightarrow> heatmap" where
  "flask_prepare_heatmap_data dm current_year =
     (let rows = heat_rows dm current_year;
          g = group_rows [] rows;
          days = pivot_index rows;
          weeks = pivot_columns rows
      in \<lparr>hm_z = pivot_z g days weeks, hm_x = weeks, hm_y = day_labels,
          hm_text = pivot_text g days weeks\<rparr>)"

definition flask_calculate_summary_statistics :: "daily_mileage \<Rightarrow> int \<Rightarrow> (nat \<times> real) result" where
  "flask_calculate_summary_statistics dm y =
     (case summary_loop y (0, 0) dm of
        Inl e \<Rightarrow> Inl e
      | Inr (n, t) \<Rightarrow> Inr (n, py_round2 t))"

section \<open>index (src/flask-app/app.py)\<close>

text \<open>The heatmap is of the current year \<open>cur_year\<close>; the statistics are of 2024. The
  module-level \<open>get_access_token()\<close> has run before any request, so the route itself
  makes no token check. \<open>calculate_summary_statistics\<close> raises only on a key
  \<open>pd.to_datetime\<close> rejects.\<close>

definition index_flask :: "int \<Rightarrow> local_zone \<Rightarrow> athlete upstream \<Rightarrow> strava_run list upstream \<Rightarrow>
                           page result" where
  "index_flask cur_year tz prof acts =
     (let p = fetch_user_profile_flask prof;
          dm = fetch_running_data_flask tz acts;
          hm = flask_prepare_heatmap_data dm cur_year
      in case flask_calculate_summary_statistics dm 2024 of
           Inl err \<Rightarrow> Inl err
         | Inr (n, m) \<Rightarrow>
             Inr \<lparr>pg_heatmap = hm, pg_athlete_name = prof_name p, pg_current_year = cur_year,
                  pg_avatar = prof_avatar p, pg_total_runs = prof_total_runs p,
                  pg_total_mileage = prof_total_mileage p,
                  pg_runs_current_year = n, pg_mileage_current_year = m\<rparr>)"

text \<open>Start-up: \<open>ACCESS_TOKEN = get_access_token()\<close> at import time; when it serves the
  callback app, the import does not finish and the dashboard never starts.\<close>

datatype startup = Started jval | Blocked nat string

definition flask_startup :: "config \<Rightarrow> token_api \<Rightarrow> real \<Rightarrow> cli_state \<Rightarrow> startup result \<times> cli_state" where
  "flask_startup cfg api now s =
     (case get_access_token_cli cfg api now s of
        (Inl err, s') \<Rightarrow> (Inl err, s')
      | (Inr (Token t), s') \<Rightarrow> (Inr (Started t), s')
      | (Inr (Serves p u), s') \<Rightarrow> (Inr (Blocked p u), s'))"

section \<open>Lemmas\<close>

lemma flask_copies:
  "flask_prepare_heatmap_data = prepare_heatmap_data"
  "flask_calculate_summary_statistics = calculate_summary_statistics"
  by (simp_all add: fun_eq_iff flask_prepare_heatmap_data_def prepare_heatmap_data_def
      flask_calculate_summary_statistics_def calculate_summary_statistics_def)

lemma prev_day_props:
  assumes v: "valid_date d"
  shows "valid_date (prev_day d) \<and> next_day (prev_day d) = d"
proof (cases "1 < day d")
  case True
  then show ?thesis using v by (simp add: prev_day_def valid_date_def next_day_def)
next
  case d1: False
  then have day1: "day d = 1" using v by (simp add: valid_date_def)
  show ?thesis
  proof (cases "1 < month d")
    case True
    have b: "28 \<le> days_in_month (year d) (month d - 1)" "days_in_month (year d) (month d - 1) \<le> 31"
      using days_in_month_bounds [of "month d - 1" "year d"] True v by (simp_all add: valid_date_def)
    have "next_day (prev_day d) = d\<lparr>month := month d, day := 1\<rparr>"
      using d1 True v by (simp add: prev_day_def next_day_def valid_date_def)
    also have "\<dots> = d" using day1 by simp
    finally show ?thesis using d1 True v b by (simp add: prev_day_def valid_date_def)
  next
    case False
    then have m1: "month d = 1" using v by (simp add: valid_date_def)
    have dec: "days_in_month y 12 = 31" for y by (simp add: days_in_month_def month_days_def)
    have "next_day (prev_day d) = \<lparr>year = year d, month = 1, day = 1\<rparr>"
      using d1 False by (simp add: prev_day_def next_day_def dec)
    also have "\<dots> = d" using day1 m1 by (cases d) simp
    finally show ?thesis using d1 False by (simp add: prev_day_def valid_date_def dec)
  qed
qed

lemma toordinal_prev_day: "valid_date d \<Longrightarrow> toordinal (prev_day d) = toordinal d - 1"
  using prev_day_props [of d] toordinal_next_day [of "prev_day d"] by simp

lemma foldl_add_strava_run_keyed:
  "date_keyed dm \<Longrightarrow>
   list_all (\<lambda>a. valid_date (local_date tz (sr_start_date a) (sr_start_secs a)) \<and>
                 in_timestamp_range (local_date tz (sr_start_date a) (sr_start_secs a))) acts \<Longrightarrow>
   date_keyed (foldl (add_strava_run tz) dm acts)"
proof (induction acts arbitrary: dm)
  case Nil
  then show ?case by simp
next
  case (Cons a acts)
  have "date_keyed (add_strava_run tz dm a)"
    using Cons.prems add_run_date_keyed [OF Cons.prems(1)]
      to_datetime_date_str [of "local_date tz (sr_start_date a) (sr_start_secs a)"]
    by (simp add: add_strava_run_def is_date_key_def)
  with Cons show ?case by simp
qed

section \<open>Properties of the flask-app variant\<close>

text \<open>C23: the local date of a run is the floor division of the local time stamp by a
  day, for a UTC start inside its day and a zone offset of less than a day: the
  date moves back or forward when the offset crosses midnight.\<close>

theorem local_date_ordinal:
  assumes "valid_date d" "0 \<le> secs" "secs < 86400" "\<bar>tz d secs\<bar> < 86400"
  shows "valid_date (local_date tz d secs) \<and>
         toordinal (local_date tz d secs) = toordinal d + (secs + tz d secs) div 86400"
proof -
  let ?t = "secs + tz d secs"
  consider (before) "?t < 0" | (after) "86400 \<le> ?t" | (same) "0 \<le> ?t" "?t < 86400" by linarith
  then show ?thesis
  proof cases
    case before
    have "(?t + 86400) div 86400 = 0" using before assms(2,4) by (intro div_pos_pos_trivial) simp_all
    then have "?t div 86400 = -1" by simp
    then show ?thesis using before assms(1) prev_day_props toordinal_prev_day
      by (simp add: local_date_def)
  next
    case after
    have "(?t - 86400) div 86400 = 0" using after assms(3,4) by (intro div_pos_pos_trivial) simp_all
    then have "?t div 86400 = 1" by simp
    then show ?thesis using after assms(1) valid_next_day toordinal_next_day
      by (simp add: local_date_def)
  next
    case same
    then have "?t div 86400 = 0" by simp
    then show ?thesis using same assms(1) by (simp add: local_date_def)
  qed
qed

text \<open>C22: the flask-app dashboard shows the heatmap of the current year next to the
  statistics of 2024, whatever the current year: for runs whose local dates pandas can
  parse, the page is the dashboard page of 2024 with only the heatmap and the year
  replaced.\<close>

theorem flask_stats_fixed_year:
  assumes "list_all (\<lambda>a. valid_date (local_date tz (sr_start_date a) (sr_start_secs a)) \<and>
                          in_timestamp_range (local_date tz (sr_start_date a) (sr_start_secs a))) acts"
  shows "index_flask cur_year tz prof (Fetched acts) =
         Inr ((dashboard_page 2024 (fetch_user_profile_flask prof) (fetch_running_data_flask tz (Fetched acts)))
                \<lparr>pg_heatmap := prepare_heatmap_data (fetch_running_data_flask tz (Fetched acts)) cur_year,
                  pg_current_year := cur_year\<rparr>)"
proof -
  have "date_keyed (fetch_running_data_flask tz (Fetched acts))"
    using foldl_add_strava_run_keyed [OF _ assms, of "[]"]
    by (simp add: fetch_running_data_flask_def date_keyed_def)
  from calculate_summary_statistics_eq [OF this, of 2024] show ?thesis
    by (simp add: index_flask_def dashboard_page_def Let_def flask_copies)
qed

section \<open>Witnesses\<close>

lemma valid_2024_03_01: "valid_date \<lparr>year = 2024, month = 3, day = 1\<rparr>"
  by (simp add: calendar_simps)

theorem local_date_ordinal_witness:
  "local_date (\<lambda>d s. 3600) \<lparr>year = 2024, month = 3, day = 1\<rparr> 84600 = \<lparr>year = 2024, month = 3, day = 2\<rparr> \<and>
   valid_date (local_date (\<lambda>d s. 3600) \<lparr>year = 2024, month = 3, day = 1\<rparr> 84600) \<and>
   toordinal (local_date (\<lambda>d s. 3600) \<lparr>year = 2024, month = 3, day = 1\<rparr> 84600) =
     toordinal \<lparr>year = 2024, month = 3, day = 1\<rparr> + 1"
proof -
  have "local_date (\<lambda>d s. 3600) \<lparr>year = 2024, month = 3, day = 1\<rparr> 84600 = \<lparr>year = 2024, month = 3, day = 2\<rparr>"
    by (simp add: local_date_def next_day_def calendar_simps)
  with local_date_ordinal [OF valid_2024_03_01, of 84600 "\<lambda>d s. 3600"] show ?thesis by simp
qed

theorem flask_stats_fixed_year_witness:
  "index_flask 2025 (\<lambda>d s. 0) Fetch_failed
     (Fetched [\<lparr>sr_type = ''Run'', sr_distance = 5000, sr_moving_time = 1500,
                sr_start_date = \<lparr>year = 2024, month = 3, day = 1\<rparr>, sr_start_secs = 3600\<rparr>]) =
   Inr ((dashboard_page 2024 (fetch_user_profile_flask Fetch_failed)
          (fetch_running_data_flask (\<lambda>d s. 0)
            (Fetched [\<lparr>sr_type = ''Run'', sr_distance = 5000, sr_moving_time = 1500,
                       sr_start_date = \<lparr>year = 2024, month = 3, day = 1\<rparr>, sr_start_secs = 3600\<rparr>])))
        \<lparr>pg_heatmap := prepare_heatmap_data
            (fetch_running_data_flask (\<lambda>d s. 0)
              (Fetched [\<lparr>sr_type = ''Run'', sr_distance = 5000, sr_moving_time = 1500,
                         sr_start_date = \<lparr>year = 2024, month = 3, day = 1\<rparr>, sr_start_secs = 3600\<rparr>])) 2025,
          pg_current_year := 2025\<rparr>)"
proof -
  have "local_date (\<lambda>d s. 0) \<lparr>year = 2024, month = 3, day = 1\<rparr> 3600 = \<lparr>year = 2024, month = 3, day = 1\<rparr>"
    by (simp add: local_date_def)
  then have "list_all (\<lambda>a. valid_date (local_date (\<lambda>d s. 0) (sr_start_date a) (sr_start_secs a)) \<and>
                          in_timestamp_range (local_date (\<lambda>d s. 0) (sr_start_date a) (sr_start_secs a)))
               [\<lparr>sr_type = ''Run'', sr_distance = 5000, sr_moving_time = 1500,
                 sr_start_date = \<lparr>year = 2024, month = 3, day = 1\<rparr>, sr_start_secs = 3600\<rparr>]"
    by (simp add: calendar_simps in_timestamp_range_def)
  from flask_stats_fixed_year [OF this, of 2025 Fetch_failed] show ?thesis .
qed

end
