(* ===== verification/Export.thy ===== *)
theory Export
  imports FlaskApp
begin

text \<open>
  The export script src/fetch_strava_data.py: \<open>authenticate\<close> exchanges an
  authorisation code written into the source, \<open>fetch_data\<close> reads the athlete and the
  runs (the run list is \<open>fetch_data_runs\<close> of the Aggregator theory), and \<open>main\<close>
  chains them and passes the result to \<open>save_to_json\<close>. Nothing in the script catches an
  exception. The Strava calls are parameters from the access token to their results;
  the JSON file is the value written.
\<close>

record export_data =
  ex_athlete_name :: string
  ex_avatar :: string
  ex_runs :: "run list"

definition authorization_code :: string where
  "authorization_code = ''a4eeaf2194bafada7969a167015b4628fa64924f''"

definition authenticate :: "exchange_api \<Rightarrow> token_response result" where
  "authenticate api = api (Some authorization_code)"

text \<open>\<open>athlete.firstname + ' ' + athlete.lastname\<close> raises \<open>TypeError\<close> on \<open>None\<close>.\<close>

definition fetch_data :: "athlete result \<Rightarrow> activity list result \<Rightarrow> export_data result" where
  "fetch_data ath acts =
     (case ath of
        Inl err \<Rightarrow> Inl err
      | Inr a \<Rightarrow>
          (case acts of
             Inl err \<Rightarrow> Inl err
           | Inr xs \<Rightarrow>
               (case (firstname a, lastname a) of
                  (Some f, Some l) \<Rightarrow>
                    Inr \<lparr>ex_athlete_name = f @ '' '' @ l, ex_avatar = athlete_picture a,
                         ex_runs = fetch_data_runs xs\<rparr>
                | _ \<Rightarrow> Inl TypeError)))"

text \<open>\<open>save_to_json(data)\<close>: the file name and the value \<open>json.dump\<close> writes there.\<close>

definition save_to_json :: "export_data \<Rightarrow> string \<times> export_data" where
  "save_to_json data = (''strava_data.json'', data)"

text \<open>\<open>main\<close>: the file \<open>save_to_json\<close> writes, or the exception that ends the script.
  \<open>client.get_athlete()\<close> runs before \<open>client.get_activities(limit=200)\<close>, whose result is
  the first 200 activities.\<close>

definition main :: "exchange_api \<Rightarrow> (string \<Rightarrow> athlete result) \<Rightarrow> (string \<Rightarrow> activity list result) \<Rightarrow>
                    (string \<times> export_data) result" where
  "main api get_athlete get_activities =
     (case authenticate api of
        Inl err \<Rightarrow> Inl err
      | Inr resp \<Rightarrow>
          (case py_getitem resp ''access_token'' of
             Inl err \<Rightarrow> Inl err
           | Inr t \<Rightarrow>
               (case get_athlete (py_str t) of
                  Inl err \<Rightarrow> Inl err
                | Inr a \<Rightarrow> map_sum id save_to_json
                             (fetch_data (Inr a) (map_sum id (take 200) (get_activities (py_str t)))))))"

section \<open>Example data\<close>

definition export_activity :: activity where
  "export_activity = \<lparr>activity_id = 1, activity_name = ''Morning Run'', activity_type = ''Run'',
                       distance_m = 5000, moving_time_s = 1500, activity_start = \<lparr>year = 2024, month = 3, day = 1\<rparr>\<rparr>"

definition export_athlete :: athlete where
  "export_athlete = \<lparr>firstname = Some ''Ana'', lastname = Some ''Lee'', athlete_picture = ''pic.png'',
                      all_run_count = 1, all_run_distance = 5000\<rparr>"

section \<open>Lemmas\<close>

lemma runs_parse_fetch_data_runs:
  "list_all (\<lambda>x. valid_date (activity_start x) \<and> in_timestamp_range (activity_start x)) xs \<Longrightarrow>
   runs_parse (fetch_data_runs xs)"
  by (induction xs) (auto simp: runs_parse_def fetch_data_runs_def run_key_def run_detail_def to_datetime_date_str)

section \<open>Properties of the export script\<close>

text \<open>C24: the export and the dashboard agree on the data: when the exchange of the
  code and the two Strava calls succeed, \<open>main\<close> writes the athlete's name and the runs
  of the first 200 activities to \<open>strava_data.json\<close>, and for activity dates pandas can
  read, \<open>fetch_running_data\<close> of src/app.py turns that run list into the per-date
  totals of its runs, with no run dropped for an unparseable date.\<close>

theorem export_feeds_dashboard:
  assumes "api (Some authorization_code) = Inr resp" "map_of resp ''access_token'' = Some t"
    "get_athlete (py_str t) = Inr a" "firstname a = Some f" "lastname a = Some l"
    "get_activities (py_str t) = Inr xs"
    "list_all (\<lambda>x. valid_date (activity_start x) \<and> in_timestamp_range (activity_start x)) (take 200 xs)"
  shows "main api get_athlete get_activities =
           Inr (''strava_data.json'', \<lparr>ex_athlete_name = f @ '' '' @ l, ex_avatar = athlete_picture a,
                                      ex_runs = fetch_data_runs (take 200 xs)\<rparr>) \<and>
         map_of (fetch_running_data (Fetched (fetch_data_runs (take 200 xs)))) =
           daily_totals (fetch_data_runs (take 200 xs))"
  using assms map_of_fetch_running_data [of "fetch_data_runs (take 200 xs)"]
    runs_parse_fetch_data_runs [OF assms(7)]
  by (simp add: main_def authenticate_def py_getitem_def fetch_data_def save_to_json_def)

section \<open>Witnesses\<close>

theorem export_feeds_dashboard_witness:
  "main (\<lambda>c. Inr tok_response) (\<lambda>t. Inr export_athlete) (\<lambda>t. Inr [export_activity]) =
     Inr (''strava_data.json'', \<lparr>ex_athlete_name = ''Ana'' @ '' '' @ ''Lee'', ex_avatar = ''pic.png'',
                                ex_runs = fetch_data_runs (take 200 [export_activity])\<rparr>) \<and>
   map_of (fetch_running_data (Fetched (fetch_data_runs (take 200 [export_activity])))) =
     daily_totals (fetch_data_runs (take 200 [export_activity]))"
proof -
  have "list_all (\<lambda>x. valid_date (activity_start x) \<and> in_timestamp_range (activity_start x)) (take 200 [export_activity])"
    by (simp add: export_activity_def calendar_simps in_timestamp_range_def)
  from export_feeds_dashboard [where api = "\<lambda>c. Inr tok_response" and resp = tok_response
      and t = "JStr ''new789''" and get_athlete = "\<lambda>t. Inr export_athlete" and a = export_athlete
      and f = "''Ana''" and l = "''Lee''" and get_activities = "\<lambda>t. Inr [export_activity]"
      and xs = "[export_activity]", OF _ _ _ _ _ _ this]
  show ?thesis by (simp add: tok_response_def export_athlete_def)
qed

end
