(* ===== verification/Requests.thy ===== *)
theory Requests
  imports Tokens
begin

text \<open>
  Concurrent requests. Flask serves requests on threads, and \<open>get_access_token\<close>
  (src/app.py) holds no lock, so two dashboard requests may interleave inside it. A
  request thread is modelled by its phase in \<open>get_access_token\<close> and three atomic
  steps on the shared state: \<open>load_token\<close>; the expiry test with the refresh and
  \<open>save_token\<close> (the body of the \<open>try\<close>); the assignment of the global
  \<open>access_token\<close> and the return. \<open>interleaved\<close> is the set of states two threads
  reach from a common initial state, in any interleaving of their steps.
\<close>

datatype phase =
    Start
  | Loaded "token_info option result"
  | Returned "jval option result"
  | Finished "jval result"

text \<open>The part of \<open>refresh_token_if_needed\<close> after \<open>load_token\<close> returned a token.\<close>

definition refresh_step :: "token_api \<Rightarrow> real \<Rightarrow> token_info \<Rightarrow> app_state \<Rightarrow> jval option result \<times> app_state" where
  "refresh_step api now ti s =
     (if real_of_int (ti_expires ti) < now then
        (let s1 = s\<lparr>refresh_calls := refresh_calls s @ [ti_refresh ti]\<rparr> in
         case api (ti_refresh ti) of
           Inl _ \<Rightarrow> (Inr None, s1)
         | Inr resp \<Rightarrow>
             (case save_token resp (environ s1) of
                (Inl _, e') \<Rightarrow> (Inr None, s1\<lparr>environ := e'\<rparr>)
              | (Inr _, e') \<Rightarrow>
                  (case py_getitem resp ''access_token'' of
                     Inl _ \<Rightarrow> (Inr None, s1\<lparr>environ := e'\<rparr>)
                   | Inr a \<Rightarrow> (Inr (Some a), s1\<lparr>environ := e'\<rparr>))))
      else (Inr (Some (JStr (ti_access ti))), s))"

text \<open>One atomic step of a request thread; \<open>None\<close> when it has returned.\<close>

fun thread_step :: "config \<Rightarrow> token_api \<Rightarrow> real \<Rightarrow> phase \<times> app_state \<Rightarrow> (phase \<times> app_state) option" where
  "thread_step cfg api now (Start, s) = Some (Loaded (load_token (environ s)), s)"
| "thread_step cfg api now (Loaded (Inl err), s) = Some (Finished (Inl err), s)"
| "thread_step cfg api now (Loaded (Inr None), s) = Some (Returned (Inr None), s)"
| "thread_step cfg api now (Loaded (Inr (Some ti)), s) =
     (case refresh_step api now ti s of (t, s') \<Rightarrow> Some (Returned t, s'))"
| "thread_step cfg api now (Returned (Inl err), s) = Some (Finished (Inl err), s)"
| "thread_step cfg api now (Returned (Inr t), s) =
     Some (Finished (Inr (if py_truthy t then the t else JStr (authorization_url cfg))),
           s\<lparr>access_token := t\<rparr>)"
| "thread_step cfg api now (Finished r, s) = None"

text \<open>A thread run alone, for at most \<open>n\<close> steps.\<close>

fun thread_run :: "config \<Rightarrow> token_api \<Rightarrow> real \<Rightarrow> nat \<Rightarrow> phase \<times> app_state \<Rightarrow> phase \<times> app_state" where
  "thread_run cfg api now 0 x = x"
| "thread_run cfg api now (Suc n) x =
     (case thread_step cfg api now x of None \<Rightarrow> x | Some y \<Rightarrow> thread_run cfg api now n y)"

text \<open>Two threads from the shared state \<open>s0\<close>, in every interleaving.\<close>

inductive interleaved :: "config \<Rightarrow> token_api \<Rightarrow> real \<Rightarrow> app_state \<Rightarrow> phase \<times> phase \<times> app_state \<Rightarrow> bool"
  for cfg api now s0 where
  start: "interleaved cfg api now s0 (Start, Start, s0)"
| left: "interleaved cfg api now s0 (p, q, s) \<Longrightarrow> thread_step cfg api now (p, s) = Some (p', s') \<Longrightarrow>
         interleaved cfg api now s0 (p', q, s')"
| right: "interleaved cfg api now s0 (p, q, s) \<Longrightarrow> thread_step cfg api now (q, s) = Some (q', s') \<Longrightarrow>
          interleaved cfg api now s0 (p, q', s')"

text \<open>The number of refresh calls a thread in a phase can have made.\<close>

fun calls_made :: "phase \<Rightarrow> nat" where
  "calls_made Start = 0"
| "calls_made (Loaded _) = 0"
| "calls_made (Returned _) = 1"
| "calls_made (Finished _) = 1"

fun finished :: "phase \<Rightarrow> bool" where
  "finished (Finished _) = True"
| "finished _ = False"

text \<open>The number of steps a thread in a phase has left.\<close>

fun remaining :: "phase \<Rightarrow> nat" where
  "remaining Start = 3"
| "remaining (Loaded _) = 2"
| "remaining (Returned _) = 1"
| "remaining (Finished _) = 0"

abbreviation expired_state :: app_state where
  "expired_state \<equiv> tok_state (stored Map.empty ''abc123'' ''def456'' 1700000000)"

section \<open>Lemmas\<close>

lemma refresh_token_if_needed_split:
  "refresh_token_if_needed api now s =
     (case load_token (environ s) of
        Inl err \<Rightarrow> (Inl err, s)
      | Inr None \<Rightarrow> (Inr None, s)
      | Inr (Some ti) \<Rightarrow> refresh_step api now ti s)"
  by (simp add: refresh_token_if_needed_def refresh_step_def split: sum.splits option.splits)

lemma refresh_step_calls:
  "refresh_step api now ti s = (t, s') \<Longrightarrow>
   (refresh_calls s' = refresh_calls s \<or> refresh_calls s' = refresh_calls s @ [ti_refresh ti]) \<and>
   exchange_calls s' = exchange_calls s"
  by (auto simp: refresh_step_def Let_def split: if_splits sum.splits prod.splits)

lemma thread_step_calls:
  "thread_step cfg api now (p, s) = Some (p', s') \<Longrightarrow>
   \<exists>l. refresh_calls s' = refresh_calls s @ l \<and> length l + calls_made p \<le> calls_made p' \<and>
       exchange_calls s' = exchange_calls s"
  by (cases "(cfg, api, now, (p, s))" rule: thread_step.cases)
     (auto split: prod.splits dest!: refresh_step_calls)

lemma stored_stored: "stored (stored e a rt x) a rt x = stored e a rt x"
  by (simp add: stored_def)

lemma refresh_step_wf:
  "real_of_int (ti_expires ti) < now \<Longrightarrow> api (ti_refresh ti) = Inr r \<Longrightarrow>
   well_formed_response r a rt x \<Longrightarrow>
   refresh_step api now ti s =
     (Inr (Some (JStr a)), s\<lparr>refresh_calls := refresh_calls s @ [ti_refresh ti],
                              environ := stored (environ s) a rt x\<rparr>)"
  using save_token_wf [of r a rt x "environ s"]
  by (simp add: refresh_step_def well_formed_response_def py_getitem_def)

lemma thread_step_None: "thread_step cfg api now x = None \<longleftrightarrow> finished (fst x)"
  by (cases "(cfg, api, now, x)" rule: thread_step.cases) (auto split: prod.splits)

lemma thread_step_remaining:
  "thread_step cfg api now (p, s) = Some (p', s') \<Longrightarrow> remaining p' < remaining p"
  by (cases "(cfg, api, now, (p, s))" rule: thread_step.cases) (auto split: prod.splits)

lemma thread_run_finishes:
  "remaining p \<le> n \<Longrightarrow> finished (fst (thread_run cfg api now n (p, s)))"
proof (induction n arbitrary: p s)
  case 0
  then show ?case by (cases p) auto
next
  case (Suc n)
  show ?case
  proof (cases "thread_step cfg api now (p, s)")
    case None
    then have "finished p" using thread_step_None [of cfg api now "(p, s)"] by simp
    with None show ?thesis by simp
  next
    case (Some y)
    obtain p' s' where y: "y = (p', s')" by (cases y)
    with Some Suc.prems have "remaining p' \<le> n" using thread_step_remaining by fastforce
    with Some y Suc.IH show ?thesis by simp
  qed
qed

lemma remaining_le_3: "remaining p \<le> 3"
  by (cases p) auto

lemma interleaved_run_left:
  "interleaved cfg api now s0 (p, q, s) \<Longrightarrow>
   interleaved cfg api now s0 (fst (thread_run cfg api now n (p, s)), q, snd (thread_run cfg api now n (p, s)))"
proof (induction n arbitrary: p s)
  case 0
  then show ?case by simp
next
  case (Suc n)
  then show ?case
    by (cases "thread_step cfg api now (p, s)") (auto intro: interleaved.left Suc.IH)
qed

lemma interleaved_run_right:
  "interleaved cfg api now s0 (p, q, s) \<Longrightarrow>
   interleaved cfg api now s0 (p, fst (thread_run cfg api now n (q, s)), snd (thread_run cfg api now n (q, s)))"
proof (induction n arbitrary: q s)
  case 0
  then show ?case by simp
next
  case (Suc n)
  then show ?case
    by (cases "thread_step cfg api now (q, s)") (auto intro: interleaved.right Suc.IH)
qed

lemma finished_Finished: "finished p \<Longrightarrow> \<exists>r. p = Finished r"
  by (cases p) auto

section \<open>Properties of concurrent requests\<close>

text \<open>A request thread run alone for three steps is \<open>get_access_token\<close>: the
  decomposition into atomic steps computes what the code computes.\<close>

lemma thread_run_get_access_token:
  "thread_run cfg api now 3 (Start, s) =
   (case get_access_token cfg api now s of (r, s') \<Rightarrow> (Finished r, s'))"
proof (cases "load_token (environ s)")
  case (Inl err)
  then show ?thesis by (simp add: get_access_token_def refresh_token_if_needed_split numeral_3_eq_3)
next
  case (Inr lt)
  show ?thesis
  proof (cases lt)
    case None
    with Inr show ?thesis by (simp add: get_access_token_def refresh_token_if_needed_split numeral_3_eq_3)
  next
    case (Some ti)
    obtain t s' where r: "refresh_step api now ti s = (t, s')" by fastforce
    with Inr Some show ?thesis
      by (cases t) (simp_all add: get_access_token_def refresh_token_if_needed_split numeral_3_eq_3)
  qed
qed

text \<open>Three steps are enough: from any phase a thread run alone has returned after
  three steps.\<close>

lemma thread_run_terminates:
  "finished (fst (thread_run cfg api now 3 (p, s)))"
  by (rule thread_run_finishes [OF remaining_le_3])

text \<open>C18: in every interleaving of two requests, the refresh calls made so far are at
  most one per request that has passed its expiry test, and no code exchange happens.\<close>

theorem interleaved_refresh_bound:
  "interleaved cfg api now s0 (p, q, s) \<Longrightarrow>
   \<exists>l. refresh_calls s = refresh_calls s0 @ l \<and> length l \<le> calls_made p + calls_made q \<and>
       exchange_calls s = exchange_calls s0"
proof (induction "(p, q, s)" arbitrary: p q s rule: interleaved.induct)
  case start
  then show ?case by simp
next
  case (left p q s p' s')
  then obtain l l' where "refresh_calls s = refresh_calls s0 @ l" "length l \<le> calls_made p + calls_made q"
    "refresh_calls s' = refresh_calls s @ l'" "length l' + calls_made p \<le> calls_made p'"
    "exchange_calls s' = exchange_calls s0"
    using thread_step_calls by fastforce
  then show ?case by (intro exI [of _ "l @ l'"]) simp
next
  case (right p q s q' s')
  then obtain l l' where "refresh_calls s = refresh_calls s0 @ l" "length l \<le> calls_made p + calls_made q"
    "refresh_calls s' = refresh_calls s @ l'" "length l' + calls_made q \<le> calls_made q'"
    "exchange_calls s' = exchange_calls s0"
    using thread_step_calls by fastforce
  then show ?case by (intro exI [of _ "l @ l'"]) simp
qed

text \<open>C17: no lock guards the refresh: when the stored token has expired, the
  interleaving in which both requests load it before either refreshes is reachable,
  and it makes two refresh calls with the same refresh token.\<close>

theorem concurrent_double_refresh:
  assumes "load_token (environ s) = Inr (Some ti)" "real_of_int (ti_expires ti) < now"
    "api (ti_refresh ti) = Inr r" "well_formed_response r a rt x" "a \<noteq> []"
  shows "interleaved cfg api now s
           (Finished (Inr (JStr a)), Finished (Inr (JStr a)),
            s\<lparr>refresh_calls := refresh_calls s @ [ti_refresh ti, ti_refresh ti],
              environ := stored (environ s) a rt x, access_token := Some (JStr a)\<rparr>)"
proof -
  let ?L = "Loaded (Inr (Some ti))" and ?R = "Returned (Inr (Some (JStr a)))"
  let ?s1 = "s\<lparr>refresh_calls := refresh_calls s @ [ti_refresh ti], environ := stored (environ s) a rt x\<rparr>"
  let ?s2 = "s\<lparr>refresh_calls := refresh_calls s @ [ti_refresh ti, ti_refresh ti],
               environ := stored (environ s) a rt x\<rparr>"
  have "interleaved cfg api now s (?L, Start, s)"
    by (rule interleaved.left [OF interleaved.start]) (simp add: assms(1))
  then have "interleaved cfg api now s (?L, ?L, s)"
    by (rule interleaved.right) (simp add: assms(1))
  then have "interleaved cfg api now s (?R, ?L, ?s1)"
    by (rule interleaved.left) (simp add: refresh_step_wf [where api = api, OF assms(2-4)])
  then have "interleaved cfg api now s (?R, ?R, ?s2)"
    by (rule interleaved.right) (simp add: refresh_step_wf [where api = api, OF assms(2-4)] stored_stored)
  then have "interleaved cfg api now s (Finished (Inr (JStr a)), ?R, ?s2\<lparr>access_token := Some (JStr a)\<rparr>)"
    by (rule interleaved.left) (simp add: assms(5) py_truthy_def)
  then show ?thesis
    by (rule interleaved.right) (simp add: assms(5) py_truthy_def)
qed

text \<open>Requests that do not overlap refresh once: after a successful refresh to a
  token that has not expired, the next \<open>get_access_token\<close> returns the new token with
  no further call and no change of state.\<close>

lemma sequential_single_refresh:
  assumes "load_token (environ s) = Inr (Some ti)" "real_of_int (ti_expires ti) < now"
    "api (ti_refresh ti) = Inr r" "well_formed_response r a rt x" "a \<noteq> []" "now \<le> real_of_int x"
  shows "get_access_token cfg api now (snd (get_access_token cfg api now s)) =
           (Inr (JStr a), snd (get_access_token cfg api now s)) \<and>
         refresh_calls (snd (get_access_token cfg api now s)) = refresh_calls s @ [ti_refresh ti]"
proof -
  let ?s1 = "s\<lparr>refresh_calls := refresh_calls s @ [ti_refresh ti], environ := stored (environ s) a rt x,
               access_token := Some (JStr a)\<rparr>"
  have g1: "get_access_token cfg api now s = (Inr (JStr a), ?s1)"
    using get_access_token_refresh_result [OF refresh_wf_response [where api = api and s = s, OF assms(1-4)]]
      assms(5) by (simp add: py_truthy_def)
  have "load_token (environ ?s1) = Inr (Some \<lparr>ti_access = a, ti_refresh = rt, ti_expires = x\<rparr>)"
    by (simp add: load_token_stored)
  from get_access_token_refresh_result [OF refresh_valid [OF this]] assms(5,6)
  have "get_access_token cfg api now ?s1 = (Inr (JStr a), ?s1)"
    by (simp add: py_truthy_def)
  with g1 show ?thesis by simp
qed

text \<open>No interleaving gets stuck: from every state two requests reach, both can run
  to their return.\<close>

lemma interleaved_can_finish:
  "interleaved cfg api now s0 (p, q, s) \<Longrightarrow>
   \<exists>r1 r2 s'. interleaved cfg api now s0 (Finished r1, Finished r2, s')"
proof -
  assume i: "interleaved cfg api now s0 (p, q, s)"
  let ?x = "thread_run cfg api now 3 (p, s)"
  let ?y = "thread_run cfg api now 3 (q, snd ?x)"
  have "interleaved cfg api now s0 (fst ?x, fst ?y, snd ?y)"
    by (rule interleaved_run_right [OF interleaved_run_left [OF i]])
  moreover obtain r1 where "fst ?x = Finished r1"
    using finished_Finished [OF thread_run_finishes [OF remaining_le_3]] by blast
  moreover obtain r2 where "fst ?y = Finished r2"
    using finished_Finished [OF thread_run_finishes [OF remaining_le_3]] by blast
  ultimately show ?thesis by metis
qed

section \<open>Witnesses\<close>

lemma expired_state_loads:
  "load_token (environ expired_state) =
   Inr (Some \<lparr>ti_access = ''abc123'', ti_refresh = ''def456'', ti_expires = 1700000000\<rparr>)"
  by (simp add: tok_state_def load_token_stored)

theorem interleaved_refresh_bound_witness:
  "interleaved tok_cfg tok_api_ok 1700000001 expired_state (Loaded (load_token (environ expired_state)), Start, expired_state) \<and>
   (\<exists>l. refresh_calls expired_state = refresh_calls expired_state @ l \<and>
        length l \<le> calls_made (Loaded (load_token (environ expired_state))) + calls_made Start \<and>
        exchange_calls expired_state = exchange_calls expired_state)"
proof -
  have i: "interleaved tok_cfg tok_api_ok 1700000001 expired_state
             (Loaded (load_token (environ expired_state)), Start, expired_state)"
    by (rule interleaved.left [OF interleaved.start]) simp
  show ?thesis using i interleaved_refresh_bound [OF i] by simp
qed

theorem concurrent_double_refresh_witness:
  "interleaved tok_cfg tok_api_ok 1700000001 expired_state
     (Finished (Inr (JStr ''new789'')), Finished (Inr (JStr ''new789'')),
      \<lparr>environ = stored (stored Map.empty ''abc123'' ''def456'' 1700000000) ''new789'' ''ref012'' 1700021600,
       access_token = Some (JStr ''new789''), refresh_calls = [''def456'', ''def456''], exchange_calls = []\<rparr>)"
  using concurrent_double_refresh [OF expired_state_loads _ _ tok_response_wf, of 1700000001 tok_api_ok tok_cfg]
  by (simp add: tok_state_def tok_api_ok_def)

theorem sequential_single_refresh_witness:
  "get_access_token tok_cfg tok_api_ok 1700000001 (snd (get_access_token tok_cfg tok_api_ok 1700000001 expired_state)) =
     (Inr (JStr ''new789''), snd (get_access_token tok_cfg tok_api_ok 1700000001 expired_state)) \<and>
   refresh_calls (snd (get_access_token tok_cfg tok_api_ok 1700000001 expired_state)) = [''def456'']"
  using sequential_single_refresh [OF expired_state_loads _ _ tok_response_wf, of 1700000001 tok_api_ok tok_cfg]
  by (simp add: tok_state_def tok_api_ok_def)

theorem interleaved_can_finish_witness:
  "\<exists>r1 r2 s'. interleaved tok_cfg tok_api_ok 1700000001 expired_state (Finished r1, Finished r2, s')"
  by (rule interleaved_can_finish [OF interleaved.start])

end
