(* ===== verification/Lifecycle.thy ===== *)
theory Lifecycle
  imports Tokens
begin

text \<open>
  The token lifecycle of the specification (section 4.1), as an abstract state machine,
  and its relation to the code of src/app.py. The abstract state is the stored
  credential or its absence; \<open>get_valid_token\<close> returns the stored token while it is
  valid, refreshes it once when it has expired, and signals that authorisation is
  required when there is none or the refresh fails; \<open>complete_authorization\<close>
  replaces it on a successful exchange. The environment of the code is mapped to the
  abstract state by \<open>abs_store\<close>, Strava's answers by \<open>api_view\<close>.

  The requests and callbacks the application serves form the datatype \<open>request\<close>;
  \<open>reachable\<close> is the set of states a sequence of them leads to.
\<close>

section \<open>The specification\<close>

datatype token_state = Unauthenticated | Stored_token token_info

datatype refresh_result = Refresh_ok token_info | Refresh_failed

datatype signal = Token_signal string | Authorization_required

definition get_valid_token :: "(string \<Rightarrow> refresh_result) \<Rightarrow> real \<Rightarrow> token_state \<Rightarrow> signal \<times> token_state" where
  "get_valid_token refresh now st =
     (case st of
        Unauthenticated \<Rightarrow> (Authorization_required, Unauthenticated)
      | Stored_token ti \<Rightarrow>
          (if now < real_of_int (ti_expires ti) then (Token_signal (ti_access ti), st)
           else case refresh (ti_refresh ti) of
                  Refresh_ok ti' \<Rightarrow> (Token_signal (ti_access ti'), Stored_token ti')
                | Refresh_failed \<Rightarrow> (Authorization_required, st)))"

datatype auth_outcome = Authorized | Authorization_failure

definition complete_authorization :: "refresh_result \<Rightarrow> token_state \<Rightarrow> auth_outcome \<times> token_state" where
  "complete_authorization r st =
     (case r of Refresh_ok ti \<Rightarrow> (Authorized, Stored_token ti) | Refresh_failed \<Rightarrow> (Authorization_failure, st))"

section \<open>Abstraction of the code\<close>

text \<open>The stored credential the environment holds, when it is one the specification
  knows: nothing, or a readable credential with a non-empty access token (an empty one is
  falsy in the code).\<close>

definition abs_store :: "(string \<rightharpoonup> string) \<Rightarrow> token_state option" where
  "abs_store e =
     (case load_token e of
        Inr None \<Rightarrow> Some Unauthenticated
      | Inr (Some ti) \<Rightarrow> (if ti_access ti = [] then None else Some (Stored_token ti))
      | Inl _ \<Rightarrow> None)"

text \<open>Strava's answer as the specification sees it: a failure, or a well-formed token
  with a non-empty access token; \<open>None\<close> for a malformed response.\<close>

definition api_view :: "token_response result \<Rightarrow> refresh_result option" where
  "api_view r =
     (case r of
        Inl _ \<Rightarrow> Some Refresh_failed
      | Inr resp \<Rightarrow>
          (case (map_of resp ''access_token'', map_of resp ''refresh_token'', map_of resp ''expires_at'') of
             (Some (JStr a), Some (JStr rt), Some (JInt x)) \<Rightarrow>
               (if a = [] then None else Some (Refresh_ok \<lparr>ti_access = a, ti_refresh = rt, ti_expires = x\<rparr>))
           | _ \<Rightarrow> None))"

definition good_api :: "token_api \<Rightarrow> bool" where
  "good_api api \<longleftrightarrow> (\<forall>c. api_view (api c) \<noteq> None)"

definition render_signal :: "config \<Rightarrow> signal \<Rightarrow> string" where
  "render_signal cfg sg = (case sg of Token_signal a \<Rightarrow> a | Authorization_required \<Rightarrow> authorization_url cfg)"

definition render_auth :: "auth_outcome \<Rightarrow> response" where
  "render_auth o' = (case o' of Authorized \<Rightarrow> Redirect ''/'' | Authorization_failure \<Rightarrow> Page authorization_failed 200)"

section \<open>Requests and reachable states\<close>

datatype request = Dashboard_request token_api real | Callback token_api "string option"

definition app_step :: "config \<Rightarrow> request \<Rightarrow> app_state \<Rightarrow> app_state" where
  "app_step cfg rq s =
     (case rq of
        Dashboard_request api now \<Rightarrow> snd (get_access_token cfg api now s)
      | Callback api code \<Rightarrow> snd (authorized api code s))"

definition request_api :: "request \<Rightarrow> token_api" where
  "request_api rq = (case rq of Dashboard_request api now \<Rightarrow> api | Callback api code \<Rightarrow> api)"

inductive reachable :: "config \<Rightarrow> app_state \<Rightarrow> app_state \<Rightarrow> bool" for cfg s0 where
  init: "reachable cfg s0 s0"
| step: "reachable cfg s0 s \<Longrightarrow> reachable cfg s0 (app_step cfg rq s)"

inductive reachable_good :: "config \<Rightarrow> app_state \<Rightarrow> app_state \<Rightarrow> bool" for cfg s0 where
  init: "reachable_good cfg s0 s0"
| step: "reachable_good cfg s0 s \<Longrightarrow> good_api (request_api rq) \<Longrightarrow> reachable_good cfg s0 (app_step cfg rq s)"

text \<open>The keys present are a prefix of the order \<open>save_token\<close> writes them in.\<close>

definition store_prefix :: "(string \<rightharpoonup> string) \<Rightarrow> bool" where
  "store_prefix e \<longleftrightarrow>
     (e ''REFRESH_TOKEN'' \<noteq> None \<longrightarrow> e ''ACCESS_TOKEN'' \<noteq> None) \<and>
     (e ''EXPIRES_AT'' \<noteq> None \<longrightarrow> e ''REFRESH_TOKEN'' \<noteq> None)"

text \<open>The spec's TokenState: no credential at all, or a whole one the specification
  knows.\<close>

definition store_whole :: "(string \<rightharpoonup> string) \<Rightarrow> bool" where
  "store_whole e \<longleftrightarrow>
     (e ''ACCESS_TOKEN'' = None \<and> e ''REFRESH_TOKEN'' = None \<and> e ''EXPIRES_AT'' = None) \<or>
     (case abs_store e of Some (Stored_token _) \<Rightarrow> True | _ \<Rightarrow> False)"

section \<open>Lemmas\<close>

lemma abs_store_cases:
  assumes "abs_store e = Some st"
  obtains (unauth) "st = Unauthenticated" "load_token e = Inr None"
  | (stored) ti where "st = Stored_token ti" "load_token e = Inr (Some ti)" "ti_access ti \<noteq> []"
  using assms by (auto simp: abs_store_def split: sum.splits option.splits if_splits)

lemma api_view_failed: "api_view r = Some Refresh_failed \<Longrightarrow> \<exists>err. r = Inl err"
  by (auto simp: api_view_def split: sum.splits option.splits jval.splits if_splits)

lemma api_view_ok:
  "api_view r = Some (Refresh_ok ti) \<Longrightarrow>
   \<exists>resp. r = Inr resp \<and> well_formed_response resp (ti_access ti) (ti_refresh ti) (ti_expires ti) \<and>
          ti_access ti \<noteq> []"
  by (auto simp: api_view_def well_formed_response_def split: sum.splits option.splits jval.splits if_splits)

lemma abs_store_stored:
  "a \<noteq> [] \<Longrightarrow> abs_store (stored e a rt x) = Some (Stored_token \<lparr>ti_access = a, ti_refresh = rt, ti_expires = x\<rparr>)"
  by (simp add: abs_store_def load_token_stored)

lemma store_prefix_save_token:
  assumes "store_prefix e" "save_token r e = (res, e')"
  shows "store_prefix e'"
  using assms(2)
proof (cases rule: save_token_cases)
  case ok
  then show ?thesis by (simp add: store_prefix_def)
next
  case none
  then show ?thesis using assms(1) by simp
next
  case one
  then show ?thesis using assms(1) by (simp add: store_prefix_def)
next
  case two
  then show ?thesis by (simp add: store_prefix_def)
qed

lemma get_access_token_environ:
  "environ (snd (get_access_token cfg api now s)) = environ s \<or>
   (\<exists>c r. api c = Inr r \<and> environ (snd (get_access_token cfg api now s)) = snd (save_token r (environ s)))"
proof -
  have env: "environ (snd (get_access_token cfg api now s)) = environ (snd (refresh_token_if_needed api now s))"
    by (simp add: get_access_token_def Let_def split: prod.splits sum.splits)
  show ?thesis
  proof (cases "load_token (environ s)")
    case (Inl err)
    then show ?thesis using env refresh_load_error [OF Inl] by simp
  next
    case (Inr lt)
    show ?thesis
    proof (cases lt)
      case None
      then show ?thesis using env Inr refresh_absent by simp
    next
      case (Some ti)
      note ld = Inr [unfolded Some]
      show ?thesis
      proof (cases "real_of_int (ti_expires ti) < now")
        case False
        then show ?thesis using env refresh_valid [OF ld False] by simp
      next
        case exp: True
        show ?thesis
        proof (cases "api (ti_refresh ti)")
          case (Inl err)
          then show ?thesis using env refresh_api_failed [where api = api, OF ld exp Inl] by simp
        next
          case (Inr r)
          obtain res e' where sv: "save_token r (environ s) = (res, e')" by fastforce
          from refresh_response [where api = api, OF ld exp Inr sv] env
          have "environ (snd (get_access_token cfg api now s)) = snd (save_token r (environ s))"
            using sv by simp
          with Inr show ?thesis by blast
        qed
      qed
    qed
  qed
qed

lemma authorized_environ:
  "environ (snd (authorized api code s)) = environ s \<or>
   (\<exists>c r. api c = Inr r \<and> environ (snd (authorized api code s)) = snd (save_token r (environ s)))"
proof (cases "\<exists>c r a. code = Some c \<and> c \<noteq> [] \<and> api c = Inr r \<and> py_getitem r ''access_token'' = Inr a")
  case True
  then obtain c r a where c: "code = Some c" "c \<noteq> []" "api c = Inr r" "py_getitem r ''access_token'' = Inr a"
    by blast
  then have "environ (snd (authorized api code s)) = snd (save_token r (environ s))"
    by (cases "save_token r (environ s)") (simp add: authorized_def Let_def split: sum.splits)
  with c(3) show ?thesis by blast
next
  case False
  then have "environ (snd (authorized api code s)) = environ s"
    by (auto simp: authorized_def Let_def split: option.splits sum.splits prod.splits)
  then show ?thesis by simp
qed

lemma app_step_environ:
  "environ (app_step cfg rq s) = environ s \<or>
   (\<exists>c r. request_api rq c = Inr r \<and> environ (app_step cfg rq s) = snd (save_token r (environ s)))"
  using get_access_token_environ authorized_environ
  by (cases rq) (simp_all add: app_step_def request_api_def)

lemma store_whole_save_good:
  "api_view (Inr r) \<noteq> None \<Longrightarrow> store_whole (snd (save_token r e))"
proof -
  assume "api_view (Inr r) \<noteq> None"
  then obtain ti where "api_view (Inr r) = Some (Refresh_ok ti)"
    by (cases "api_view (Inr r)") (auto dest: api_view_failed elim: refresh_result.exhaust)
  from api_view_ok [OF this] have "well_formed_response r (ti_access ti) (ti_refresh ti) (ti_expires ti)"
    "ti_access ti \<noteq> []" by auto
  then show ?thesis by (simp add: save_token_wf abs_store_stored store_whole_def)
qed

section \<open>Refinement of the specification\<close>

text \<open>C10: \<open>get_access_token\<close> implements \<open>get_valid_token\<close> of the specification: for a
  store the specification knows and a Strava that fails or answers well-formed, the
  code returns the token or, where the specification signals that authorisation is
  required, the authorisation URL, and leaves the store in the abstract state the
  specification reaches. Excluded is the instant \<open>expires_at = now\<close>, where the two
  differ.\<close>

theorem get_access_token_refines:
  assumes "abs_store (environ s) = Some st" "good_api api"
    "\<forall>ti. st = Stored_token ti \<longrightarrow> real_of_int (ti_expires ti) \<noteq> now"
  shows "fst (get_access_token cfg api now s) =
           Inr (JStr (render_signal cfg (fst (get_valid_token (\<lambda>rt. the (api_view (api rt))) now st)))) \<and>
         abs_store (environ (snd (get_access_token cfg api now s))) =
           Some (snd (get_valid_token (\<lambda>rt. the (api_view (api rt))) now st))"
  using assms(1)
proof (cases rule: abs_store_cases)
  case unauth
  then show ?thesis
    using get_access_token_refresh_result [OF refresh_absent [OF unauth(2)], of cfg] assms(1)
    by (simp add: get_valid_token_def render_signal_def py_truthy_def)
next
  case (stored ti)
  show ?thesis
  proof (cases "now < real_of_int (ti_expires ti)")
    case True
    then show ?thesis
      using get_access_token_refresh_result [OF refresh_valid [OF stored(2)], of now cfg api] stored assms(1)
      by (simp add: get_valid_token_def render_signal_def py_truthy_def)
  next
    case False
    then have exp: "real_of_int (ti_expires ti) < now" using assms(3) stored(1) by auto
    obtain v where v: "api_view (api (ti_refresh ti)) = Some v" using assms(2) by (auto simp: good_api_def)
    show ?thesis
    proof (cases v)
      case (Refresh_ok ti')
      then obtain r where r: "api (ti_refresh ti) = Inr r"
        "well_formed_response r (ti_access ti') (ti_refresh ti') (ti_expires ti')" "ti_access ti' \<noteq> []"
        using api_view_ok v by blast
      show ?thesis
        using get_access_token_refresh_result [OF refresh_wf_response [where api = api, OF stored(2) exp r(1,2)], of cfg]
          r(3) stored(1) False v Refresh_ok abs_store_stored [OF r(3)]
        by (simp add: get_valid_token_def render_signal_def py_truthy_def)
    next
      case Refresh_failed
      then obtain err where "api (ti_refresh ti) = Inl err" using api_view_failed v by blast
      from get_access_token_refresh_result [OF refresh_api_failed [where api = api, OF stored(2) exp this], of cfg]
      show ?thesis using stored(1) False v Refresh_failed assms(1)
        by (simp add: get_valid_token_def render_signal_def py_truthy_def)
    qed
  qed
qed

text \<open>C13: the callback implements \<open>complete_authorization\<close>: a non-empty code whose
  exchange fails or answers well-formed gives the redirect or the failure page, and the
  store the specification's transition gives.\<close>

theorem authorized_refines:
  assumes "abs_store (environ s) = Some st" "c \<noteq> []" "api_view (api c) = Some r"
  shows "fst (authorized api (Some c) s) = render_auth (fst (complete_authorization r st)) \<and>
         abs_store (environ (snd (authorized api (Some c) s))) = Some (snd (complete_authorization r st))"
proof (cases r)
  case (Refresh_ok ti)
  then obtain resp where "api c = Inr resp"
    "well_formed_response resp (ti_access ti) (ti_refresh ti) (ti_expires ti)" "ti_access ti \<noteq> []"
    using api_view_ok assms(3) by blast
  then show ?thesis using assms(2) Refresh_ok save_token_wf abs_store_stored
    by (simp add: authorized_def complete_authorization_def render_auth_def well_formed_response_def
        py_getitem_def)
next
  case Refresh_failed
  then obtain err where "api c = Inl err" using api_view_failed assms(3) by blast
  then show ?thesis using assms(1,2) Refresh_failed
    by (simp add: authorized_def complete_authorization_def render_auth_def)
qed

section \<open>Invariants of the reachable states\<close>

text \<open>C12: whatever Strava answers, every reachable store holds a prefix of
  \<open>ACCESS_TOKEN\<close>, \<open>REFRESH_TOKEN\<close>, \<open>EXPIRES_AT\<close>, the order \<open>save_token\<close> writes them
  in: a later key is never present without the earlier ones.\<close>

theorem store_prefix_invariant:
  assumes "reachable cfg s0 s" "store_prefix (environ s0)"
  shows "store_prefix (environ s)"
  using assms(1)
proof (induction rule: reachable.induct)
  case init
  then show ?case by (rule assms(2))
next
  case (step s rq)
  from app_step_environ [of cfg rq s] show ?case
  proof
    assume "environ (app_step cfg rq s) = environ s"
    then show ?thesis using step.IH by simp
  next
    assume "\<exists>c r. request_api rq c = Inr r \<and> environ (app_step cfg rq s) = snd (save_token r (environ s))"
    then obtain r where "environ (app_step cfg rq s) = snd (save_token r (environ s))" by blast
    then show ?thesis using store_prefix_save_token [OF step.IH, of r] by (cases "save_token r (environ s)") simp
  qed
qed

text \<open>C11: while Strava fails or answers well-formed, the store is never partially
  updated: from no credential or a whole one, every reachable store is again no
  credential or a whole one, as the spec's TokenState requires.\<close>

theorem store_whole_invariant:
  assumes "reachable_good cfg s0 s" "store_whole (environ s0)"
  shows "store_whole (environ s)"
  using assms(1)
proof (induction rule: reachable_good.induct)
  case init
  then show ?case by (rule assms(2))
next
  case (step s rq)
  from app_step_environ [of cfg rq s] show ?case
  proof
    assume "environ (app_step cfg rq s) = environ s"
    then show ?thesis using step.IH by simp
  next
    assume "\<exists>c r. request_api rq c = Inr r \<and> environ (app_step cfg rq s) = snd (save_token r (environ s))"
    then obtain c r where "request_api rq c = Inr r" "environ (app_step cfg rq s) = snd (save_token r (environ s))"
      by blast
    moreover have "api_view (Inr r) \<noteq> None"
      using step.hyps(2) calculation(1) by (metis good_api_def)
    ultimately show ?thesis using store_whole_save_good by simp
  qed
qed

section \<open>Witnesses\<close>

lemma good_tok_api_ok: "good_api tok_api_ok"
  by (simp add: good_api_def api_view_def tok_api_ok_def tok_response_def)

lemma abs_expired_state:
  "abs_store (environ (tok_state (stored Map.empty ''abc123'' ''def456'' 1700000000))) =
   Some (Stored_token \<lparr>ti_access = ''abc123'', ti_refresh = ''def456'', ti_expires = 1700000000\<rparr>)"
  by (simp add: tok_state_def abs_store_stored)

theorem get_access_token_refines_witness:
  "fst (get_access_token tok_cfg tok_api_ok 1700000001 (tok_state (stored Map.empty ''abc123'' ''def456'' 1700000000))) =
     Inr (JStr (render_signal tok_cfg (fst (get_valid_token (\<lambda>rt. the (api_view (tok_api_ok rt))) 1700000001
        (Stored_token \<lparr>ti_access = ''abc123'', ti_refresh = ''def456'', ti_expires = 1700000000\<rparr>))))) \<and>
   abs_store (environ (snd (get_access_token tok_cfg tok_api_ok 1700000001
       (tok_state (stored Map.empty ''abc123'' ''def456'' 1700000000))))) =
     Some (snd (get_valid_token (\<lambda>rt. the (api_view (tok_api_ok rt))) 1700000001
        (Stored_token \<lparr>ti_access = ''abc123'', ti_refresh = ''def456'', ti_expires = 1700000000\<rparr>)))"
  by (rule get_access_token_refines [OF abs_expired_state good_tok_api_ok]) simp

theorem authorized_refines_witness:
  "fst (authorized tok_api_ok (Some ''c0de'') (tok_state Map.empty)) =
     render_auth (fst (complete_authorization
       (Refresh_ok \<lparr>ti_access = ''new789'', ti_refresh = ''ref012'', ti_expires = 1700021600\<rparr>) Unauthenticated)) \<and>
   abs_store (environ (snd (authorized tok_api_ok (Some ''c0de'') (tok_state Map.empty)))) =
     Some (snd (complete_authorization
       (Refresh_ok \<lparr>ti_access = ''new789'', ti_refresh = ''ref012'', ti_expires = 1700021600\<rparr>) Unauthenticated))"
proof (rule authorized_refines)
  show "abs_store (environ (tok_state Map.empty)) = Some Unauthenticated"
    by (simp add: tok_state_def abs_store_def load_token_def)
  show "api_view (tok_api_ok ''c0de'') =
        Some (Refresh_ok \<lparr>ti_access = ''new789'', ti_refresh = ''ref012'', ti_expires = 1700021600\<rparr>)"
    by (simp add: api_view_def tok_api_ok_def tok_response_def)
qed simp

theorem store_prefix_invariant_witness:
  "store_prefix (environ (app_step tok_cfg (Callback (\<lambda>c. Inr [(''access_token'', JStr ''new789'')]) (Some ''c0de''))
                   (tok_state Map.empty)))"
proof (rule store_prefix_invariant)
  show "reachable tok_cfg (tok_state Map.empty)
          (app_step tok_cfg (Callback (\<lambda>c. Inr [(''access_token'', JStr ''new789'')]) (Some ''c0de'')) (tok_state Map.empty))"
    by (rule reachable.step [OF reachable.init])
  show "store_prefix (environ (tok_state Map.empty))" by (simp add: store_prefix_def tok_state_def)
qed

theorem store_whole_invariant_witness:
  "store_whole (environ (app_step tok_cfg (Callback tok_api_ok (Some ''c0de'')) (tok_state Map.empty)))"
proof (rule store_whole_invariant)
  show "reachable_good tok_cfg (tok_state Map.empty) (app_step tok_cfg (Callback tok_api_ok (Some ''c0de'')) (tok_state Map.empty))"
    by (rule reachable_good.step [OF reachable_good.init]) (simp add: request_api_def good_tok_api_ok)
  show "store_whole (environ (tok_state Map.empty))" by (simp add: store_whole_def tok_state_def)
qed

end
