(* ===== verification/Spec2Isabelle.thy ===== *)
theory Spec2Isabelle
  imports Export Requests Lifecycle
begin

text \<open>
  \<^bold>\<open>A verification library for strava-gh-viz.\<close>

  The program renders a running heatmap and year-to-date statistics from Strava data.
  src/app.py is the current dashboard; src/flask-app/app.py is an older variant that
  takes its token from the command-line flow of src/auth.py; src/fetch_strava_data.py
  exports the activities to JSON. The parts, leaf first:
  \<^item> the token store: \<open>save_token\<close>/\<open>load_token\<close> over \<open>os.environ\<close> (src/app.py), or
    over \<open>token.json\<close> (src/auth.py);
  \<^item> the token lifecycle: \<open>refresh_token_if_needed\<close>, \<open>get_access_token\<close> and the OAuth
    callback \<open>authorized\<close>, in both files;
  \<^item> the activity aggregator: \<open>fetch_running_data\<close> folds the run list into
    \<open>daily_mileage\<close>, a dict from date string to distance and duration; \<open>fetch_data\<close>
    of the export script builds the run list;
  \<^item> the calendar layout \<open>prepare_heatmap_data\<close>: every date of the year at (weekday,
    ISO week - 1), pivoted into a 7-row mileage matrix with tooltips;
  \<^item> the summary \<open>calculate_summary_statistics\<close>: active days and mileage of a year;
  \<^item> the dashboard route \<open>index\<close>, which runs them in this order, and
    \<open>fetch_user_profile\<close>.

  \<^bold>\<open>Theories.\<close>
  \<^item> \<open>Prelude\<close>: exceptions as \<open>py_error\<close>, results as \<open>py_error + 'a\<close>; \<open>str\<close> and
    \<open>int()\<close> of integers (whitespace, sign, underscores between digits) with their
    round trip; zero padding, and the fact that a digit string is fixed by its length and
    value; half-even rounding (\<open>py_round2\<close> is \<open>round(x, 2)\<close>); list and map lemmas,
    among them the key order of an association list filled by \<open>AList.update\<close>.
  \<^item> \<open>Dates\<close>: the calendar the code reaches through pandas and \<open>datetime\<close>, as CPython
    computes it (\<open>toordinal\<close>, \<open>dayofweek\<close>, \<open>iso_week\<close>, \<open>date_range\<close>,
    \<open>date_str\<close>, \<open>to_datetime\<close> with pandas' timestamp bounds). \<open>to_datetime\<close>
    reads ISO 8601 dates and timestamps (\<open>iso_date_fields\<close>, \<open>iso_time\<close>,
    \<open>iso_offset\<close>) and returns the date as written; \<open>pandas_modelled\<close> is the set of
    strings on which it is exact. A year's dates are enumerated once each, in order; ISO
    weeks lie in 1..53; date strings read back; a parsed string's date is its first ten
    characters.
  \<^item> \<open>Tokens\<close>: the environment store and lifecycle of src/app.py. The state record
    \<open>app_state\<close> holds \<open>os.environ\<close>, the global \<open>access_token\<close> and the list of calls
    made to Strava, whose token endpoint is a parameter. Each \<open>os.environ[...] =\<close> is its
    own, possibly failing, step. Lemmas: every branch of the lifecycle (valid, expired
    with a good, failed or malformed response, absent, unreadable), the callback, the
    save/load round trip.
  \<^item> \<open>Requests\<close>: \<open>get_access_token\<close> as three atomic steps (\<open>thread_step\<close>), with
    lemmas that they compute the same as the code when run alone and that three steps
    of fuel end a thread, and the inductive relation \<open>interleaved\<close> of two request
    threads. The properties: by rule induction, each thread makes at most one refresh
    call; a reachable interleaving makes two calls with the same refresh token.
  \<^item> \<open>Lifecycle\<close>: the token state machine of the specification (\<open>get_valid_token\<close>,
    \<open>complete_authorization\<close>) and the refinement of it by \<open>get_access_token\<close> and
    \<open>authorized\<close>. The abstraction \<open>abs_store\<close> maps the environment to the stored
    credential and \<open>api_view\<close> maps Strava's answers to the spec's. The outcome of each
    request is served by \<open>app_step\<close>, and \<open>reachable\<close> covers any sequence of
    requests. Two invariants are proved by rule induction. The keys present always form
    a prefix of the order \<open>save_token\<close> writes them in. While Strava's answers fail or
    are well formed, the store is never partially updated.
  \<^item> \<open>Aggregator\<close>: \<open>fetch_running_data\<close> (src/app.py) and the run list of
    \<open>fetch_data\<close>; the dict as an association list updated by \<open>AList.update\<close>.
    Lemmas: refinement of per-date sums, invariance under permutation, the
    well-formedness invariant, the empty dict when pandas rejects a start date, and the
    keys as the written dates in first-seen order.
  \<^item> \<open>Heatmap\<close>: the groupby and pivots of \<open>prepare_heatmap_data\<close>; cell contents,
    shape, column bounds, and the ISO-week artefacts at the year's ends.
  \<^item> \<open>Summary\<close>: \<open>calculate_summary_statistics\<close> against its specification (distinct
    dates of the year, one final rounding) and its uncaught \<open>ValueError\<close>.
  \<^item> \<open>Dashboard\<close>: \<open>fetch_user_profile\<close> and \<open>index\<close> of src/app.py. With a valid
    token the page renders whatever the upstream calls return; without one it
    redirects.
  \<^item> \<open>AuthFile\<close>: the \<open>token.json\<close> store and CLI flow of src/auth.py. The file is the
    value \<open>json.load\<close> returns for it, and \<open>app.run\<close>, which does not return, is an
    outcome of its own.
  \<^item> \<open>FlaskApp\<close>: src/flask-app/app.py. Runs are keyed by arrow's local date, with the
    zone offset at the instant as a parameter, and the statistics are those of 2024.
    Its \<open>prepare_heatmap_data\<close> and \<open>calculate_summary_statistics\<close> are copies of those
    of src/app.py. They are modelled by copies over the same helpers, shown equal to the
    originals.
  \<^item> \<open>Export\<close>: \<open>authenticate\<close>, \<open>fetch_data\<close>, \<open>save_to_json\<close> and \<open>main\<close> of
    src/fetch_strava_data.py. The run list it writes is the input \<open>fetch_running_data\<close>
    of src/app.py aggregates without loss.

  \<^bold>\<open>Modelling choices.\<close> Python floats are reals: sums are exact, so order independence
  holds in the model where float addition is only approximately associative; rounding
  is half-even on the exact value. Python ints are \<open>int\<close>. Exceptions are values of
  \<open>py_error\<close>; a caught exception is a case split on the result. External services
  (Strava, the Netlify function) are parameters or \<open>upstream\<close> inputs. The clock
  \<open>time.time()\<close>, the current year and the local zone are parameters.
  \<open>pd.to_datetime\<close> is modelled on the ISO 8601 forms the data has: \<open>YYYY-MM-DD\<close>,
  optionally followed by \<open>T\<close> or a space, \<open>HH:MM:SS\<close>, a fraction of up to nine digits
  and a zone \<open>Z\<close> or \<open>+HH:MM\<close>; the result is the written date, which is what
  \<open>strftime('%Y-%m-%d')\<close> and \<open>.year\<close> read. Other spellings pandas accepts through
  dateutil (\<open>'2024/03/01'\<close>, \<open>'2024-3-1'\<close>) are a \<open>ValueError\<close> stand-in. Every
  property that depends on which strings parse assumes \<open>pandas_modelled\<close>: ISO fields
  with month 1..12 and a non-zero day, and, with a time, a date that is either not in
  the calendar or a day inside the timestamp range, so that no offset crosses a bound. Concurrency has the granularity of whole statements of
  \<open>get_access_token\<close>: an interleaving inside \<open>save_token\<close> is not modelled, which only
  removes schedules.

  \<^bold>\<open>Not modelled.\<close> Flask routing and the templates (a page is the record of the
  template's arguments), the HTTP and Strava clients (their results are inputs),
  \<open>.env\<close> loading, the bytes of the JSON files written by \<open>json.dump\<close> (the value
  written is modelled), \<open>print\<close> calls, and the URL escaping of characters outside
  one byte.
\<close>

end
